(* ===== verification/Prelude.thy ===== *)
theory Prelude
  imports Complex_Main
begin

text \<open>
  Shared vocabulary of the modal-pattern development: how JavaScript values that the
  pattern reads from its options are represented (a property may be absent, \<open>null\<close>,
  or hold a value), JavaScript truthiness, the CSS values the pattern writes, the
  \<open>String.prototype.split\<close> and array-index semantics that \<open>positionModal\<close> relies
  on, an error type for the \<open>TypeError\<close>s the code can raise, and the generic list
  lemmas the component theories share.
\<close>

named_theorems modal_defs "definitions of the modal model unfolded by the component proofs"

subsection \<open>JavaScript values read from options\<close>

text \<open>
  An option property of the pattern is either absent (\<open>undefined\<close>), explicitly
  \<open>null\<close>, or holds a value. The code distinguishes the three: \<open>x !== null\<close> is true
  for an absent property, while \<open>if (x)\<close> is false for both.
\<close>

datatype 'a js_val = Undef | Null | Val 'a

type_synonym js_string = "string js_val"

text \<open>Truthiness of a string-valued property: the empty string is falsy.\<close>

fun js_truthy :: "js_string \<Rightarrow> bool" where
  "js_truthy Undef = False"
| "js_truthy Null = False"
| "js_truthy (Val s) = (s \<noteq> [])"

text \<open>Truthiness of a boolean-valued property (\<open>if (x)\<close>).\<close>

fun js_true :: "bool js_val \<Rightarrow> bool" where
  "js_true (Val b) = b"
| "js_true _ = False"

text \<open>
  \<open>$.extend(true, {}, defaults, overrides)\<close> on one property: an absent override
  keeps the default, anything else (\<open>null\<close> included) replaces it.
\<close>

fun js_extend :: "'a js_val \<Rightarrow> 'a js_val \<Rightarrow> 'a js_val" where
  "js_extend d Undef = d"
| "js_extend d v = v"

text \<open>Reading \<open>xs[i]\<close> of a JavaScript array: \<open>undefined\<close> out of range.\<close>

definition js_index :: "'a list \<Rightarrow> nat \<Rightarrow> 'a js_val" where
  "js_index xs i = (if i < length xs then Val (xs ! i) else Undef)"

subsection \<open>String splitting\<close>

text \<open>
  \<open>s.split(c)\<close> with a one-character separator: the maximal runs between separators,
  empty runs included (\<open>"".split(" ")\<close> is \<open>[""]\<close>, \<open>"a  b".split(" ")\<close> is
  \<open>["a", "", "b"]\<close>).
\<close>

fun js_split :: "char \<Rightarrow> string \<Rightarrow> string list" where
  "js_split c [] = [[]]"
| "js_split c (x # xs) =
     (if x = c then [] # js_split c xs
      else (let r = js_split c xs in (x # hd r) # tl r))"

text \<open>\<open>parts.join(c)\<close>.\<close>

fun js_join :: "char \<Rightarrow> string list \<Rightarrow> string" where
  "js_join c [] = []"
| "js_join c [w] = w"
| "js_join c (w # w' # ws) = w @ c # js_join c (w' # ws)"

subsection \<open>CSS values and errors\<close>

text \<open>
  A CSS length as the pattern writes it: \<open>n + 'px'\<close> is \<open>Px n\<close>, the string
  \<open>'auto'\<close> is \<open>Auto\<close>; other literal strings are kept as strings. JavaScript numbers
  are modelled as exact rationals: the pattern only adds, subtracts and halves pixel
  sizes, and rounding of doubles is not modelled.
\<close>

datatype css_val = Px rat | Auto | Str string

datatype css_prop = Padding | Margin | Width | Height | Position | Left | Right | Top | Bottom

text \<open>A method call on \<open>undefined\<close> or \<open>null\<close> raises a \<open>TypeError\<close>.\<close>

datatype js_error = Type_error string | No_instance

type_synonym 'a result = "js_error + 'a"

definition rbind :: "'a result \<Rightarrow> ('a \<Rightarrow> 'b result) \<Rightarrow> 'b result" where
  "rbind r f = (case r of Inl e \<Rightarrow> Inl e | Inr x \<Rightarrow> f x)"

subsection \<open>Shared lemmas\<close>

lemma js_split_nonempty [simp]: "js_split c s \<noteq> []"
  by (induction s) (simp_all add: Let_def)

lemma js_split_no_sep [simp]: "c \<notin> set s \<Longrightarrow> js_split c s = [s]"
  by (induction s) (auto simp: Let_def)

lemma js_split_append_sep:
  "c \<notin> set u \<Longrightarrow> js_split c (u @ c # v) = u # js_split c v"
  by (induction u) (auto simp: Let_def)

lemma js_split_hd_tl: "js_split c s = hd (js_split c s) # tl (js_split c s)"
  by simp

lemma rbind_Inl [simp]: "rbind (Inl e) f = Inl e"
  by (simp add: rbind_def)

lemma rbind_Inr [simp]: "rbind (Inr x) f = f x"
  by (simp add: rbind_def)

lemma rbind_eq_Inr_iff: "rbind r f = Inr y \<longleftrightarrow> (\<exists>x. r = Inr x \<and> f x = Inr y)"
  by (cases r) simp_all

lemma js_index_simps [simp]:
  "js_index [] i = Undef"
  "js_index (x # xs) 0 = Val x"
  "js_index (x # xs) (Suc i) = js_index xs i"
  by (simp_all add: js_index_def)

lemma js_extend_Val [simp]: "js_extend d (Val v) = Val v"
  by simp

lemma js_join_Cons_Cons: "js_join c ((x # w) # ws) = x # js_join c (w # ws)"
  by (cases ws) simp_all

lemma js_join_Nil_Cons: "ws \<noteq> [] \<Longrightarrow> js_join c ([] # ws) = c # js_join c ws"
  by (cases ws) simp_all

text \<open>An association list with distinct keys looks up the same read either way.\<close>

lemma map_of_rev_distinct:
  "distinct (map fst xs) \<Longrightarrow> map_of (rev xs) = map_of xs"
proof (induction xs)
  case Nil
  then show ?case by simp
next
  case (Cons p xs)
  obtain k v where p: "p = (k, v)" by (cases p)
  from Cons.prems p have "k \<notin> dom (map_of xs)" and "distinct (map fst xs)"
    by (auto simp: dom_map_of_conv_image_fst)
  moreover from this(1) have "[k \<mapsto> v] ++ map_of xs = map_of xs ++ [k \<mapsto> v]"
    by (intro map_add_comm) auto
  ultimately show ?case using Cons.IH by (simp add: p)
qed

text \<open>Updating one element of a list keeps a property every element has.\<close>

lemma list_update_all:
  "\<forall>x\<in>set xs. P x \<Longrightarrow> (i < length xs \<Longrightarrow> P (f (xs ! i))) \<Longrightarrow> \<forall>x\<in>set (xs[i := f (xs ! i)]). P x"
proof (cases "i < length xs")
  case True
  assume "\<forall>x\<in>set xs. P x" and "i < length xs \<Longrightarrow> P (f (xs ! i))"
  with True show ?thesis by (auto dest: set_update_subset_insert [THEN subsetD])
next
  case False
  assume "\<forall>x\<in>set xs. P x"
  with False show ?thesis by (simp add: list_update_beyond)
qed

text \<open>A loop (\<open>fold\<close>) keeps what each iteration keeps, and two loop bodies that agree
  where an invariant holds give the same loop.\<close>

lemma fold_invariant: "(\<And>x s. P s \<Longrightarrow> P (f x s)) \<Longrightarrow> P s \<Longrightarrow> P (fold f xs s)"
  by (induction xs arbitrary: s) auto

lemma fold_invariant_mem:
  "(\<And>x s. x \<in> set xs \<Longrightarrow> P s \<Longrightarrow> P (f x s)) \<Longrightarrow> P s \<Longrightarrow> P (fold f xs s)"
  by (induction xs arbitrary: s) auto

lemma fold_cong_inv:
  "(\<And>x t. P t \<Longrightarrow> f x t = g x t) \<Longrightarrow> (\<And>x t. P t \<Longrightarrow> P (f x t)) \<Longrightarrow> P s \<Longrightarrow>
     fold f xs s = fold g xs s"
  by (induction xs arbitrary: s) auto

end
