(* ===== verification/Position.thy ===== *)
theory Position
  imports Prelude
begin

text \<open>
  The position engine of \<open>src/js/patterns/modal.js\<close>: \<open>findPosition\<close> (the pure
  geometry that turns an anchor pair, a margin and four sizes into CSS offsets),
  \<open>positionModal\<close> (which resolves the margin option, parses the \<open>position\<close>
  option with \<open>split(' ')\<close>, resets the dialog's inline style and applies the offsets)
  and \<open>positionLoading\<close> (which centres the loading indicator). The sizes the code
  reads from the DOM (\<open>outerWidth(true)\<close>, \<open>width()\<close>, \<open>height()\<close>) are passed in
  as an explicit \<open>layout\<close> record.
\<close>

subsection \<open>findPosition\<close>

text \<open>
  The horizontal half of \<open>findPosition\<close>: \<open>'left'\<close> and \<open>'right'\<close> put the margin
  at that edge, anything else (an unknown word, or \<open>undefined\<close>) centres. In each
  branch a dialog wider than the container is forced to \<open>0px\<close>. The result is the
  list of properties the code stores into \<open>returnpos\<close>, in insertion order.
\<close>

definition hor_position :: "js_string \<Rightarrow> rat \<Rightarrow> rat \<Rightarrow> rat \<Rightarrow> (css_prop \<times> css_val) list" where
  "hor_position horpos margin modalWidth wrapperInnerWidth =
     (if horpos = Val ''left'' then
        [(Left, if modalWidth > wrapperInnerWidth then Px 0 else Px margin)]
      else if horpos = Val ''right'' then
        [(Right, if modalWidth > wrapperInnerWidth then Px 0 else Px margin), (Left, Auto)]
      else
        [(Left, if modalWidth > wrapperInnerWidth then Px 0
                else Px (wrapperInnerWidth / 2 - modalWidth / 2 - margin))])"

text \<open>The vertical half, symmetric with \<open>'top'\<close>, \<open>'bottom'\<close> and the centre.\<close>

definition vert_position :: "js_string \<Rightarrow> rat \<Rightarrow> rat \<Rightarrow> rat \<Rightarrow> (css_prop \<times> css_val) list" where
  "vert_position vertpos margin modalHeight wrapperInnerHeight =
     (if vertpos = Val ''top'' then
        [(Top, if modalHeight > wrapperInnerHeight then Px 0 else Px margin)]
      else if vertpos = Val ''bottom'' then
        [(Bottom, if modalHeight > wrapperInnerHeight then Px 0 else Px margin), (Top, Auto)]
      else
        [(Top, if modalHeight > wrapperInnerHeight then Px 0
               else Px (wrapperInnerHeight / 2 - modalHeight / 2 - margin))])"

definition findPosition ::
  "js_string \<Rightarrow> js_string \<Rightarrow> rat \<Rightarrow> rat \<Rightarrow> rat \<Rightarrow> rat \<Rightarrow> rat \<Rightarrow> (css_prop \<times> css_val) list" where
  "findPosition horpos vertpos margin modalWidth modalHeight wrapperInnerWidth wrapperInnerHeight =
     hor_position horpos margin modalWidth wrapperInnerWidth
     @ vert_position vertpos margin modalHeight wrapperInnerHeight"

subsection \<open>positionModal\<close>

text \<open>\<open>margin\<close> is a number or a function returning one (the default returns 20).\<close>

datatype margin_opt = Margin_num rat | Margin_fun "unit \<Rightarrow> rat"

fun resolve_margin :: "margin_opt \<Rightarrow> rat" where
  "resolve_margin (Margin_num m) = m"
| "resolve_margin (Margin_fun f) = f ()"

text \<open>The options \<open>positionModal\<close> reads, and their defaults.\<close>

record geometry_opts =
  opt_width :: string
  opt_height :: string
  opt_margin :: margin_opt
  opt_position :: string

definition default_geometry :: geometry_opts where
  "default_geometry =
     \<lparr>opt_width = '''', opt_height = '''', opt_margin = Margin_fun (\<lambda>_. 20),
      opt_position = ''center middle''\<rparr>"

text \<open>
  The sizes \<open>positionModal\<close> measures, after it has reset the dialog's style:
  \<open>$modal.outerWidth(true)\<close>, \<open>$modal.outerHeight(true)\<close>, the inner wrapper's
  \<open>width()\<close> and \<open>height()\<close>, the window height, and whether the wrapper's parent
  is \<open>body\<close>.
\<close>

record layout =
  modal_outer_w :: rat
  modal_outer_h :: rat
  inner_w :: rat
  inner_h :: rat
  window_h :: rat
  wrapper_in_body :: bool

text \<open>What one call of \<open>positionModal\<close> writes: the dialog's inline style and,
  when the wrapper sits in \<open>body\<close>, the wrapper's height.\<close>

record placement =
  modal_style :: "css_prop \<Rightarrow> css_val option"
  wrapper_height :: "rat option"

text \<open>jQuery's \<open>.css(prop, '')\<close> removes the property; a non-empty string is set.\<close>

definition css_string :: "string \<Rightarrow> css_val option" where
  "css_string v = (if v = [] then None else Some (Str v))"

text \<open>The \<open>for (var key in pos)\<close> loop: each returned property in insertion order.\<close>

definition apply_css :: "(css_prop \<Rightarrow> css_val option) \<Rightarrow> (css_prop \<times> css_val) list \<Rightarrow> (css_prop \<Rightarrow> css_val option)" where
  "apply_css st ps = fold (\<lambda>(k, v) st. st(k \<mapsto> v)) ps st"

text \<open>
  \<open>positionModal\<close>: nothing when the dialog has not been rendered (the early return);
  otherwise the style is cleared, padding, margin, width, height and \<open>position:
  absolute\<close> are set, the \<open>position\<close> option is split at spaces into the horizontal
  and vertical anchors (\<open>posopt[0]\<close>, \<open>posopt[1]\<close>) and the offsets of
  \<open>findPosition\<close> are applied.
\<close>

definition positionModal :: "geometry_opts \<Rightarrow> layout \<Rightarrow> bool \<Rightarrow> placement option" where
  "positionModal opts lay rendered =
     (if \<not> rendered then None
      else
        (let margin = resolve_margin (opt_margin opts);
             base = (Map.empty :: css_prop \<Rightarrow> css_val option)
                      (Padding \<mapsto> Str ''0'', Margin \<mapsto> Px margin, Position \<mapsto> Str ''absolute'',
                       Width := css_string (opt_width opts), Height := css_string (opt_height opts));
             posopt = js_split CHR '' '' (opt_position opts);
             pos = findPosition (js_index posopt 0) (js_index posopt 1) margin
                     (modal_outer_w lay) (modal_outer_h lay) (inner_w lay) (inner_h lay)
         in Some \<lparr>modal_style = apply_css base pos,
                  wrapper_height = (if wrapper_in_body lay then Some (window_h lay) else None)\<rparr>))"

subsection \<open>positionLoading\<close>

text \<open>The loading indicator's margins: half the wrapper less half the indicator.\<close>

definition positionLoading :: "rat \<Rightarrow> rat \<Rightarrow> rat \<Rightarrow> rat \<Rightarrow> rat \<times> rat" where
  "positionLoading wrapperW wrapperH loadingW loadingH =
     (wrapperW / 2 - loadingW / 2, wrapperH / 2 - loadingH / 2)"

subsection \<open>Lemmas\<close>

lemma hor_position_simps [simp]:
  "hor_position (Val ''left'') m mw ww = [(Left, if mw > ww then Px 0 else Px m)]"
  "hor_position (Val ''right'') m mw ww = [(Right, if mw > ww then Px 0 else Px m), (Left, Auto)]"
  "horpos \<noteq> Val ''left'' \<Longrightarrow> horpos \<noteq> Val ''right'' \<Longrightarrow>
     hor_position horpos m mw ww = [(Left, if mw > ww then Px 0 else Px (ww / 2 - mw / 2 - m))]"
  by (simp_all add: hor_position_def)

lemma vert_position_simps [simp]:
  "vert_position (Val ''top'') m mh wh = [(Top, if mh > wh then Px 0 else Px m)]"
  "vert_position (Val ''bottom'') m mh wh = [(Bottom, if mh > wh then Px 0 else Px m), (Top, Auto)]"
  "vertpos \<noteq> Val ''top'' \<Longrightarrow> vertpos \<noteq> Val ''bottom'' \<Longrightarrow>
     vert_position vertpos m mh wh = [(Top, if mh > wh then Px 0 else Px (wh / 2 - mh / 2 - m))]"
  by (simp_all add: vert_position_def)

lemma map_of_vert_hor_key: "k \<in> {Left, Right} \<Longrightarrow> map_of (vert_position v m mh wh) k = None"
  by (auto simp: vert_position_def)

lemma map_of_hor_vert_key: "k \<in> {Top, Bottom} \<Longrightarrow> map_of (hor_position h m mw ww) k = None"
  by (auto simp: hor_position_def)

lemma map_of_findPosition_hor:
  assumes "k \<in> {Left, Right}"
  shows "map_of (findPosition h v m mw mh ww wh) k = map_of (hor_position h m mw ww) k"
  using map_of_vert_hor_key [OF assms, of v m mh wh]
  by (simp add: findPosition_def map_add_def split: option.split)

lemma map_of_findPosition_vert:
  assumes "k \<in> {Top, Bottom}"
  shows "map_of (findPosition h v m mw mh ww wh) k = map_of (vert_position v m mh wh) k"
  using map_of_hor_vert_key [OF assms, of h m mw ww]
  by (simp add: findPosition_def map_add_def split: option.split)

lemma distinct_findPosition_keys: "distinct (map fst (findPosition h v m mw mh ww wh))"
  by (simp add: findPosition_def hor_position_def vert_position_def)

lemma apply_css_map_add: "apply_css st ps = st ++ map_of (rev ps)"
proof (induction ps arbitrary: st)
  case Nil
  then show ?case by (simp add: apply_css_def)
next
  case (Cons p ps)
  obtain k v where p: "p = (k, v)" by (cases p)
  have "apply_css st (p # ps) = apply_css (st(k \<mapsto> v)) ps"
    by (simp add: apply_css_def p)
  also have "\<dots> = st(k \<mapsto> v) ++ map_of (rev ps)" by (rule Cons.IH)
  finally show ?case by (simp add: p map_add_upd_left map_add_def fun_eq_iff split: option.split)
qed

lemma map_of_findPosition_other:
  "k \<notin> {Left, Right, Top, Bottom} \<Longrightarrow> map_of (findPosition h v m mw mh ww wh) k = None"
  by (auto simp: findPosition_def hor_position_def vert_position_def)

lemma apply_css_distinct:
  "distinct (map fst ps) \<Longrightarrow> apply_css st ps = st ++ map_of ps"
  by (simp add: apply_css_map_add map_of_rev_distinct)

lemma split_center_middle: "js_split CHR '' '' ''center middle'' = [''center'', ''middle'']"
  by simp

subsection \<open>Properties of the position engine\<close>

text \<open>
  Splitting the \<open>position\<close> option at spaces loses nothing: joining the
  parts of \<open>split(c)\<close> with \<open>c\<close> gives back the original string, for every string.
\<close>

theorem js_join_split: "js_join c (js_split c s) = s"
proof (induction s)
  case Nil
  then show ?case by simp
next
  case (Cons x xs)
  show ?case
  proof (cases "x = c")
    case True
    then show ?thesis using Cons.IH by (simp add: js_join_Nil_Cons)
  next
    case False
    have "js_join c (js_split c (x # xs)) = x # js_join c (hd (js_split c xs) # tl (js_split c xs))"
      using False by (simp add: Let_def js_join_Cons_Cons)
    also have "\<dots> = x # xs" using Cons.IH by simp
    finally show ?thesis .
  qed
qed

text \<open>
  Claim C19: for an edge anchor (\<open>left\<close>, \<open>right\<close>, \<open>top\<close>, \<open>bottom\<close>)
  \<open>findPosition\<close> puts the margin at that edge when the dialog fits the container on
  that axis and \<open>0px\<close> when it is larger; a \<open>right\<close> or \<open>bottom\<close> anchor also
  resets the opposite offset to \<open>auto\<close>.
\<close>

theorem findPosition_anchored_edges:
  "map_of (findPosition (Val ''left'') v m mw mh ww wh) Left = Some (Px (if ww < mw then 0 else m))
   \<and> map_of (findPosition (Val ''right'') v m mw mh ww wh) Right = Some (Px (if ww < mw then 0 else m))
   \<and> map_of (findPosition (Val ''right'') v m mw mh ww wh) Left = Some Auto
   \<and> map_of (findPosition h (Val ''top'') m mw mh ww wh) Top = Some (Px (if wh < mh then 0 else m))
   \<and> map_of (findPosition h (Val ''bottom'') m mw mh ww wh) Bottom = Some (Px (if wh < mh then 0 else m))
   \<and> map_of (findPosition h (Val ''bottom'') m mw mh ww wh) Top = Some Auto"
  by (simp add: map_of_findPosition_hor map_of_findPosition_vert)

text \<open>
  Claim C20: any anchor word other than the edge words (an unknown word, \<open>center\<close>,
  \<open>middle\<close> or a missing one) centres: the offset is half the container less half the
  dialog less the margin, or \<open>0px\<close> when the dialog is larger than the container.
\<close>

theorem findPosition_centre:
  assumes "horpos \<notin> {Val ''left'', Val ''right''}" and "vertpos \<notin> {Val ''top'', Val ''bottom''}"
  shows "map_of (findPosition horpos vertpos m mw mh ww wh) Left
           = Some (Px (if ww < mw then 0 else ww / 2 - mw / 2 - m))
         \<and> map_of (findPosition horpos vertpos m mw mh ww wh) Top
           = Some (Px (if wh < mh then 0 else wh / 2 - mh / 2 - m))"
  using assms by (simp add: map_of_findPosition_hor map_of_findPosition_vert)

theorem findPosition_centre_witness:
  "Val ''center'' \<notin> {Val ''left'', Val ''right''} \<and> (Undef :: js_string) \<notin> {Val ''top'', Val ''bottom''}
   \<and> map_of (findPosition (Val ''center'') Undef 20 300 200 1000 800) Left = Some (Px 330)
   \<and> map_of (findPosition (Val ''center'') Undef 20 300 200 1000 800) Top = Some (Px 280)"
  using findPosition_centre [of "Val ''center''" Undef 20 300 200 1000 800] by simp



text \<open>
  Claim C22: with the default options (\<open>position: "center middle"\<close>, a margin function
  returning 20, no width or height) a dialog that fits its container is placed by
  \<open>positionModal\<close> with the centred offsets of margin 20, a 20px CSS margin, no width
  and no right or bottom offset.
\<close>

theorem positionModal_default:
  assumes "modal_outer_w lay \<le> inner_w lay" and "modal_outer_h lay \<le> inner_h lay"
  shows "\<exists>p. positionModal default_geometry lay True = Some p
           \<and> modal_style p Left = Some (Px (inner_w lay / 2 - modal_outer_w lay / 2 - 20))
           \<and> modal_style p Top = Some (Px (inner_h lay / 2 - modal_outer_h lay / 2 - 20))
           \<and> modal_style p Margin = Some (Px 20)
           \<and> modal_style p Width = None \<and> modal_style p Right = None \<and> modal_style p Bottom = None"
  using assms
  by (simp add: positionModal_def default_geometry_def split_center_middle js_index_def
      apply_css_distinct distinct_findPosition_keys map_of_findPosition_hor
      map_of_findPosition_vert map_of_findPosition_other css_string_def map_add_def)

theorem positionModal_default_witness:
  "\<exists>p. positionModal default_geometry
         \<lparr>modal_outer_w = 400, modal_outer_h = 300, inner_w = 1000, inner_h = 700,
          window_h = 700, wrapper_in_body = True\<rparr> True = Some p
       \<and> modal_style p Left = Some (Px 280) \<and> modal_style p Top = Some (Px 180)
       \<and> modal_style p Margin = Some (Px 20)
       \<and> modal_style p Width = None \<and> modal_style p Right = None \<and> modal_style p Bottom = None"
  using positionModal_default [of "\<lparr>modal_outer_w = 400, modal_outer_h = 300, inner_w = 1000,
      inner_h = 700, window_h = 700, wrapper_in_body = True\<rparr>"]
  by simp

end
