(* ===== verification/Config.thy ===== *)
theory Config
  imports Prelude
begin

text \<open>
  The instance configuration of the modal pattern and the content-strategy selection of
  \<open>src/js/patterns/modal.js\<close>: the options that decide how a dialog gets its content
  (\<open>ajaxUrl\<close>, \<open>target\<close>, \<open>html\<close>, \<open>content\<close>), the backdrop and router options,
  the rewriting of these options by \<open>init\<close> when the pattern sits on a link, and
  \<open>initModal\<close>, which picks one of the four \<open>create*Modal\<close> strategies. An abstract
  priority specification of the strategy choice is stated and refined.
\<close>

subsection \<open>Options\<close>

text \<open>
  The options of one instance that the lifecycle reads. \<open>closeOnEsc\<close> and
  \<open>closeOnClick\<close> are the two \<open>backdropOptions\<close> flags; \<open>routerId\<close> is
  \<open>routerOptions.id\<close>.
\<close>

record modal_opts =
  o_ajaxUrl :: js_string
  o_target :: js_string
  o_html :: js_string
  o_content :: js_string
  o_closeOnEsc :: "bool js_val"
  o_closeOnClick :: "bool js_val"
  o_routerId :: js_string

text \<open>The defaults (\<open>ajaxUrl\<close>, \<open>target\<close> and \<open>html\<close> are not in \<open>defaults\<close>).\<close>

definition default_opts :: modal_opts where
  "default_opts =
     \<lparr>o_ajaxUrl = Undef, o_target = Undef, o_html = Undef, o_content = Val ''#content'',
      o_closeOnEsc = Val True, o_closeOnClick = Val True, o_routerId = Null\<rparr>"

text \<open>The element the pattern is attached to, as \<open>init\<close> inspects it.\<close>

record trigger_el =
  el_is_a :: bool
  el_href :: js_string

text \<open>
  \<open>init\<close> on a link with an \<open>href\<close>: a fragment link (\<open>#id\<close>) becomes the
  \<open>target\<close> (and clears the \<open>content\<close> selector) unless a target is configured; any
  other link becomes the \<open>ajaxUrl\<close> unless one is configured.
\<close>

definition init_from_link :: "trigger_el \<Rightarrow> modal_opts \<Rightarrow> modal_opts" where
  "init_from_link el o0 =
     (case el_href el of
        Val h \<Rightarrow>
          if el_is_a el \<and> h \<noteq> [] then
            (let o1 = (if \<not> js_truthy (o_target o0) \<and> take 1 h = ''#''
                       then o0\<lparr>o_target := Val h, o_content := Val ''''\<rparr> else o0)
             in if \<not> js_truthy (o_ajaxUrl o1) \<and> take 1 h \<noteq> ''#''
                then o1\<lparr>o_ajaxUrl := Val h\<rparr> else o1)
          else o0
      | _ \<Rightarrow> o0)"

subsection \<open>Content strategies\<close>

datatype strategy = Create_ajax | Create_target | Create_html | Create_basic

text \<open>\<open>initModal\<close>: the first configured of URL, target, inline HTML; else a clone.\<close>

definition initModal :: "modal_opts \<Rightarrow> strategy" where
  "initModal o0 =
     (if js_truthy (o_ajaxUrl o0) then Create_ajax
      else if js_truthy (o_target o0) then Create_target
      else if js_truthy (o_html o0) then Create_html
      else Create_basic)"

text \<open>
  The specification's priority rule, stated abstractly: each remote, target or inline
  strategy is available when its option is set, and the chosen strategy is the first
  available one in the priority order, the clone of the trigger element when none is.
\<close>

fun strategy_available :: "modal_opts \<Rightarrow> strategy \<Rightarrow> bool" where
  "strategy_available o0 Create_ajax = js_truthy (o_ajaxUrl o0)"
| "strategy_available o0 Create_target = js_truthy (o_target o0)"
| "strategy_available o0 Create_html = js_truthy (o_html o0)"
| "strategy_available o0 Create_basic = True"

definition strategy_priority :: "strategy list" where
  "strategy_priority = [Create_ajax, Create_target, Create_html, Create_basic]"

definition chosen_strategy :: "modal_opts \<Rightarrow> strategy" where
  "chosen_strategy o0 = hd (filter (strategy_available o0) strategy_priority)"

subsection \<open>Lemmas\<close>

lemma js_truthy_Val_iff [simp]: "js_truthy (Val s) \<longleftrightarrow> s \<noteq> []"
  by simp

lemma init_from_link_not_link:
  "\<not> el_is_a el \<Longrightarrow> init_from_link el o0 = o0"
  by (simp add: init_from_link_def split: js_val.split)

lemma take_1_eq_hash: "h \<noteq> [] \<Longrightarrow> (take (Suc 0) h = ''#'') = (hd h = CHR ''#'')"
  by (cases h) auto

subsection \<open>Properties of the strategy choice\<close>

text \<open>
  Claim C12: \<open>initModal\<close> implements the priority rule of the specification: the
  strategy it installs is the first available one of remote fetch, DOM target, inline
  HTML and clone of the trigger element, whatever combination of options is set.
\<close>

theorem initModal_refines_priority: "initModal o0 = chosen_strategy o0"
  by (simp add: initModal_def chosen_strategy_def strategy_priority_def)

text \<open>
  A pattern attached to a link with a non-empty \<open>href\<close> and neither
  \<open>ajaxUrl\<close> nor \<open>target\<close> configured loads the link's fragment target when the
  \<open>href\<close> starts with \<open>#\<close> and fetches the \<open>href\<close> remotely otherwise.
\<close>

theorem init_from_link_strategy:
  assumes "el_is_a el" and "el_href el = Val h" and "h \<noteq> []"
    and "o_ajaxUrl o0 = Undef" and "o_target o0 = Undef"
  shows "initModal (init_from_link el o0)
           = (if hd h = CHR ''#'' then Create_target else Create_ajax)"
  using assms by (simp add: init_from_link_def initModal_def take_1_eq_hash Let_def)

theorem init_from_link_strategy_witness:
  "initModal (init_from_link \<lparr>el_is_a = True, el_href = Val ''#help''\<rparr> default_opts) = Create_target
   \<and> initModal (init_from_link \<lparr>el_is_a = True, el_href = Val ''/about''\<rparr> default_opts) = Create_ajax"
proof -
  have t: "initModal (init_from_link \<lparr>el_is_a = True, el_href = Val ''#help''\<rparr> default_opts)
      = (if hd ''#help'' = CHR ''#'' then Create_target else Create_ajax)"
    by (rule init_from_link_strategy) (simp_all add: default_opts_def)
  have a: "initModal (init_from_link \<lparr>el_is_a = True, el_href = Val ''/about''\<rparr> default_opts)
      = (if hd ''/about'' = CHR ''#'' then Create_target else Create_ajax)"
    by (rule init_from_link_strategy) (simp_all add: default_opts_def)
  from t a show ?thesis by simp
qed

end
