(* ===== verification/Lifecycle.thy ===== *)
theory Lifecycle
  imports Config
begin

text \<open>
  The lifecycle of the modal pattern in \<open>src/js/patterns/modal.js\<close>: every instance
  mounted under one backdrop shares that backdrop and the wrapper (\<open>.modal-wrapper\<close>)
  that the first instance's \<open>init\<close> created; the inner wrapper gets its class from
  \<open>options.classWrapperInnerName\<close> (line 467), which the lookup never finds, so every
  instance creates its own inner wrapper and loading indicator.
  The state is therefore a \<open>scope\<close>: the shared elements and the list of instances in
  the order their \<open>init\<close> ran (which is the order of their \<open>hidden\<close> and
  \<open>keydown\<close> listeners). Operations: \<open>init\<close>, \<open>show\<close> with the four
  \<open>create*Modal\<close> strategies, completion and failure of the creation request,
  \<open>_show\<close>, \<open>render\<close> (its effect on the lifecycle), \<open>redraw\<close>, \<open>hide\<close>,
  \<open>showLoading\<close>, the escape-key and wrapper-click listeners, and the backdrop's
  \<open>hidden\<close> broadcast. The backdrop component itself is not in the repository; it is
  modelled from the specification: \<open>show\<close> marks it shown, \<open>hide\<close> of a shown
  backdrop marks it hidden and fires \<open>hidden\<close> to every listener, \<open>hide\<close> of a hidden
  backdrop does nothing.
\<close>

subsection \<open>State\<close>

type_synonym iid = nat \<comment> \<open>an instance: its position in init order\<close>
type_synonym rid = nat \<comment> \<open>a request issued by \<open>$.ajax\<close>\<close>
type_synonym nid = nat \<comment> \<open>a rendered \<open>.modal\<close> node\<close>

text \<open>Where the raw content (\<open>self.$raw\<close>) came from.\<close>

datatype raw_frag = Raw_response string | Raw_target js_string | Raw_html js_string | Raw_element

text \<open>The events the instance triggers, in the order of the code.\<close>

datatype modal_ev =
    Ev_before_ajax | Ev_after_ajax | Ev_render | Ev_before_render | Ev_before_events_setup
  | Ev_after_render | Ev_rendered | Ev_show | Ev_shown | Ev_hide | Ev_hidden
  | Ev_before_draw | Ev_after_draw

text \<open>
  One instance: its options, \<open>createModal\<close>, \<open>$raw\<close>, \<open>$modal\<close> (the node, if one
  was ever rendered; it is never reset to \<open>undefined\<close>), whether that node has the
  active class, \<open>ajaxXHR\<close>, and whether the trigger element \<open>$el\<close> has the active class.
\<close>

record inst =
  opts :: modal_opts
  createModal :: "strategy option"
  raw :: "raw_frag option"
  modal :: "nid option"
  modal_active :: bool
  ajaxXHR :: "rid option"
  el_active :: bool

text \<open>
  The shared scope. \<open>mounted\<close> lists the \<open>.modal\<close> nodes inside the wrapper (with
  the instance that rendered each), \<open>loading_shown\<close> the instances whose loading
  indicator is shown, \<open>pending\<close> the creation requests in flight,
  \<open>resize_hooks\<close> the \<open>resize.modal.patterns\<close> listeners on the window,
  \<open>wrapper_click_closes\<close> the \<open>closeOnClick\<close> flag the wrapper's click listener reads
  (that of the instance that created the wrapper), \<open>fresh\<close> the next unused node or
  request identity and \<open>log\<close> the triggered events. The loading indicator is per
  instance: \<open>init\<close> gives a new inner wrapper the class
  \<open>self.options.classWrapperInnerName\<close>, which is \<open>undefined\<close> (line 467), so the
  lookup of line 464 never finds an existing one, and every instance creates its own inner
  wrapper and \<open>$loading\<close> inside the shared wrapper.
\<close>

record scope =
  insts :: "inst list"
  backdrop_shown :: bool
  backdrop_closable :: bool
  wrapper_exists :: bool
  wrapper_shown :: bool
  loading_shown :: "iid set"
  overflow_hidden :: bool
  wrapper_click_closes :: bool
  mounted :: "(nid \<times> iid) list"
  pending :: "(rid \<times> iid) list"
  resize_hooks :: "iid list"
  fresh :: nat
  log :: "(iid \<times> modal_ev) list"

definition empty_scope :: scope where
  "empty_scope =
     \<lparr>insts = [], backdrop_shown = False, backdrop_closable = True, wrapper_exists = False,
      wrapper_shown = False, loading_shown = {}, overflow_hidden = False,
      wrapper_click_closes = False, mounted = [], pending = [], resize_hooks = [], fresh = 0,
      log = []\<rparr>"

subsection \<open>Helpers\<close>

definition inst_of :: "scope \<Rightarrow> iid \<Rightarrow> inst" where
  "inst_of s i = insts s ! i"

definition upd_inst :: "iid \<Rightarrow> (inst \<Rightarrow> inst) \<Rightarrow> scope \<Rightarrow> scope" where
  "upd_inst i f s = s\<lparr>insts := (insts s)[i := f (insts s ! i)]\<rparr>"

definition emit :: "iid \<Rightarrow> modal_ev \<Rightarrow> scope \<Rightarrow> scope" where
  "emit i e s = s\<lparr>log := log s @ [(i, e)]\<rparr>"

text \<open>\<open>xhr.abort()\<close>: the request leaves the set in flight; its callbacks never run.\<close>

definition abort :: "rid \<Rightarrow> scope \<Rightarrow> scope" where
  "abort r s = s\<lparr>pending := filter (\<lambda>p. fst p \<noteq> r) (pending s)\<rparr>"

text \<open>\<open>$modal.remove()\<close>: the node leaves the wrapper (a no-op if it already left).\<close>

definition remove_node :: "nid \<Rightarrow> scope \<Rightarrow> scope" where
  "remove_node n s = s\<lparr>mounted := filter (\<lambda>p. fst p \<noteq> n) (mounted s)\<rparr>"

text \<open>\<open>self.$loading.hide()\<close>: the instance's own indicator.\<close>

definition loading_off :: "iid \<Rightarrow> scope \<Rightarrow> scope" where
  "loading_off i s = s\<lparr>loading_shown := loading_shown s - {i}\<rparr>"

subsection \<open>init\<close>

text \<open>
  \<open>init\<close>: the options are rewritten for a link trigger, the wrapper is created with its
  click listener if the backdrop has none yet, and \<open>initModal\<close> installs the strategy.
\<close>

definition init_inst :: "modal_opts \<Rightarrow> trigger_el \<Rightarrow> scope \<Rightarrow> scope" where
  "init_inst o0 el s =
     (let o1 = init_from_link el o0;
          s1 = (if wrapper_exists s then s
                else s\<lparr>wrapper_exists := True, wrapper_shown := False,
                       wrapper_click_closes := js_true (o_closeOnClick o1)\<rparr>)
      in s1\<lparr>insts := insts s1 @
              [\<lparr>opts = o1, createModal = Some (initModal o1), raw = None, modal = None,
                modal_active = False, ajaxXHR = None, el_active = False\<rparr>]\<rparr>)"

subsection \<open>Rendering and showing\<close>

text \<open>
  \<open>render\<close> as the lifecycle sees it: the \<open>render\<close> and \<open>before-render\<close> events,
  the early return when there is no raw content, otherwise a fresh \<open>.modal\<close> node built
  from the template (without the active class) and appended to the inner wrapper. The
  previous node, if any, is not removed here.
\<close>

definition render :: "iid \<Rightarrow> scope \<Rightarrow> scope" where
  "render i s =
     (let s1 = emit i Ev_before_render (emit i Ev_render s)
      in if raw (inst_of s1 i) = None then emit i Ev_rendered s1
         else
           (let n = fresh s1;
                s2 = upd_inst i (\<lambda>x. x\<lparr>modal := Some n, modal_active := False\<rparr>)
                       (emit i Ev_before_events_setup s1);
                s3 = s2\<lparr>fresh := Suc n, mounted := mounted s2 @ [(n, i)]\<rparr>
            in emit i Ev_rendered (emit i Ev_after_render s3)))"

text \<open>
  \<open>_show\<close>: render, then show backdrop and wrapper, hide the loading indicator, mark
  \<open>$el\<close> and \<open>$modal\<close> active and add one window resize listener. \<open>$modal\<close> is
  read unguarded: if it is still \<open>undefined\<close> the call raises.
\<close>

definition show_rendered :: "iid \<Rightarrow> scope \<Rightarrow> scope result" where
  "show_rendered i s =
     (let s1 = render i s
      in case modal (inst_of s1 i) of
           None \<Rightarrow> Inl (Type_error ''$modal is undefined'')
         | Some n \<Rightarrow>
             (let s2 = loading_off i ((emit i Ev_show s1)\<lparr>backdrop_shown := True,
                         wrapper_shown := True, overflow_hidden := True\<rparr>);
                  s3 = upd_inst i (\<lambda>x. x\<lparr>el_active := True, modal_active := True\<rparr>) s2
              in Inr (emit i Ev_shown (s3\<lparr>resize_hooks := resize_hooks s3 @ [i]\<rparr>))))"

text \<open>
  \<open>showLoading(closable)\<close> of instance \<open>i\<close>: the backdrop's close flags, wrapper,
  backdrop, and the instance's own indicator (see \<open>loading_off\<close>).
\<close>

definition showLoading :: "iid \<Rightarrow> bool \<Rightarrow> scope \<Rightarrow> scope" where
  "showLoading i closable s =
     s\<lparr>backdrop_closable := closable, overflow_hidden := True, wrapper_shown := True,
       backdrop_shown := True, loading_shown := insert i (loading_shown s)\<rparr>"

text \<open>
  \<open>createAjaxModal\<close>: \<open>before-ajax\<close>, \<open>showLoading()\<close>, and a new request whose
  handle overwrites \<open>ajaxXHR\<close>; nothing checks or aborts a request already in flight.
\<close>

definition createAjaxModal :: "iid \<Rightarrow> scope \<Rightarrow> scope" where
  "createAjaxModal i s =
     (let s1 = showLoading i True (emit i Ev_before_ajax s);
          r = fresh s1
      in upd_inst i (\<lambda>x. x\<lparr>ajaxXHR := Some r\<rparr>)
           (s1\<lparr>fresh := Suc r, pending := pending s1 @ [(r, i)]\<rparr>))"

definition set_raw :: "iid \<Rightarrow> raw_frag \<Rightarrow> scope \<Rightarrow> scope" where
  "set_raw i f s = upd_inst i (\<lambda>x. x\<lparr>raw := Some f\<rparr>) s"

text \<open>\<open>show\<close> calls \<open>createModal\<close>; the three synchronous strategies end in \<open>_show\<close>.\<close>

fun create :: "strategy \<Rightarrow> iid \<Rightarrow> scope \<Rightarrow> scope result" where
  "create Create_ajax i s = Inr (createAjaxModal i s)"
| "create Create_target i s = show_rendered i (set_raw i (Raw_target (o_target (opts (inst_of s i)))) s)"
| "create Create_basic i s = show_rendered i (set_raw i Raw_element s)"
| "create Create_html i s = show_rendered i (set_raw i (Raw_html (o_html (opts (inst_of s i)))) s)"

definition show_modal :: "iid \<Rightarrow> scope \<Rightarrow> scope result" where
  "show_modal i s =
     (if length (insts s) \<le> i then Inl No_instance
      else case createModal (inst_of s i) of
             None \<Rightarrow> Inl (Type_error ''createModal is not a function'')
           | Some st \<Rightarrow> create st i s)"

text \<open>
  Completion of a creation request (\<open>.done\<close>): \<open>ajaxXHR\<close> is cleared, the indicator
  hidden, the body of the response becomes the raw content, \<open>after-ajax\<close>, \<open>_show\<close>.
  A request that is no longer in flight (aborted) runs no callback.
\<close>

definition ajax_done :: "rid \<Rightarrow> string \<Rightarrow> scope \<Rightarrow> scope result" where
  "ajax_done r body s =
     (case map_of (pending s) r of
        None \<Rightarrow> Inr s
      | Some i \<Rightarrow>
          (let s1 = upd_inst i (\<lambda>x. x\<lparr>ajaxXHR := None\<rparr>) (abort r s);
               s2 = set_raw i (Raw_response body) (loading_off i s1)
           in show_rendered i (emit i Ev_after_ajax s2)))"

text \<open>Failure of a creation request: the code registers no failure callback.\<close>

definition ajax_fail :: "rid \<Rightarrow> scope \<Rightarrow> scope" where
  "ajax_fail r s = abort r s"

subsection \<open>Hiding\<close>

text \<open>
  \<open>hide\<close>, parameterised by what \<open>this.backdrop.hide()\<close> does (so that the backdrop's
  \<open>hidden\<close> listeners, which call \<open>hide\<close> again, can be defined below). It aborts
  \<open>ajaxXHR\<close> (without clearing it), triggers \<open>hide\<close>, hides backdrop and wrapper only
  when fewer than two \<open>.modal\<close> nodes are in the wrapper, hides the indicator, takes the
  active class off \<open>$el\<close> (not off \<open>$modal\<close>), removes \<open>$modal\<close> and re-runs
  \<open>initModal\<close> if a node was ever rendered, removes every window listener of the
  \<open>resize.modal.patterns\<close> namespace and triggers \<open>hidden\<close>.
\<close>

definition abort_xhr :: "iid \<Rightarrow> scope \<Rightarrow> scope" where
  "abort_xhr i s = (case ajaxXHR (inst_of s i) of Some r \<Rightarrow> abort r s | None \<Rightarrow> s)"

definition hide_shared :: "(scope \<Rightarrow> scope) \<Rightarrow> scope \<Rightarrow> scope" where
  "hide_shared bd s =
     (if length (mounted s) < 2 then (bd s)\<lparr>wrapper_shown := False, overflow_hidden := False\<rparr>
      else s)"

definition hide_remove :: "iid \<Rightarrow> scope \<Rightarrow> scope" where
  "hide_remove i s =
     (case modal (inst_of s i) of
        Some n \<Rightarrow> upd_inst i (\<lambda>x. x\<lparr>createModal := Some (initModal (opts x))\<rparr>) (remove_node n s)
      | None \<Rightarrow> s)"

definition hide_with :: "(scope \<Rightarrow> scope) \<Rightarrow> iid \<Rightarrow> scope \<Rightarrow> scope" where
  "hide_with bd i s =
     emit i Ev_hidden
       ((hide_remove i
          (upd_inst i (\<lambda>x. x\<lparr>el_active := False\<rparr>)
            (loading_off i (hide_shared bd (emit i Ev_hide (abort_xhr i s))))))
        \<lparr>resize_hooks := []\<rparr>)"

text \<open>
  The \<open>hidden\<close> listeners every instance registers on the backdrop, in init order:
  an instance whose \<open>$modal\<close> exists and has the active class hides.
\<close>

definition hidden_listeners :: "(iid \<Rightarrow> scope \<Rightarrow> scope) \<Rightarrow> scope \<Rightarrow> scope" where
  "hidden_listeners h s =
     fold (\<lambda>i s. if modal (inst_of s i) \<noteq> None \<and> modal_active (inst_of s i) then h i s else s)
          [0..<length (insts s)] s"

text \<open>
  \<open>backdrop.hide()\<close>, with the depth of nested calls as fuel: a shown backdrop is marked
  hidden and fires \<open>hidden\<close>, whose listeners call \<open>hide\<close> with one less level.
  Depth 1 is enough: the nested calls find the backdrop hidden (\<open>backdrop_hide_enough\<close>).
\<close>

primrec backdrop_hide :: "nat \<Rightarrow> scope \<Rightarrow> scope" where
  "backdrop_hide 0 s = s"
| "backdrop_hide (Suc n) s =
     (if backdrop_shown s
      then hidden_listeners (hide_with (backdrop_hide n)) (s\<lparr>backdrop_shown := False\<rparr>)
      else s)"

definition hide :: "iid \<Rightarrow> scope \<Rightarrow> scope" where
  "hide i s = hide_with (backdrop_hide 1) i s"

text \<open>The document \<open>keydown\<close> listener for Escape of every instance with
  \<open>closeOnEsc === true\<close>, in init order: an instance whose \<open>$el\<close> is active hides.\<close>

definition escape_key :: "scope \<Rightarrow> scope" where
  "escape_key s =
     fold (\<lambda>i s. if o_closeOnEsc (opts (inst_of s i)) = Val True \<and> el_active (inst_of s i)
                 then hide i s else s)
          [0..<length (insts s)] s"

text \<open>A click on the wrapper (outside every dialog): \<open>backdrop.hide()\<close> when the
  wrapper's creator had \<open>closeOnClick\<close>.\<close>

definition wrapper_click :: "scope \<Rightarrow> scope" where
  "wrapper_click s = (if wrapper_click_closes s then backdrop_hide 1 s else s)"

subsection \<open>redraw\<close>

text \<open>
  \<open>redraw(response)\<close>: \<open>beforeDraw\<close>, the current node is removed (raising if there is
  none), the response body becomes the raw content, \<open>render\<close>, \<open>afterDraw\<close>. The new
  node does not get the active class.
\<close>

definition redraw :: "iid \<Rightarrow> string \<Rightarrow> scope \<Rightarrow> scope result" where
  "redraw i body s =
     (let s1 = emit i Ev_before_draw s
      in case modal (inst_of s1 i) of
           None \<Rightarrow> Inl (Type_error ''$modal is undefined'')
         | Some n \<Rightarrow>
             Inr (emit i Ev_after_draw
                    (render i (set_raw i (Raw_response body) (remove_node n s1)))))"

subsection \<open>Events\<close>

text \<open>
  What can happen to a scope: an instance is initialised; a trigger, a route or a caller
  shows an instance; a creation request completes or fails; a close button or a
  \<open>destroy\<close> event hides an instance; Escape is pressed; the wrapper is clicked; the
  backdrop hides itself (its own click or escape handling).
\<close>

datatype event =
    Init modal_opts trigger_el | Show iid | Ajax_done rid string | Ajax_fail rid
  | Hide iid | Escape | Wrapper_click | Backdrop_dismiss

fun step :: "scope \<Rightarrow> event \<Rightarrow> scope result" where
  "step s (Init o0 el) = Inr (init_inst o0 el s)"
| "step s (Show i) = show_modal i s"
| "step s (Ajax_done r body) = ajax_done r body s"
| "step s (Ajax_fail r) = Inr (ajax_fail r s)"
| "step s (Hide i) = (if i < length (insts s) then Inr (hide i s) else Inl No_instance)"
| "step s Escape = Inr (escape_key s)"
| "step s Wrapper_click = Inr (wrapper_click s)"
| "step s Backdrop_dismiss = Inr (backdrop_hide 1 s)"

text \<open>Running a list of events, stopping at the first exception.\<close>

fun run :: "scope \<Rightarrow> event list \<Rightarrow> scope result" where
  "run s [] = Inr s"
| "run s (e # es) = rbind (step s e) (\<lambda>s'. run s' es)"

inductive reachable :: "scope \<Rightarrow> bool" where
  start: "reachable empty_scope"
| step: "reachable s \<Longrightarrow> step s e = Inr s' \<Longrightarrow> reachable s'"

subsection \<open>Example configurations\<close>

text \<open>Configurations used by the concrete runs below: inline HTML, a remote URL, and a
  trigger element that is not a link.\<close>

abbreviation html_opts :: modal_opts where "html_opts \<equiv> default_opts\<lparr>o_html := Val ''<p>hi</p>''\<rparr>"
abbreviation ajax_opts :: modal_opts where "ajax_opts \<equiv> default_opts\<lparr>o_ajaxUrl := Val ''/form''\<rparr>"
abbreviation plain_el :: trigger_el where "plain_el \<equiv> \<lparr>el_is_a = False, el_href = Undef\<rparr>"

subsection \<open>Invariants\<close>

text \<open>
  The invariant of a scope: every instance has a content strategy installed (so
  \<open>show\<close> never calls \<open>null\<close>), and every creation request in flight belongs to an
  existing instance.
\<close>

definition scope_inv :: "scope \<Rightarrow> bool" where
  "scope_inv s \<longleftrightarrow> (\<forall>x\<in>set (insts s). createModal x \<noteq> None)
                   \<and> (\<forall>p\<in>set (pending s). snd p < length (insts s))"

text \<open>What \<open>hide\<close> of another instance, or the backdrop broadcast, keeps of instance
  \<open>i\<close>: it exists, its \<open>$modal\<close> is defined, its options are unchanged.\<close>

definition keeps_node :: "iid \<Rightarrow> modal_opts \<Rightarrow> scope \<Rightarrow> bool" where
  "keeps_node i o0 t \<longleftrightarrow> i < length (insts t) \<and> modal (inst_of t i) \<noteq> None \<and> opts (inst_of t i) = o0"

text \<open>A creation request \<open>r\<close> of instance \<open>i\<close> in flight that no instance's
  \<open>ajaxXHR\<close> refers to any more (a later \<open>show\<close> overwrote the handle).\<close>

definition superseded :: "rid \<Rightarrow> iid \<Rightarrow> scope \<Rightarrow> bool" where
  "superseded r i t \<longleftrightarrow> map_of (pending t) r = Some i \<and> i < length (insts t)
     \<and> (\<forall>j<length (insts t). ajaxXHR (inst_of t j) \<noteq> Some r)"

subsection \<open>Lemmas\<close>

lemma loading_off_fields [simp]:
  "insts (loading_off i s) = insts s" "mounted (loading_off i s) = mounted s"
  "pending (loading_off i s) = pending s" "fresh (loading_off i s) = fresh s"
  "log (loading_off i s) = log s" "backdrop_shown (loading_off i s) = backdrop_shown s"
  "wrapper_shown (loading_off i s) = wrapper_shown s" "resize_hooks (loading_off i s) = resize_hooks s"
  "wrapper_exists (loading_off i s) = wrapper_exists s"
  "loading_shown (loading_off i s) = loading_shown s - {i}"
  by (simp_all add: loading_off_def)

lemmas scope_defs [modal_defs] = inst_of_def upd_inst_def emit_def abort_def remove_node_def loading_off_def
  init_inst_def render_def show_rendered_def showLoading_def createAjaxModal_def set_raw_def
  show_modal_def ajax_done_def ajax_fail_def abort_xhr_def hide_shared_def hide_remove_def
  hide_with_def hidden_listeners_def hide_def escape_key_def wrapper_click_def redraw_def
  empty_scope_def default_opts_def init_from_link_def initModal_def

lemma scope_inv_upd_inst:
  "scope_inv s \<Longrightarrow> (\<And>x. createModal x \<noteq> None \<Longrightarrow> createModal (f x) \<noteq> None) \<Longrightarrow>
     scope_inv (upd_inst i f s)"
proof -
  assume inv: "scope_inv s" and f: "\<And>x. createModal x \<noteq> None \<Longrightarrow> createModal (f x) \<noteq> None"
  have "\<forall>x\<in>set ((insts s)[i := f (insts s ! i)]). createModal x \<noteq> None"
  proof (rule list_update_all)
    show "\<forall>x\<in>set (insts s). createModal x \<noteq> None" using inv by (simp add: scope_inv_def)
    assume "i < length (insts s)"
    then have "createModal (insts s ! i) \<noteq> None" using inv by (simp add: scope_inv_def)
    then show "createModal (f (insts s ! i)) \<noteq> None" by (rule f)
  qed
  with inv show ?thesis by (simp add: scope_inv_def upd_inst_def)
qed

lemma scope_inv_frame [simp]:
  "scope_inv (emit i e s) = scope_inv s"
  "scope_inv (remove_node n s) = scope_inv s"
  "scope_inv (showLoading j c s) = scope_inv s"
  "scope_inv (loading_off j s) = scope_inv s"
  "scope_inv (s\<lparr>resize_hooks := h\<rparr>) = scope_inv s"
  "scope_inv (s\<lparr>wrapper_shown := b, overflow_hidden := c\<rparr>) = scope_inv s"
  "scope_inv (s\<lparr>backdrop_shown := b\<rparr>) = scope_inv s"
  by (simp_all add: scope_inv_def emit_def remove_node_def showLoading_def loading_off_def)

lemma scope_inv_abort [intro]: "scope_inv s \<Longrightarrow> scope_inv (abort r s)"
  by (auto simp: scope_inv_def abort_def)

lemma length_upd_inst [simp]: "length (insts (upd_inst i f s)) = length (insts s)"
  by (simp add: upd_inst_def)

lemma scope_inv_set_raw [intro]: "scope_inv s \<Longrightarrow> scope_inv (set_raw i f s)"
  unfolding set_raw_def by (rule scope_inv_upd_inst) simp_all

lemma scope_inv_render [intro]: "scope_inv s \<Longrightarrow> scope_inv (render i s)"
proof -
  assume inv: "scope_inv s"
  have "scope_inv (upd_inst i (\<lambda>x. x\<lparr>modal := Some n, modal_active := False\<rparr>) s')"
    if "scope_inv s'" for n s'
    using that by (rule scope_inv_upd_inst) simp
  with inv show ?thesis
    by (auto simp: render_def Let_def scope_inv_def emit_def upd_inst_def)
qed

lemma scope_inv_show_rendered:
  "scope_inv s \<Longrightarrow> show_rendered i s = Inr s' \<Longrightarrow> scope_inv s'"
proof -
  assume inv: "scope_inv s" and r: "show_rendered i s = Inr s'"
  have "scope_inv (render i s)" using inv by blast
  then have "scope_inv (upd_inst i (\<lambda>x. x\<lparr>el_active := True, modal_active := True\<rparr>)
               (loading_off i ((emit i Ev_show (render i s))\<lparr>backdrop_shown := True,
                  wrapper_shown := True, overflow_hidden := True\<rparr>)))"
    by (intro scope_inv_upd_inst) (simp_all add: scope_inv_def emit_def loading_off_def)
  with r show ?thesis
    by (auto simp: show_rendered_def Let_def split: option.splits)
qed

lemma scope_inv_createAjaxModal:
  "scope_inv s \<Longrightarrow> i < length (insts s) \<Longrightarrow> scope_inv (createAjaxModal i s)"
  unfolding createAjaxModal_def Let_def
  by (rule scope_inv_upd_inst) (auto simp: scope_inv_def emit_def showLoading_def)

lemma scope_inv_show_modal:
  "scope_inv s \<Longrightarrow> show_modal i s = Inr s' \<Longrightarrow> scope_inv s'"
  by (auto simp: show_modal_def scope_inv_createAjaxModal
      elim!: create.elims intro: scope_inv_show_rendered split: option.splits if_splits)

lemma scope_inv_ajax_done:
  "scope_inv s \<Longrightarrow> ajax_done r body s = Inr s' \<Longrightarrow> scope_inv s'"
proof -
  assume inv: "scope_inv s" and d: "ajax_done r body s = Inr s'"
  show ?thesis
  proof (cases "map_of (pending s) r")
    case None
    with d inv show ?thesis by (simp add: ajax_done_def)
  next
    case (Some i)
    let ?s1 = "upd_inst i (\<lambda>x. x\<lparr>ajaxXHR := None\<rparr>) (abort r s)"
    have "scope_inv ?s1" using inv by (intro scope_inv_upd_inst) auto
    then have "scope_inv (set_raw i (Raw_response body) (loading_off i ?s1))"
      by auto
    then have inv2: "scope_inv (emit i Ev_after_ajax (set_raw i (Raw_response body) (loading_off i ?s1)))"
      by simp
    have "show_rendered i (emit i Ev_after_ajax (set_raw i (Raw_response body) (loading_off i ?s1))) = Inr s'"
      using d Some by (simp add: ajax_done_def Let_def)
    from scope_inv_show_rendered [OF inv2 this] show ?thesis .
  qed
qed

lemma backdrop_hide_preserves:
  assumes hw: "\<And>bd i t. (\<And>u. P u \<Longrightarrow> P (bd u)) \<Longrightarrow> P t \<Longrightarrow> P (hide_with bd i t)"
    and bs: "\<And>t. P t \<Longrightarrow> P (t\<lparr>backdrop_shown := False\<rparr>)"
    and "P s"
  shows "P (backdrop_hide n s)"
  using assms(3)
proof (induction n arbitrary: s)
  case 0
  then show ?case by simp
next
  case (Suc n)
  have "P (hidden_listeners (hide_with (backdrop_hide n)) (s\<lparr>backdrop_shown := False\<rparr>))"
    unfolding hidden_listeners_def
    by (rule fold_invariant) (auto intro: hw Suc.IH bs Suc.prems)
  with Suc.prems show ?case by simp
qed

lemma scope_inv_abort_xhr [intro]: "scope_inv s \<Longrightarrow> scope_inv (abort_xhr i s)"
  by (auto simp: abort_xhr_def split: option.split)

lemma scope_inv_hide_shared:
  "(\<And>t. scope_inv t \<Longrightarrow> scope_inv (bd t)) \<Longrightarrow> scope_inv s \<Longrightarrow> scope_inv (hide_shared bd s)"
  by (simp add: hide_shared_def)

lemma scope_inv_hide_remove [intro]: "scope_inv s \<Longrightarrow> scope_inv (hide_remove i s)"
  unfolding hide_remove_def by (auto intro!: scope_inv_upd_inst split: option.split)

lemma scope_inv_hide_with:
  assumes bd: "\<And>t. scope_inv t \<Longrightarrow> scope_inv (bd t)" and inv: "scope_inv s"
  shows "scope_inv (hide_with bd i s)"
proof -
  have "scope_inv (hide_shared bd (emit i Ev_hide (abort_xhr i s)))"
    using inv by (intro scope_inv_hide_shared bd) auto
  then have "scope_inv (upd_inst i (\<lambda>x. x\<lparr>el_active := False\<rparr>)
      (loading_off i (hide_shared bd (emit i Ev_hide (abort_xhr i s)))))"
    by (intro scope_inv_upd_inst) simp_all
  then show ?thesis by (auto simp: hide_with_def)
qed

lemma length_insts_ops [simp]:
  "length (insts (abort_xhr i t)) = length (insts t)"
  "length (insts (hide_remove i t)) = length (insts t)"
  "length (insts (remove_node n t)) = length (insts t)"
  by (simp_all add: abort_xhr_def abort_def hide_remove_def remove_node_def split: option.split)

lemma length_hide_with:
  "(\<And>u. length (insts (bd u)) = length (insts u)) \<Longrightarrow> length (insts (hide_with bd i t)) = length (insts t)"
  by (simp add: hide_with_def hide_shared_def emit_def)

lemma length_backdrop_hide: "length (insts (backdrop_hide n s)) = length (insts s)"
proof (induction n arbitrary: s)
  case 0
  then show ?case by simp
next
  case (Suc n)
  have "length (insts (hidden_listeners (hide_with (backdrop_hide n)) (s\<lparr>backdrop_shown := False\<rparr>)))
      = length (insts s)"
    unfolding hidden_listeners_def
    by (rule fold_invariant [where P = "\<lambda>t. length (insts t) = length (insts s)"])
       (simp_all add: length_hide_with Suc.IH)
  then show ?case by simp
qed

lemma length_hide [simp]: "length (insts (hide j t)) = length (insts t)"
  by (simp add: hide_def length_hide_with length_backdrop_hide del: backdrop_hide.simps)

lemma backdrop_hide_preserves_bounded:
  assumes hw: "\<And>bd j t. (\<And>u. P u \<Longrightarrow> P (bd u)) \<Longrightarrow> (\<And>u. length (insts (bd u)) = length (insts u))
                 \<Longrightarrow> P t \<Longrightarrow> j < length (insts t) \<Longrightarrow> P (hide_with bd j t)"
    and bs: "\<And>t. P t \<Longrightarrow> P (t\<lparr>backdrop_shown := False\<rparr>)"
    and "P s"
  shows "P (backdrop_hide n s)"
  using assms(3)
proof (induction n arbitrary: s)
  case 0
  then show ?case by simp
next
  case (Suc n)
  let ?s = "s\<lparr>backdrop_shown := False\<rparr>"
  have "P (hidden_listeners (hide_with (backdrop_hide n)) ?s)
        \<and> length (insts (hidden_listeners (hide_with (backdrop_hide n)) ?s)) = length (insts s)"
    unfolding hidden_listeners_def
  proof (rule fold_invariant_mem [where P = "\<lambda>t. P t \<and> length (insts t) = length (insts s)"])
    fix x t
    assume "x \<in> set [0..<length (insts ?s)]" and "P t \<and> length (insts t) = length (insts s)"
    then show "P ((\<lambda>i s. if modal (inst_of s i) \<noteq> None \<and> modal_active (inst_of s i)
                  then hide_with (backdrop_hide n) i s else s) x t)
             \<and> length (insts ((\<lambda>i s. if modal (inst_of s i) \<noteq> None \<and> modal_active (inst_of s i)
                  then hide_with (backdrop_hide n) i s else s) x t)) = length (insts s)"
      by (auto intro!: hw Suc.IH simp: length_backdrop_hide length_hide_with)
  qed (simp add: Suc.prems bs)
  with Suc.prems show ?case by simp
qed

lemma scope_inv_backdrop_hide: "scope_inv s \<Longrightarrow> scope_inv (backdrop_hide n s)"
  by (rule backdrop_hide_preserves) (auto intro: scope_inv_hide_with)

lemma scope_inv_hide: "scope_inv s \<Longrightarrow> scope_inv (hide i s)"
  unfolding hide_def by (intro scope_inv_hide_with scope_inv_backdrop_hide)

lemma scope_inv_escape_key: "scope_inv s \<Longrightarrow> scope_inv (escape_key s)"
  unfolding escape_key_def by (rule fold_invariant) (auto intro: scope_inv_hide)

lemma scope_inv_init: "scope_inv s \<Longrightarrow> scope_inv (init_inst o0 el s)"
  by (auto simp: scope_inv_def init_inst_def Let_def)

lemma scope_inv_step: "scope_inv s \<Longrightarrow> step s e = Inr s' \<Longrightarrow> scope_inv s'"
  by (cases e) (auto simp del: backdrop_hide.simps simp: scope_inv_init ajax_fail_def
      scope_inv_escape_key wrapper_click_def scope_inv_backdrop_hide scope_inv_hide split: if_splits
      intro: scope_inv_show_modal scope_inv_ajax_done)

lemma reachable_scope_inv: "reachable s \<Longrightarrow> scope_inv s"
proof (induction rule: reachable.induct)
  case start
  then show ?case by (simp add: scope_inv_def empty_scope_def)
next
  case (step s e s')
  then show ?case by (blast intro: scope_inv_step)
qed

lemma inst_of_upd_inst_same [simp]:
  "i < length (insts s) \<Longrightarrow> inst_of (upd_inst i f s) i = f (inst_of s i)"
  by (simp add: inst_of_def upd_inst_def)

lemma render_sets_modal:
  assumes "i < length (insts s)" and "raw (inst_of s i) \<noteq> None"
  shows "modal (inst_of (render i s) i) = Some (fresh s)"
  using assms by (auto simp: render_def Let_def emit_def inst_of_def upd_inst_def)

lemma show_rendered_ok:
  assumes "i < length (insts s)" and "raw (inst_of s i) \<noteq> None"
  shows "\<exists>s'. show_rendered i s = Inr s'"
  using render_sets_modal [OF assms] by (simp add: show_rendered_def Let_def)

lemma show_rendered_set_raw_ok:
  "i < length (insts s) \<Longrightarrow> \<exists>s'. show_rendered i (set_raw i f s) = Inr s'"
  by (rule show_rendered_ok) (simp_all add: set_raw_def)

lemma create_ok: "i < length (insts s) \<Longrightarrow> \<exists>s'. create st i s = Inr s'"
  by (cases st) (simp_all add: show_rendered_set_raw_ok)

lemma show_modal_ok:
  "scope_inv s \<Longrightarrow> i < length (insts s) \<Longrightarrow> \<exists>s'. show_modal i s = Inr s'"
  by (auto simp: show_modal_def scope_inv_def inst_of_def create_ok split: option.split)

lemma ajax_done_ok: "scope_inv s \<Longrightarrow> \<exists>s'. ajax_done r body s = Inr s'"
proof (cases "map_of (pending s) r")
  case None
  then show ?thesis by (simp add: ajax_done_def)
next
  case (Some i)
  assume inv: "scope_inv s"
  from Some have "(r, i) \<in> set (pending s)" by (rule map_of_SomeD)
  with inv have i: "i < length (insts s)" by (auto simp: scope_inv_def)
  let ?t = "emit i Ev_after_ajax (loading_off i (upd_inst i (\<lambda>x. x\<lparr>ajaxXHR := None\<rparr>) (abort r s)))"
  have "\<exists>s'. show_rendered i (set_raw i (Raw_response body) ?t) = Inr s'"
    using i by (intro show_rendered_set_raw_ok) (simp add: emit_def abort_def)
  moreover have "emit i Ev_after_ajax (set_raw i (Raw_response body)
      (loading_off i (upd_inst i (\<lambda>x. x\<lparr>ajaxXHR := None\<rparr>) (abort r s))))
      = set_raw i (Raw_response body) ?t"
    by (simp add: emit_def set_raw_def upd_inst_def)
  ultimately show ?thesis using Some by (simp add: ajax_done_def Let_def)
qed

lemma backdrop_shown_frame [simp]:
  "backdrop_shown (emit i e s) = backdrop_shown s"
  "backdrop_shown (abort_xhr i s) = backdrop_shown s"
  "backdrop_shown (upd_inst i f s) = backdrop_shown s"
  "backdrop_shown (hide_remove i s) = backdrop_shown s"
  "wrapper_shown (emit i e s) = wrapper_shown s"
  "wrapper_shown (abort_xhr i s) = wrapper_shown s"
  "wrapper_shown (upd_inst i f s) = wrapper_shown s"
  "wrapper_shown (hide_remove i s) = wrapper_shown s"
  "mounted (emit i e s) = mounted s"
  "mounted (abort_xhr i s) = mounted s"
  by (simp_all add: emit_def abort_xhr_def abort_def upd_inst_def hide_remove_def remove_node_def
      split: option.split)

lemma hide_with_shared:
  "backdrop_shown (hide_with bd i s) = backdrop_shown (hide_shared bd (emit i Ev_hide (abort_xhr i s)))"
  "wrapper_shown (hide_with bd i s) = wrapper_shown (hide_shared bd (emit i Ev_hide (abort_xhr i s)))"
  "i \<notin> loading_shown (hide_with bd i s)"
  by (simp_all add: hide_with_def emit_def upd_inst_def hide_remove_def remove_node_def loading_off_def
      split: option.split)

lemma backdrop_hide_hidden [simp]: "\<not> backdrop_shown s \<Longrightarrow> backdrop_hide n s = s"
  by (cases n) simp_all

lemma hide_with_keeps_hidden:
  "(\<And>t. \<not> backdrop_shown t \<Longrightarrow> \<not> backdrop_shown (bd t)) \<Longrightarrow> \<not> backdrop_shown s \<Longrightarrow>
     \<not> backdrop_shown (hide_with bd i s)"
  by (simp add: hide_with_shared hide_shared_def)

lemma hidden_listeners_keeps_hidden:
  "\<not> backdrop_shown s \<Longrightarrow> \<not> backdrop_shown (hidden_listeners (hide_with (backdrop_hide n)) s)"
  unfolding hidden_listeners_def
  by (rule fold_invariant [where P = "\<lambda>t. \<not> backdrop_shown t"])
     (simp_all add: hide_with_shared hide_shared_def)

lemma backdrop_hide_Suc_hidden: "\<not> backdrop_shown (backdrop_hide (Suc n) s)"
  by (simp add: hidden_listeners_keeps_hidden)

lemma hide_with_hidden_cong:
  "\<not> backdrop_shown s \<Longrightarrow> hide_with (backdrop_hide n) i s = hide_with (backdrop_hide 0) i s"
  by (simp add: hide_with_def hide_shared_def)

lemma keeps_node_upd_inst:
  "keeps_node i o0 t \<Longrightarrow> (\<And>x. modal x \<noteq> None \<Longrightarrow> modal (f x) \<noteq> None) \<Longrightarrow> (\<And>x. opts (f x) = opts x) \<Longrightarrow>
     keeps_node i o0 (upd_inst j f t)"
  by (cases "i = j") (auto simp: keeps_node_def inst_of_def upd_inst_def)

lemma keeps_node_frame [simp]:
  "keeps_node i o0 (emit j e t) = keeps_node i o0 t"
  "keeps_node i o0 (abort_xhr j t) = keeps_node i o0 t"
  "keeps_node i o0 (remove_node n t) = keeps_node i o0 t"
  "keeps_node i o0 (loading_off j t) = keeps_node i o0 t"
  "keeps_node i o0 (t\<lparr>resize_hooks := h\<rparr>) = keeps_node i o0 t"
  "keeps_node i o0 (t\<lparr>backdrop_shown := b\<rparr>) = keeps_node i o0 t"
  "keeps_node i o0 (t\<lparr>wrapper_shown := b, overflow_hidden := c\<rparr>) = keeps_node i o0 t"
  by (simp_all add: keeps_node_def emit_def abort_xhr_def abort_def remove_node_def inst_of_def loading_off_def
      split: option.split)

lemma keeps_node_hide_with:
  "(\<And>u. keeps_node i o0 u \<Longrightarrow> keeps_node i o0 (bd u)) \<Longrightarrow> keeps_node i o0 t \<Longrightarrow>
     keeps_node i o0 (hide_with bd j t)"
  unfolding hide_with_def hide_remove_def hide_shared_def
  by (auto intro!: keeps_node_upd_inst split: option.split)

lemma keeps_node_backdrop_hide: "keeps_node i o0 s \<Longrightarrow> keeps_node i o0 (backdrop_hide n s)"
  by (rule backdrop_hide_preserves) (auto intro: keeps_node_hide_with)

lemma hide_remove_resets:
  "keeps_node i o0 t \<Longrightarrow> createModal (inst_of (hide_remove i t) i) = Some (initModal o0)"
  by (auto simp: keeps_node_def hide_remove_def inst_of_def upd_inst_def remove_node_def)

lemma show_modal_ajax:
  "i < length (insts s) \<Longrightarrow> createModal (inst_of s i) = Some Create_ajax \<Longrightarrow>
     show_modal i s = Inr (createAjaxModal i s)"
  by (simp add: show_modal_def)

lemma createAjaxModal_fields:
  assumes "i < length (insts s)"
  shows "pending (createAjaxModal i s) = pending s @ [(fresh s, i)]"
    and "fresh (createAjaxModal i s) = Suc (fresh s)"
    and "length (insts (createAjaxModal i s)) = length (insts s)"
    and "inst_of (createAjaxModal i s) i = (inst_of s i)\<lparr>ajaxXHR := Some (fresh s)\<rparr>"
  using assms by (simp_all add: createAjaxModal_def inst_of_def upd_inst_def emit_def showLoading_def Let_def)

subsection \<open>Properties of the lifecycle\<close>

text \<open>
  Claim C1: hiding a dialog while another \<open>.modal\<close> node is still in the shared wrapper
  leaves the shared backdrop and wrapper as they are.
\<close>

theorem hide_sibling_keeps_shared:
  assumes "2 \<le> length (mounted s)"
  shows "backdrop_shown (hide i s) = backdrop_shown s \<and> wrapper_shown (hide i s) = wrapper_shown s"
  using assms by (simp add: hide_def hide_with_shared hide_shared_def)

theorem hide_sibling_keeps_shared_witness:
  "\<exists>s. run empty_scope [Init html_opts plain_el, Init html_opts plain_el, Show 0, Show 1] = Inr s
       \<and> 2 \<le> length (mounted s) \<and> backdrop_shown (hide 0 s) \<and> wrapper_shown (hide 0 s)"
proof -
  have "\<exists>s. run empty_scope [Init html_opts plain_el, Init html_opts plain_el, Show 0, Show 1] = Inr s
       \<and> 2 \<le> length (mounted s) \<and> backdrop_shown s \<and> wrapper_shown s"
    by (simp add: modal_defs)
  then obtain s where "run empty_scope [Init html_opts plain_el, Init html_opts plain_el, Show 0, Show 1] = Inr s"
    and m: "2 \<le> length (mounted s)" and "backdrop_shown s" and "wrapper_shown s" by blast
  with hide_sibling_keeps_shared [OF m, of 0] show ?thesis by auto
qed

text \<open>
  Claim C2: hiding the last dialog of the wrapper hides the backdrop, the wrapper and the
  instance's loading indicator, whatever the backdrop's \<open>hidden\<close> listeners do.
\<close>

theorem hide_last_dialog_hides_shared:
  assumes "length (mounted s) < 2"
  shows "\<not> backdrop_shown (hide i s) \<and> \<not> wrapper_shown (hide i s) \<and> i \<notin> loading_shown (hide i s)"
proof -
  have h: "\<not> backdrop_shown (backdrop_hide 1 t)" for t
    using backdrop_hide_Suc_hidden [of 0 t] by simp
  with assms show ?thesis
    by (simp del: backdrop_hide.simps add: hide_def hide_with_shared hide_shared_def)
qed

theorem hide_last_dialog_hides_shared_witness:
  "\<exists>s. run empty_scope [Init html_opts plain_el, Show 0] = Inr s
       \<and> length (mounted s) < 2 \<and> backdrop_shown s
       \<and> \<not> backdrop_shown (hide 0 s) \<and> \<not> wrapper_shown (hide 0 s) \<and> 0 \<notin> loading_shown (hide 0 s)"
proof -
  have "\<exists>s. run empty_scope [Init html_opts plain_el, Show 0] = Inr s
       \<and> length (mounted s) < 2 \<and> backdrop_shown s"
    by (simp add: modal_defs)
  then obtain s where "run empty_scope [Init html_opts plain_el, Show 0] = Inr s"
    and m: "length (mounted s) < 2" and "backdrop_shown s" by blast
  with hide_last_dialog_hides_shared [OF m, of 0] show ?thesis by auto
qed

text \<open>
  Claim C3: on every reachable scope no event raises a \<open>TypeError\<close>: \<open>show\<close> always
  finds a strategy installed and a rendered node, and a completing creation request always
  belongs to an existing instance.
\<close>

theorem step_never_type_error:
  assumes "reachable s"
  shows "step s e \<noteq> Inl (Type_error m)"
proof -
  have inv: "scope_inv s" using assms by (rule reachable_scope_inv)
  show ?thesis
  proof (cases e)
    case (Show i)
    show ?thesis
    proof (cases "i < length (insts s)")
      case True
      then show ?thesis using show_modal_ok [OF inv True] Show by auto
    next
      case False
      then show ?thesis using Show by (simp add: show_modal_def)
    qed
  next
    case (Ajax_done r body)
    obtain s' where "ajax_done r body s = Inr s'" using ajax_done_ok [OF inv] by blast
    then show ?thesis using Ajax_done by simp
  qed simp_all
qed

theorem step_never_type_error_witness:
  "reachable (init_inst default_opts \<lparr>el_is_a = False, el_href = Undef\<rparr> empty_scope)
   \<and> step (init_inst default_opts \<lparr>el_is_a = False, el_href = Undef\<rparr> empty_scope) (Show 0)
       \<noteq> Inl (Type_error ''$modal is undefined'')"
proof -
  have r: "reachable (init_inst default_opts \<lparr>el_is_a = False, el_href = Undef\<rparr> empty_scope)"
    by (rule reachable.step [OF reachable.start, of "Init default_opts \<lparr>el_is_a = False, el_href = Undef\<rparr>"]) simp
  then show ?thesis using step_never_type_error [OF r, of "Show 0"] by blast
qed

text \<open>
  Claim C6: \<open>show\<close> on a remote-content instance whose creation request is still in
  flight issues a second request: two requests of the same instance are then outstanding and
  \<open>ajaxXHR\<close> only holds the second, so the first can no longer be aborted.
\<close>

theorem show_twice_ajax:
  assumes "i < length (insts s)" and "createModal (inst_of s i) = Some Create_ajax"
    and "show_modal i s = Inr s1" and "show_modal i s1 = Inr s2"
  shows "\<exists>r1 r2. r1 \<noteq> r2 \<and> pending s2 = pending s @ [(r1, i), (r2, i)]
                 \<and> ajaxXHR (inst_of s2 i) = Some r2"
proof -
  have s1: "s1 = createAjaxModal i s" using assms show_modal_ajax by simp
  have i1: "i < length (insts s1)" and c1: "createModal (inst_of s1 i) = Some Create_ajax"
    using assms(1,2) by (simp_all add: s1 createAjaxModal_fields)
  have s2: "s2 = createAjaxModal i s1" using assms(4) show_modal_ajax [OF i1 c1] by simp
  show ?thesis
    by (rule exI [of _ "fresh s"], rule exI [of _ "fresh s1"])
       (simp add: s2 s1 createAjaxModal_fields assms(1) i1)
qed

theorem show_twice_ajax_witness:
  "\<exists>s1 s2. show_modal 0 (init_inst ajax_opts plain_el empty_scope) = Inr s1 \<and> show_modal 0 s1 = Inr s2
     \<and> (\<exists>r1 r2. r1 \<noteq> r2 \<and> pending s2 = [(r1, 0), (r2, 0)] \<and> ajaxXHR (inst_of s2 0) = Some r2)"
proof -
  let ?s = "init_inst ajax_opts plain_el empty_scope"
  have "\<exists>s1 s2. show_modal 0 ?s = Inr s1 \<and> show_modal 0 s1 = Inr s2" by (simp add: modal_defs)
  then obtain s1 s2 where a: "show_modal 0 ?s = Inr s1" and b: "show_modal 0 s1 = Inr s2" by blast
  have i: "0 < length (insts ?s)" and c: "createModal (inst_of ?s 0) = Some Create_ajax"
    and e: "pending ?s = []"
    by (simp_all add: modal_defs)
  from show_twice_ajax [OF i c a b] e a b show ?thesis by auto
qed

lemma map_of_filter_other:
  "k \<noteq> r \<Longrightarrow> map_of (filter (\<lambda>p. fst p \<noteq> k) xs) r = map_of xs r"
  by (induction xs) auto

lemma superseded_upd_inst:
  "(\<And>x. ajaxXHR (f x) = ajaxXHR x) \<Longrightarrow> superseded r i (upd_inst j f t) = superseded r i t"
  unfolding superseded_def
  by (cases "j < length (insts t)")
     (auto simp: upd_inst_def inst_of_def nth_list_update list_update_beyond)

lemma superseded_frame [simp]:
  "superseded r i (emit j e t) = superseded r i t"
  "superseded r i (loading_off j t) = superseded r i t"
  "superseded r i (remove_node n t) = superseded r i t"
  "superseded r i (t\<lparr>resize_hooks := h\<rparr>) = superseded r i t"
  "superseded r i (t\<lparr>backdrop_shown := b\<rparr>) = superseded r i t"
  "superseded r i (t\<lparr>wrapper_shown := b, overflow_hidden := c\<rparr>) = superseded r i t"
  by (simp_all add: superseded_def emit_def loading_off_def remove_node_def inst_of_def)

lemma superseded_abort_xhr: "superseded r i t \<Longrightarrow> j < length (insts t) \<Longrightarrow> superseded r i (abort_xhr j t)"
  by (auto simp: superseded_def abort_xhr_def abort_def inst_of_def map_of_filter_other split: option.split)

lemma superseded_hide_with:
  assumes bd: "\<And>u. superseded r i u \<Longrightarrow> superseded r i (bd u)"
      and bl: "\<And>u. length (insts (bd u)) = length (insts u)"
      and s: "superseded r i t" and j: "j < length (insts t)"
  shows "superseded r i (hide_with bd j t)"
proof -
  have "superseded r i (hide_shared bd (emit j Ev_hide (abort_xhr j t)))"
    using superseded_abort_xhr [OF s j] by (simp add: hide_shared_def bd)
  then show ?thesis
    by (simp add: hide_with_def hide_remove_def superseded_upd_inst split: option.split)
qed


lemma superseded_backdrop_hide: "superseded r i t \<Longrightarrow> superseded r i (backdrop_hide n t)"
  by (rule backdrop_hide_preserves_bounded) (auto intro: superseded_hide_with)

lemma superseded_hide: "superseded r i t \<Longrightarrow> j < length (insts t) \<Longrightarrow> superseded r i (hide j t)"
  unfolding hide_def
  by (rule superseded_hide_with) (simp_all add: superseded_backdrop_hide length_backdrop_hide del: backdrop_hide.simps)

lemma length_render [simp]: "length (insts (render i t)) = length (insts t)"
  by (simp add: render_def Let_def emit_def upd_inst_def)

lemma show_rendered_shows:
  assumes "show_rendered i u = Inr t" and "i < length (insts u)"
  shows "backdrop_shown t \<and> wrapper_shown t \<and> el_active (inst_of t i) \<and> modal_active (inst_of t i)"
  using assms by (auto simp: show_rendered_def Let_def emit_def upd_inst_def inst_of_def loading_off_def
                       split: option.splits)

text \<open>
  Claim C7: \<open>hide\<close> does not cancel a superseded creation request. For every scope in
  which a request of instance \<open>i\<close> is in flight but no \<open>ajaxXHR\<close> holds it, hiding
  \<open>i\<close> leaves the request in flight, and its completion renders and shows the dialog
  again, with backdrop and wrapper, although it was closed.
\<close>

theorem superseded_request_reshows:
  assumes "superseded r i s"
  shows "\<exists>t. ajax_done r body (hide i s) = Inr t
           \<and> backdrop_shown t \<and> wrapper_shown t \<and> el_active (inst_of t i) \<and> modal_active (inst_of t i)"
proof -
  have i: "i < length (insts s)" using assms by (simp add: superseded_def)
  then have "superseded r i (hide i s)" using assms by (rule superseded_hide [rotated])
  then have p: "map_of (pending (hide i s)) r = Some i" and l: "i < length (insts (hide i s))"
    by (simp_all add: superseded_def)
  let ?w = "emit i Ev_after_ajax (loading_off i (upd_inst i (\<lambda>x. x\<lparr>ajaxXHR := None\<rparr>) (abort r (hide i s))))"
  let ?u = "emit i Ev_after_ajax (set_raw i (Raw_response body)
              (loading_off i (upd_inst i (\<lambda>x. x\<lparr>ajaxXHR := None\<rparr>) (abort r (hide i s)))))"
  have lw: "i < length (insts ?w)" using l by (simp add: emit_def abort_def)
  obtain t where t0: "show_rendered i (set_raw i (Raw_response body) ?w) = Inr t"
    using show_rendered_set_raw_ok [OF lw] by blast
  have "?u = set_raw i (Raw_response body) ?w"
    by (simp add: emit_def set_raw_def upd_inst_def loading_off_def)
  with t0 have t: "show_rendered i ?u = Inr t" by simp
  have "i < length (insts (set_raw i (Raw_response body) ?w))" using lw by (simp add: set_raw_def)
  with t0 have "backdrop_shown t \<and> wrapper_shown t \<and> el_active (inst_of t i) \<and> modal_active (inst_of t i)"
    by (rule show_rendered_shows)
  moreover have "ajax_done r body (hide i s) = Inr t" using p t by (simp add: ajax_done_def Let_def)
  ultimately show ?thesis by blast
qed

theorem superseded_request_reshows_witness:
  "\<exists>s t. run empty_scope [Init ajax_opts plain_el, Show 0, Show 0] = Inr s \<and> superseded 0 0 s
     \<and> ajax_done 0 ''<p>late</p>'' (hide 0 s) = Inr t \<and> backdrop_shown t \<and> wrapper_shown t"
proof -
  obtain s where r: "run empty_scope [Init ajax_opts plain_el, Show 0, Show 0] = Inr s"
      and sup: "superseded 0 0 s"
    by (simp add: modal_defs superseded_def)
  with superseded_request_reshows [OF sup, of "''<p>late</p>''"] show ?thesis by blast
qed

text \<open>
  Claim C13: the strategy installed by \<open>hide\<close> is \<open>initModal\<close> of the instance's
  options: hiding a dialog that was rendered re-evaluates the content strategy, so the next
  \<open>show\<close> follows the priority rule again.
\<close>

theorem hide_resets_strategy:
  assumes "i < length (insts s)" and "modal (inst_of s i) \<noteq> None"
  shows "createModal (inst_of (hide i s) i) = Some (initModal (opts (inst_of s i)))"
proof -
  let ?t = "upd_inst i (\<lambda>x. x\<lparr>el_active := False\<rparr>)
              (loading_off i (hide_shared (backdrop_hide 1) (emit i Ev_hide (abort_xhr i s))))"
  have "keeps_node i (opts (inst_of s i)) s" using assms by (simp add: keeps_node_def)
  then have k: "keeps_node i (opts (inst_of s i)) ?t"
    by (auto simp del: backdrop_hide.simps simp: hide_shared_def
        intro!: keeps_node_upd_inst keeps_node_backdrop_hide)
  have "inst_of (hide i s) i = inst_of (hide_remove i ?t) i"
    unfolding hide_def hide_with_def by (simp add: emit_def inst_of_def)
  with hide_remove_resets [OF k] show ?thesis by simp
qed

theorem hide_resets_strategy_witness:
  "\<exists>s. run empty_scope [Init html_opts plain_el, Show 0] = Inr s
       \<and> 0 < length (insts s) \<and> modal (inst_of s 0) \<noteq> None
       \<and> createModal (inst_of (hide 0 s) 0) = Some Create_html"
proof -
  have "\<exists>s. run empty_scope [Init html_opts plain_el, Show 0] = Inr s
       \<and> 0 < length (insts s) \<and> modal (inst_of s 0) \<noteq> None \<and> initModal (opts (inst_of s 0)) = Create_html"
    by (simp add: modal_defs)
  then obtain s where r: "run empty_scope [Init html_opts plain_el, Show 0] = Inr s"
    and i: "0 < length (insts s)" and m: "modal (inst_of s 0) \<noteq> None"
    and o: "initModal (opts (inst_of s 0)) = Create_html" by blast
  with hide_resets_strategy [OF i m] show ?thesis by auto
qed

text \<open>
  One level of nesting is enough for the backdrop's \<open>hidden\<close> broadcast:
  \<open>backdrop_hide n\<close> is the same function for every \<open>n \<ge> 1\<close>, because the nested
  \<open>hide\<close> calls find the backdrop already hidden.
\<close>

theorem backdrop_hide_enough: "0 < n \<Longrightarrow> backdrop_hide n s = backdrop_hide 1 s"
proof (cases n)
  case 0
  assume "0 < n"
  with 0 show ?thesis by simp
next
  case (Suc m)
  have "hidden_listeners (hide_with (backdrop_hide m)) t = hidden_listeners (hide_with (backdrop_hide 0)) t"
    if "\<not> backdrop_shown t" for t
    unfolding hidden_listeners_def
    by (rule fold_cong_inv [where P = "\<lambda>t. \<not> backdrop_shown t"])
       (simp_all add: that hide_with_hidden_cong [of _ m] hide_with_shared hide_shared_def)
  with Suc show ?thesis by simp
qed

theorem backdrop_hide_enough_witness:
  "0 < (3::nat) \<and> backdrop_hide 3 empty_scope = backdrop_hide 1 empty_scope"
  using backdrop_hide_enough [of 3 empty_scope] by simp

text \<open>
  Claim C34: hiding the only dialog, while it is active and the backdrop shown, triggers
  \<open>hide\<close> and \<open>hidden\<close> twice: \<open>$modal\<close> keeps its active class, so the
  instance's own backdrop \<open>hidden\<close> listener re-enters \<open>hide\<close> inside the first call.
\<close>

theorem hide_only_dialog_events_twice:
  assumes "insts s = [x]" and "modal x = Some n" and "modal_active x" and "backdrop_shown s"
      and "length (mounted s) < 2"
  shows "log (hide 0 s) = log s @ [(0, Ev_hide), (0, Ev_hide), (0, Ev_hidden), (0, Ev_hidden)]"
  using assms
  by (simp add: hide_def hide_with_def hide_shared_def hidden_listeners_def emit_def abort_xhr_def
      abort_def upd_inst_def inst_of_def hide_remove_def remove_node_def loading_off_def
      split: option.split)

theorem hide_only_dialog_events_twice_witness:
  "\<exists>s x n. run empty_scope [Init html_opts plain_el, Show 0] = Inr s \<and> insts s = [x]
     \<and> modal x = Some n \<and> modal_active x \<and> backdrop_shown s \<and> length (mounted s) < 2
     \<and> log (hide 0 s) = log s @ [(0, Ev_hide), (0, Ev_hide), (0, Ev_hidden), (0, Ev_hidden)]"
proof -
  obtain s x n where r: "run empty_scope [Init html_opts plain_el, Show 0] = Inr s"
      and a: "insts s = [x]" "modal x = Some n" "modal_active x" "backdrop_shown s" "length (mounted s) < 2"
    by (simp add: modal_defs)
  with hide_only_dialog_events_twice [OF a] show ?thesis by blast
qed

text \<open>
  Claim C27: with a single instance the Escape key hides the dialog exactly when
  \<open>closeOnEsc\<close> is \<open>true\<close> and the trigger element is active, and does nothing
  otherwise.
\<close>

theorem escape_single_instance:
  assumes "insts s = [x]"
  shows "escape_key s = (if o_closeOnEsc (opts x) = Val True \<and> el_active x then hide 0 s else s)"
  using assms by (simp add: escape_key_def inst_of_def)

theorem escape_single_instance_witness:
  "\<exists>s x. run empty_scope [Init html_opts plain_el, Show 0] = Inr s \<and> insts s = [x]
         \<and> escape_key s = hide 0 s"
proof -
  have "\<exists>s x. run empty_scope [Init html_opts plain_el, Show 0] = Inr s \<and> insts s = [x]
         \<and> o_closeOnEsc (opts x) = Val True \<and> el_active x"
    by (simp add: modal_defs)
  then obtain s x where r: "run empty_scope [Init html_opts plain_el, Show 0] = Inr s"
    and i: "insts s = [x]" and "o_closeOnEsc (opts x) = Val True" and "el_active x" by blast
  with escape_single_instance [OF i] show ?thesis by auto
qed

text \<open>
  \<open>redraw\<close> mounts the new node without the active class.
\<close>

theorem redraw_drops_active_class:
  assumes "i < length (insts s)" and "redraw i body s = Inr s'"
  shows "\<not> modal_active (inst_of s' i) \<and> (\<exists>n. modal (inst_of s' i) = Some n \<and> (n, i) \<in> set (mounted s'))"
  using assms
  by (auto simp: redraw_def render_def Let_def emit_def set_raw_def remove_node_def inst_of_def
      upd_inst_def split: option.splits)

theorem redraw_drops_active_class_witness:
  "\<exists>s s'. run empty_scope [Init html_opts plain_el, Show 0] = Inr s
       \<and> 0 < length (insts s) \<and> redraw 0 ''<p>saved</p>'' s = Inr s'
       \<and> \<not> modal_active (inst_of s' 0)"
proof -
  have "\<exists>s s'. run empty_scope [Init html_opts plain_el, Show 0] = Inr s
       \<and> 0 < length (insts s) \<and> redraw 0 ''<p>saved</p>'' s = Inr s'"
    by (simp add: modal_defs)
  then obtain s s' where "run empty_scope [Init html_opts plain_el, Show 0] = Inr s"
    and i: "0 < length (insts s)" and d: "redraw 0 ''<p>saved</p>'' s = Inr s'" by blast
  with redraw_drops_active_class [OF i d] show ?thesis by auto
qed

lemma hidden_listeners_inactive:
  "(\<forall>j<length (insts s). \<not> modal_active (inst_of s j)) \<Longrightarrow> hidden_listeners h s = s"
proof -
  have fixed: "(\<forall>x\<in>set xs. f x s = s) \<Longrightarrow> fold f xs s = s" for f and xs :: "nat list"
    by (induction xs) auto
  assume "\<forall>j<length (insts s). \<not> modal_active (inst_of s j)"
  then show ?thesis unfolding hidden_listeners_def by (intro fixed) auto
qed

lemma redraw_other_inst:
  "redraw i b s = Inr t \<Longrightarrow> j \<noteq> i \<Longrightarrow> inst_of t j = inst_of s j"
  by (auto simp: redraw_def render_def Let_def emit_def set_raw_def remove_node_def inst_of_def
      upd_inst_def split: option.splits)

lemma length_redraw_inst: "redraw i b s = Inr t \<Longrightarrow> length (insts t) = length (insts s)"
  by (auto simp: redraw_def Let_def emit_def set_raw_def remove_node_def upd_inst_def
      split: option.splits)

text \<open>
  Claim C33: after a redraw the dialog cannot be dismissed through the backdrop. When no
  other instance is active, a wrapper click that closes the backdrop changes nothing but
  the backdrop: the redrawn node lacks the active class, so no \<open>hidden\<close> listener
  hides it, and the dialog stays mounted inside the shown wrapper.
\<close>

theorem redraw_then_dismiss_leaves_dialog:
  assumes i: "i < length (insts s)" and others: "\<forall>j<length (insts s). j \<noteq> i \<longrightarrow> \<not> modal_active (inst_of s j)"
      and r: "redraw i b s = Inr t" and c: "wrapper_click_closes t"
  shows "wrapper_click t = t\<lparr>backdrop_shown := False\<rparr>"
proof -
  have "\<forall>j<length (insts t). \<not> modal_active (inst_of t j)"
  proof (intro allI impI)
    fix j assume "j < length (insts t)"
    then show "\<not> modal_active (inst_of t j)"
      using redraw_drops_active_class [OF i r] redraw_other_inst [OF r] others length_redraw_inst [OF r]
      by (cases "j = i") auto
  qed
  then have "\<forall>j<length (insts (t\<lparr>backdrop_shown := False\<rparr>)). \<not> modal_active (inst_of (t\<lparr>backdrop_shown := False\<rparr>) j)"
    by (simp add: inst_of_def)
  then show ?thesis using c
    by (cases "backdrop_shown t") (simp_all add: wrapper_click_def hidden_listeners_inactive)
qed

theorem redraw_then_dismiss_leaves_dialog_witness:
  "\<exists>s t. run empty_scope [Init html_opts plain_el, Show 0] = Inr s
     \<and> 0 < length (insts s) \<and> (\<forall>j<length (insts s). j \<noteq> 0 \<longrightarrow> \<not> modal_active (inst_of s j))
     \<and> redraw 0 ''<p>saved</p>'' s = Inr t \<and> wrapper_click_closes t \<and> backdrop_shown t
     \<and> wrapper_click t = t\<lparr>backdrop_shown := False\<rparr> \<and> wrapper_shown t \<and> mounted t = [(1, 0)]"
proof -
  obtain s t where r: "run empty_scope [Init html_opts plain_el, Show 0] = Inr s"
      and i: "0 < length (insts s)" and o: "\<forall>j<length (insts s). j \<noteq> 0 \<longrightarrow> \<not> modal_active (inst_of s j)"
      and d: "redraw 0 ''<p>saved</p>'' s = Inr t" and c: "wrapper_click_closes t"
      and e: "backdrop_shown t \<and> wrapper_shown t \<and> mounted t = [(1, 0)]"
    by (simp add: modal_defs)
  with redraw_then_dismiss_leaves_dialog [OF i o d c] show ?thesis by blast
qed

end
