(* ===== verification/Actions.thy ===== *)
theory Actions
  imports Prelude "HOL-Library.AList"
begin

text \<open>
  The action dispatcher of \<open>src/js/patterns/modal.js\<close>: the \<open>form\<close> option, which binds
  one handler per configured action selector inside the dialog body and classifies each
  event (instance method, form submission, link fetch), and \<open>handleFormAction\<close> and
  \<open>handleLinkAction\<close>, which resolve the URL, issue the background request and handle
  its completion. A handler is modelled as the request it issues and, for each outcome
  of that request, the list of effects the callbacks produce in order (callbacks of the
  configuration called, events triggered, redraw, destroy, navigation, reload). The
  lifecycle applies these effects (theory \<open>System\<close>).
\<close>

subsection \<open>Action options\<close>

text \<open>A configured URL is a string or a function of the action element.\<close>

datatype 'el url_opt = Url_lit string | Url_fun "'el \<Rightarrow> string"

text \<open>
  \<open>redirectToUrl\<close> is a string or a function of the response; the default function
  reads the \<open>href\<close> of the first \<open>base\<close> tag of the response.
\<close>

datatype redirect_opt = Redirect_lit js_string | Redirect_base_href

text \<open>A callback option: absent, \<open>null\<close>, or a function (\<open>Val ()\<close>).\<close>

type_synonym callback = "unit js_val"

definition has_cb :: "callback \<Rightarrow> bool" where
  "has_cb c = (c = Val ())"

text \<open>The element an action is bound to, as the handlers inspect it.\<close>

record action_el =
  tag :: string
  attr_name :: js_string
  attr_value :: js_string
  attr_href :: js_string
  form_action :: js_string \<comment> \<open>\<open>$action.parents('form').attr('action')\<close>\<close>
  in_form :: bool \<comment> \<open>\<open>$form\<close> is not empty: \<open>$action\<close> is a form or has an ancestor
    \<open>form:not(.disableAutoSubmit)\<close>\<close>

text \<open>The keys of \<open>actionOptions\<close>; a configured action gives any subset of them.\<close>

record action_opts =
  a_eventType :: js_string
  a_ajaxUrl :: "action_el url_opt js_val"
  a_modalFunction :: js_string
  a_isForm :: "bool js_val"
  a_timeout :: "nat js_val"
  a_displayInModal :: "bool js_val"
  a_reloadWindowOnClose :: "bool js_val"
  a_error :: js_string
  a_formFieldError :: js_string
  a_onSuccess :: callback
  a_onError :: callback
  a_onFormError :: callback
  a_onTimeout :: callback
  a_redirectOnResponse :: "bool js_val"
  a_redirectToUrl :: "redirect_opt js_val"

definition default_action_opts :: action_opts where
  "default_action_opts =
     \<lparr>a_eventType = Val ''click'', a_ajaxUrl = Null, a_modalFunction = Null, a_isForm = Val False,
      a_timeout = Val 5000, a_displayInModal = Val True, a_reloadWindowOnClose = Val True,
      a_error = Val ''.portalMessage.error'', a_formFieldError = Val ''.field.error'',
      a_onSuccess = Null, a_onError = Null, a_onFormError = Null, a_onTimeout = Null,
      a_redirectOnResponse = Val False, a_redirectToUrl = Val Redirect_base_href\<rparr>"

text \<open>
  \<open>$.extend(true, {}, self.options.actionOptions, _.pick(options, actionKeys))\<close>: each
  key the action gives (even \<open>null\<close>) overrides the instance's action defaults.
\<close>

definition merge_action :: "action_opts \<Rightarrow> action_opts \<Rightarrow> action_opts" where
  "merge_action d a =
     \<lparr>a_eventType = js_extend (a_eventType d) (a_eventType a),
      a_ajaxUrl = js_extend (a_ajaxUrl d) (a_ajaxUrl a),
      a_modalFunction = js_extend (a_modalFunction d) (a_modalFunction a),
      a_isForm = js_extend (a_isForm d) (a_isForm a),
      a_timeout = js_extend (a_timeout d) (a_timeout a),
      a_displayInModal = js_extend (a_displayInModal d) (a_displayInModal a),
      a_reloadWindowOnClose = js_extend (a_reloadWindowOnClose d) (a_reloadWindowOnClose a),
      a_error = js_extend (a_error d) (a_error a),
      a_formFieldError = js_extend (a_formFieldError d) (a_formFieldError a),
      a_onSuccess = js_extend (a_onSuccess d) (a_onSuccess a),
      a_onError = js_extend (a_onError d) (a_onError a),
      a_onFormError = js_extend (a_onFormError d) (a_onFormError a),
      a_onTimeout = js_extend (a_onTimeout d) (a_onTimeout a),
      a_redirectOnResponse = js_extend (a_redirectOnResponse d) (a_redirectOnResponse a),
      a_redirectToUrl = js_extend (a_redirectToUrl d) (a_redirectToUrl a)\<rparr>"

text \<open>The options an action written as \<open>{}\<close> gives: none.\<close>

definition no_action_opts :: action_opts where
  "no_action_opts =
     \<lparr>a_eventType = Undef, a_ajaxUrl = Undef, a_modalFunction = Undef, a_isForm = Undef,
      a_timeout = Undef, a_displayInModal = Undef, a_reloadWindowOnClose = Undef, a_error = Undef,
      a_formFieldError = Undef, a_onSuccess = Undef, a_onError = Undef, a_onFormError = Undef,
      a_onTimeout = Undef, a_redirectOnResponse = Undef, a_redirectToUrl = Undef\<rparr>"

subsection \<open>Classification\<close>

text \<open>What one bound event does, after \<open>showLoading(false)\<close>.\<close>

datatype action_kind = Act_modal_function string | Act_form | Act_link | Act_none

text \<open>
  The handler's classification: an instance method named by the merged options; else a
  form submission for an \<open>input\<close> or \<open>button\<close>, or when the action's own options say
  \<open>isForm: true\<close>; else a link fetch when the action's own \<open>ajaxUrl\<close> is not
  \<open>null\<close> (an absent key is \<open>undefined\<close>, which is not \<open>null\<close>) or the element is an
  \<open>a\<close>. The raw options \<open>a\<close> and the merged \<open>m\<close> are both read, as in the code.
\<close>

definition classify :: "action_opts \<Rightarrow> action_opts \<Rightarrow> action_el \<Rightarrow> action_kind" where
  "classify a m el =
     (case a_modalFunction m of
        Val f \<Rightarrow> Act_modal_function f
      | Undef \<Rightarrow> Act_modal_function ''undefined''
      | Null \<Rightarrow>
          if tag el = ''input'' \<or> tag el = ''button'' \<or> a_isForm a = Val True then Act_form
          else if a_ajaxUrl a \<noteq> Null \<or> tag el = ''a'' then Act_link
          else Act_none)"

subsection \<open>Requests\<close>

text \<open>The background requests: a form submission (URL, the extra field naming the
  control that submitted, timeout) and a link fetch (URL only).\<close>

datatype request =
    Form_submit js_string "js_string \<times> js_string" "nat js_val"
  | Link_get js_string

text \<open>\<open>handleFormAction\<close>'s URL: the configured one (\<open>ajaxUrl !== null\<close>), else the
  enclosing form's \<open>action\<close>.\<close>

definition form_url :: "action_opts \<Rightarrow> action_el \<Rightarrow> js_string" where
  "form_url m el =
     (case a_ajaxUrl m of
        Null \<Rightarrow> form_action el
      | Val (Url_fun f) \<Rightarrow> Val (f el)
      | Val (Url_lit u) \<Rightarrow> Val u
      | Undef \<Rightarrow> Undef)"

definition form_request :: "action_opts \<Rightarrow> action_el \<Rightarrow> request" where
  "form_request m el = Form_submit (form_url m el) (attr_name el, attr_value el) (a_timeout m)"

text \<open>\<open>handleLinkAction\<close>'s URL: the configured one when truthy, else the \<open>href\<close>.\<close>

definition link_url :: "action_opts \<Rightarrow> action_el \<Rightarrow> js_string" where
  "link_url m el =
     (case a_ajaxUrl m of
        Val (Url_fun f) \<Rightarrow> Val (f el)
      | Val (Url_lit u) \<Rightarrow> (if u \<noteq> [] then Val u else attr_href el)
      | _ \<Rightarrow> attr_href el)"

subsection \<open>Completion\<close>

text \<open>A response: its body, which selectors match inside it, and its first \<open>base\<close>
  tag's \<open>href\<close> (\<open>None\<close> when it has no \<open>base\<close> tag).\<close>

record response =
  body :: string
  selects :: "string \<Rightarrow> bool"
  base_href :: "js_string option"

text \<open>What a callback does to the outside world, in order.\<close>

datatype cb_arg = Arg_self | Arg_modal | Arg_xhr | Arg_status | Arg_error | Arg_response | Arg_form

datatype effect =
    Call_onTimeout "cb_arg list" | Call_onError | Log_error | Call_onFormError | Call_onSuccess
  | Redraw string | Navigate js_string | Destroy | Reload | Hide_loading | Trigger string
  | Call_method string

text \<open>The error-marker test: either selector matches in the response.\<close>

definition has_error_marker :: "action_opts \<Rightarrow> response \<Rightarrow> bool" where
  "has_error_marker m r =
     ((case a_error m of Val sel \<Rightarrow> selects r sel | _ \<Rightarrow> False)
      \<or> (case a_formFieldError m of Val sel \<Rightarrow> selects r sel | _ \<Rightarrow> False))"

text \<open>
  The redirect target. The default function runs a regular expression for a \<open>base\<close>
  tag and indexes its result: without a \<open>base\<close> tag that is \<open>null[0]\<close>, a
  \<open>TypeError\<close>.
\<close>

fun redirect_url :: "redirect_opt js_val \<Rightarrow> response \<Rightarrow> js_string result" where
  "redirect_url (Val Redirect_base_href) r =
     (case base_href r of None \<Rightarrow> Inl (Type_error ''null has no properties'') | Some h \<Rightarrow> Inr h)"
| "redirect_url (Val (Redirect_lit u)) r = Inr u"
| "redirect_url Undef r = Inr Undef"
| "redirect_url Null r = Inr Null"

text \<open>\<open>handleFormAction\<close>'s error callback. The timeout callback is invoked as
  \<open>onTimeout.apply(self, xhr, errorStatus)\<close>, which passes no arguments.\<close>

definition form_error :: "action_opts \<Rightarrow> string \<Rightarrow> effect list" where
  "form_error m status =
     (if status = ''timeout'' \<and> has_cb (a_onTimeout m) then [Call_onTimeout []]
      else if has_cb (a_onError m) then [Call_onError] else [Log_error])
     @ [Trigger ''formActionError'']"

text \<open>The redirect step of \<open>handleFormAction\<close>'s success callback: navigate the parent
  window when \<open>redirectOnResponse === true\<close>.\<close>

definition form_redirect :: "action_opts \<Rightarrow> response \<Rightarrow> effect list result" where
  "form_redirect m r =
     (if a_redirectOnResponse m = Val True
      then rbind (redirect_url (a_redirectToUrl m) r) (\<lambda>u. Inr [Navigate u])
      else Inr [])"

text \<open>Its settling step: redraw in place when \<open>displayInModal === true\<close>, else the
  \<open>destroy\<close> event on the action and a reload when \<open>reloadWindowOnClose\<close> is truthy.\<close>

definition form_settle :: "action_opts \<Rightarrow> response \<Rightarrow> effect list" where
  "form_settle m r =
     (if a_displayInModal m = Val True then [Redraw (body r)]
      else Destroy # (if js_true (a_reloadWindowOnClose m) then [Reload] else []))"

text \<open>
  \<open>handleFormAction\<close>'s success callback: an error marker hands the response to
  \<open>onFormError\<close> or redraws and stops; otherwise the redirect, \<open>onSuccess\<close>, the
  settling step, then \<open>formActionSuccess\<close>.
\<close>

definition form_success :: "action_opts \<Rightarrow> response \<Rightarrow> effect list result" where
  "form_success m r =
     (if has_error_marker m r then
        Inr (if has_cb (a_onFormError m) then [Call_onFormError] else [Redraw (body r)])
      else
        rbind (form_redirect m r)
          (\<lambda>redir. Inr (redir @ (if has_cb (a_onSuccess m) then [Call_onSuccess] else [])
                        @ form_settle m r @ [Trigger ''formActionSuccess''])))"

text \<open>\<open>handleLinkAction\<close>'s error callback: the timeout callback gets the dialog, the
  request and the status; the loading indicator is hidden.\<close>

definition link_error :: "action_opts \<Rightarrow> string \<Rightarrow> effect list" where
  "link_error m status =
     (if status = ''timeout'' \<and> has_cb (a_onTimeout m) then [Call_onTimeout [Arg_modal, Arg_xhr, Arg_error]]
      else if has_cb (a_onError m) then [Call_onError] else [Log_error])
     @ [Hide_loading, Trigger ''linkActionError'']"

text \<open>\<open>handleLinkAction\<close>'s success callback: redraw, \<open>onSuccess\<close>, hide the indicator.\<close>

definition link_success :: "action_opts \<Rightarrow> response \<Rightarrow> effect list" where
  "link_success m r =
     [Redraw (body r)] @ (if has_cb (a_onSuccess m) then [Call_onSuccess] else [])
     @ [Hide_loading, Trigger ''linkActionSuccess'']"

subsection \<open>Dispatch\<close>

text \<open>What a bound event starts: a method call, a request, an immediate navigation
  (\<open>displayInModal: false\<close> on a link), or nothing.\<close>

datatype dispatch = Run_method string | Send request | Go js_string | Nothing

definition dispatch_action :: "action_opts \<Rightarrow> action_opts \<Rightarrow> action_el \<Rightarrow> dispatch" where
  "dispatch_action d a el =
     (let m = merge_action d a
      in case classify a m el of
           Act_modal_function f \<Rightarrow> Run_method f
         | Act_form \<Rightarrow> if in_form el then Send (form_request m el) else Nothing
         | Act_link \<Rightarrow>
             if a_displayInModal m = Val False then Go (link_url m el)
             else Send (Link_get (link_url m el))
         | Act_none \<Rightarrow> Nothing)"

subsection \<open>The configured actions\<close>

text \<open>Assigning \<open>obj[k] = v\<close> on a JavaScript object: an existing key keeps its place and
  takes the new value, a new key is appended.\<close>

definition obj_set :: "'k \<Rightarrow> 'v \<Rightarrow> ('k \<times> 'v) list \<Rightarrow> ('k \<times> 'v) list" where
  "obj_set k v xs =
     (if k \<in> set (map fst xs) then map (\<lambda>p. if fst p = k then (k, v) else p) xs
      else xs @ [(k, v)])"

text \<open>
  The start of \<open>form(actions)\<close>: with \<open>automaticallyAddButtonActions\<close> the button
  selector, and with \<open>loadLinksWithinModal\<close> the selector \<open>a\<close>, are set to an
  action with no options, replacing whatever the configuration gave for them.
\<close>

definition form_actions ::
  "bool js_val \<Rightarrow> string \<Rightarrow> bool js_val \<Rightarrow> (string \<times> action_opts) list \<Rightarrow> (string \<times> action_opts) list" where
  "form_actions addButtons buttons loadLinks acts =
     (let a1 = (if js_true addButtons then obj_set buttons no_action_opts acts else acts)
      in if js_true loadLinks then obj_set ''a'' no_action_opts a1 else a1)"

text \<open>
  The options the redraw of an action renders with (\<open>patternOptions\<close>): the action's
  non-action keys, deep-extended with the instance's options, so a key the instance has
  (every key of \<open>defaults\<close>) replaces the action's. The keys the renderer reads:
\<close>

record render_opts =
  p_title :: js_string
  p_titleSelector :: js_string
  p_prependContent :: js_string
  p_content :: js_string
  p_buttons :: js_string

definition default_render_opts :: render_opts where
  "default_render_opts =
     \<lparr>p_title = Null, p_titleSelector = Val ''h1:first'', p_prependContent = Val ''.portalMessage'',
      p_content = Val ''#content'',
      p_buttons = Val (''.formControls > input[type='' @ [CHR 0x22] @ ''submit'' @ [CHR 0x22] @ '']'')\<rparr>"

definition pattern_options :: "render_opts \<Rightarrow> render_opts \<Rightarrow> render_opts" where
  "pattern_options a inst =
     \<lparr>p_title = js_extend (p_title a) (p_title inst),
      p_titleSelector = js_extend (p_titleSelector a) (p_titleSelector inst),
      p_prependContent = js_extend (p_prependContent a) (p_prependContent inst),
      p_content = js_extend (p_content a) (p_content inst),
      p_buttons = js_extend (p_buttons a) (p_buttons inst)\<rparr>"

subsection \<open>Layered resolution\<close>

text \<open>
  The specification's layered configuration: each key takes its value from the first
  layer that gives it, in the order action, instance, default.
\<close>

fun layer :: "'a js_val list \<Rightarrow> 'a js_val" where
  "layer [] = Undef"
| "layer (Undef # vs) = layer vs"
| "layer (v # vs) = v"

definition resolve_action :: "action_opts list \<Rightarrow> action_opts" where
  "resolve_action ls =
     \<lparr>a_eventType = layer (map a_eventType ls), a_ajaxUrl = layer (map a_ajaxUrl ls),
      a_modalFunction = layer (map a_modalFunction ls), a_isForm = layer (map a_isForm ls),
      a_timeout = layer (map a_timeout ls), a_displayInModal = layer (map a_displayInModal ls),
      a_reloadWindowOnClose = layer (map a_reloadWindowOnClose ls), a_error = layer (map a_error ls),
      a_formFieldError = layer (map a_formFieldError ls), a_onSuccess = layer (map a_onSuccess ls),
      a_onError = layer (map a_onError ls), a_onFormError = layer (map a_onFormError ls),
      a_onTimeout = layer (map a_onTimeout ls),
      a_redirectOnResponse = layer (map a_redirectOnResponse ls),
      a_redirectToUrl = layer (map a_redirectToUrl ls)\<rparr>"

subsection \<open>Classes of effects\<close>

text \<open>The effects that settle the dialog (redraw or destroy), those that change what the
  user sees (settling, navigation, reload), and those that report a failure.\<close>

definition is_settle :: "effect \<Rightarrow> bool" where
  "is_settle e = (case e of Redraw _ \<Rightarrow> True | Destroy \<Rightarrow> True | _ \<Rightarrow> False)"

definition changes_content :: "effect \<Rightarrow> bool" where
  "changes_content e = (case e of Redraw _ \<Rightarrow> True | Destroy \<Rightarrow> True | Navigate _ \<Rightarrow> True
                        | Reload \<Rightarrow> True | _ \<Rightarrow> False)"

definition is_report :: "effect \<Rightarrow> bool" where
  "is_report e = (case e of Call_onTimeout _ \<Rightarrow> True | Call_onError \<Rightarrow> True | Log_error \<Rightarrow> True
                   | _ \<Rightarrow> False)"

text \<open>Responses and elements used by the examples.\<close>

abbreviation field_error_resp :: response where
  "field_error_resp \<equiv> \<lparr>body = ''<div class=field error>'', selects = (\<lambda>sel. sel = ''.field.error''),
                         base_href = None\<rparr>"

abbreviation ok_resp :: response where
  "ok_resp \<equiv> \<lparr>body = ''<p>saved</p>'', selects = (\<lambda>sel. False), base_href = None\<rparr>"

abbreviation div_el :: action_el where
  "div_el \<equiv> \<lparr>tag = ''div'', attr_name = Undef, attr_value = Undef, attr_href = Undef, form_action = Undef,
              in_form = False\<rparr>"

subsection \<open>Lemmas\<close>

lemma js_extend_given: "v \<noteq> Undef \<Longrightarrow> js_extend d v = v"
  by (cases v) simp_all

lemma js_extend_layer: "js_extend (js_extend d i) a = layer [a, i, d]"
  by (cases a; cases i; cases d) simp_all

lemma map_of_obj_set_same: "map_of (obj_set k v xs) k = Some v"
proof (cases "k \<in> set (map fst xs)")
  case True
  then show ?thesis by (induction xs) (auto simp: obj_set_def)
next
  case False
  then have "map_of xs k = None" by (simp add: map_of_eq_None_iff)
  with False show ?thesis by (simp add: obj_set_def map_add_def)
qed

lemma update_absent: "k \<notin> set (map fst xs) \<Longrightarrow> AList.update k v xs = xs @ [(k, v)]"
  by (induction xs) auto

lemma update_present:
  "distinct (map fst xs) \<Longrightarrow> k \<in> set (map fst xs) \<Longrightarrow>
     AList.update k v xs = map (\<lambda>p. if fst p = k then (k, v) else p) xs"
proof (induction xs)
  case Nil
  then show ?case by simp
next
  case (Cons p xs)
  show ?case
  proof (cases "fst p = k")
    case True
    with Cons.prems have "\<forall>q\<in>set xs. fst q \<noteq> k" by (auto simp: image_iff)
    then have "map (\<lambda>p. if fst p = k then (k, v) else p) xs = xs" by (simp add: map_idI)
    with True show ?thesis by (cases p) simp
  next
    case False
    with Cons show ?thesis by (cases p) simp
  qed
qed

lemma form_redirect_Inr:
  "form_redirect m r = Inr xs \<Longrightarrow> xs = [] \<or> (\<exists>u. xs = [Navigate u])"
  by (auto simp: form_redirect_def rbind_eq_Inr_iff split: if_splits)

lemma form_settle_once: "length (filter is_settle (form_settle m r)) = 1"
  by (simp add: form_settle_def is_settle_def)

lemmas action_defs [modal_defs] = default_action_opts_def merge_action_def no_action_opts_def
  classify_def dispatch_action_def form_url_def form_request_def link_url_def has_error_marker_def
  has_cb_def form_error_def form_redirect_def form_settle_def form_success_def link_error_def
  link_success_def

subsection \<open>Properties of the action dispatcher\<close>

text \<open>
  Claim C8: a form response that carries an error marker (the portal error or a field
  error) never runs the success callback, the redirect or the destroy: it goes to
  \<open>onFormError\<close> when one is configured and is redrawn in the dialog otherwise.
\<close>

theorem form_success_marker:
  assumes "has_error_marker m r"
  shows "form_success m r = Inr (if has_cb (a_onFormError m) then [Call_onFormError] else [Redraw (body r)])"
  using assms by (simp add: form_success_def)

theorem form_success_marker_witness:
  "has_error_marker default_action_opts field_error_resp
   \<and> form_success default_action_opts field_error_resp = Inr [Redraw ''<div class=field error>'']"
  using form_success_marker [of default_action_opts field_error_resp]
  by (simp add: has_error_marker_def default_action_opts_def has_cb_def)

text \<open>
  Claim C10: a form response without error marker that the success callback handles
  without raising settles the dialog exactly once: one redraw in place or one destroy,
  never both and never neither.
\<close>

theorem form_success_settles_once:
  assumes "\<not> has_error_marker m r" and "form_success m r = Inr effs"
  shows "length (filter is_settle effs) = 1"
proof -
  from assms obtain redir where "form_redirect m r = Inr redir"
    and effs: "effs = redir @ (if has_cb (a_onSuccess m) then [Call_onSuccess] else [])
                       @ form_settle m r @ [Trigger ''formActionSuccess'']"
    by (auto simp: form_success_def rbind_eq_Inr_iff)
  then have "filter is_settle redir = []"
    by (auto dest: form_redirect_Inr simp: is_settle_def)
  with effs form_settle_once show ?thesis by (simp add: is_settle_def)
qed

theorem form_success_settles_once_witness:
  "\<not> has_error_marker default_action_opts ok_resp
   \<and> form_success default_action_opts ok_resp = Inr [Redraw ''<p>saved</p>'', Trigger ''formActionSuccess'']
   \<and> length (filter is_settle [Redraw ''<p>saved</p>'', Trigger ''formActionSuccess'']) = 1"
  using form_success_settles_once [of default_action_opts ok_resp
      "[Redraw ''<p>saved</p>'', Trigger ''formActionSuccess'']"]
  by (simp add: modal_defs)

text \<open>
  Claim C23: with \<open>redirectOnResponse\<close> set and the default \<open>redirectToUrl\<close>, a
  marker-free form response without a \<open>base\<close> tag makes the success callback raise a
  \<open>TypeError\<close> (the regular expression's result is \<open>null\<close>): no success callback,
  no redraw or destroy and no success event follow.
\<close>

theorem form_success_default_redirect_raises:
  assumes "\<not> has_error_marker m r" and "a_redirectOnResponse m = Val True"
    and "a_redirectToUrl m = Val Redirect_base_href" and "base_href r = None"
  shows "\<exists>e. form_success m r = Inl e"
  using assms by (simp add: form_success_def form_redirect_def)

theorem form_success_default_redirect_raises_witness:
  "\<exists>e. form_success (default_action_opts\<lparr>a_redirectOnResponse := Val True\<rparr>) ok_resp = Inl e"
  by (rule form_success_default_redirect_raises) (simp_all add: modal_defs)

text \<open>
  Claim C15: a transport failure of either action path leaves the dialog as it is (no
  redraw, destroy, navigation or reload), reports the failure exactly once (timeout
  callback, error callback or log) and ends with the path's error event.
\<close>

theorem action_error_keeps_content:
  "filter changes_content (form_error m st) = [] \<and> filter changes_content (link_error m st) = []
   \<and> length (filter is_report (form_error m st)) = 1 \<and> length (filter is_report (link_error m st)) = 1
   \<and> last (form_error m st) = Trigger ''formActionError''
   \<and> last (link_error m st) = Trigger ''linkActionError''"
  by (simp add: form_error_def link_error_def changes_content_def is_report_def)

text \<open>
  Claim C29: the form path calls a configured timeout callback with no arguments
  (\<open>apply(self, xhr, errorStatus)\<close> passes the request object as the argument array),
  while the link path passes the dialog, the request and the error; only the link path
  hides the loading indicator.
\<close>

theorem timeout_callback_args:
  assumes "has_cb (a_onTimeout m)"
  shows "form_error m ''timeout'' = [Call_onTimeout [], Trigger ''formActionError'']
    \<and> link_error m ''timeout''
        = [Call_onTimeout [Arg_modal, Arg_xhr, Arg_error], Hide_loading, Trigger ''linkActionError'']"
  using assms by (simp add: form_error_def link_error_def)

theorem timeout_callback_args_witness:
  "form_error (default_action_opts\<lparr>a_onTimeout := Val ()\<rparr>) ''timeout''
     = [Call_onTimeout [], Trigger ''formActionError'']"
  using timeout_callback_args [of "default_action_opts\<lparr>a_onTimeout := Val ()\<rparr>"]
  by (simp add: has_cb_def)

text \<open>
  Claim C28: the two request paths do not share the marker check: for a response with
  an error marker and a success callback configured, the form path does not call the
  success callback, but the link path redraws, calls it and never calls
  \<open>onFormError\<close>.
\<close>

theorem marker_paths_differ:
  assumes "has_error_marker m r" and "has_cb (a_onSuccess m)"
  shows "(\<exists>effs. form_success m r = Inr effs \<and> Call_onSuccess \<notin> set effs)
    \<and> Call_onSuccess \<in> set (link_success m r) \<and> Call_onFormError \<notin> set (link_success m r)"
  using assms by (simp add: form_success_def link_success_def)

theorem marker_paths_differ_witness:
  "(\<exists>effs. form_success (default_action_opts\<lparr>a_onSuccess := Val ()\<rparr>) field_error_resp = Inr effs
           \<and> Call_onSuccess \<notin> set effs)
   \<and> Call_onSuccess \<in> set (link_success (default_action_opts\<lparr>a_onSuccess := Val ()\<rparr>) field_error_resp)"
  using marker_paths_differ [of "default_action_opts\<lparr>a_onSuccess := Val ()\<rparr>" field_error_resp]
  by (simp add: has_error_marker_def default_action_opts_def has_cb_def)

text \<open>
  Claim C24: the classification reads \<open>isForm\<close> and \<open>ajaxUrl\<close> from the action's own
  options, not the merged ones: an action that gives neither, bound to any element
  other than \<open>input\<close> or \<open>button\<close>, is fetched as a link whatever the instance's
  \<open>actionOptions\<close> say (\<open>undefined !== null\<close>).
\<close>

theorem dispatch_ignores_instance_flags:
  assumes "tag el \<noteq> ''input''" and "tag el \<noteq> ''button''"
    and "a_isForm a = Undef" and "a_ajaxUrl a = Undef"
    and "a_modalFunction (merge_action d a) = Null" and "a_displayInModal (merge_action d a) \<noteq> Val False"
  shows "dispatch_action d a el = Send (Link_get (link_url (merge_action d a) el))"
  using assms by (simp add: dispatch_action_def classify_def)

theorem dispatch_ignores_instance_flags_witness:
  "dispatch_action (default_action_opts\<lparr>a_isForm := Val True\<rparr>) no_action_opts div_el
     = Send (Link_get Undef)"
  using dispatch_ignores_instance_flags [of div_el no_action_opts "default_action_opts\<lparr>a_isForm := Val True\<rparr>"]
  by (simp add: modal_defs)

text \<open>
  Claim C14: the per-action options resolve by layers: merging the defaults with the
  instance's \<open>actionOptions\<close> and then with the action's own options gives, for every
  key, the action's value, else the instance's, else the default.
\<close>

theorem merge_action_layers:
  "merge_action (merge_action d i) a = resolve_action [a, i, d]"
  by (simp add: merge_action_def resolve_action_def js_extend_layer)

text \<open>
  Claim C30: with \<open>loadLinksWithinModal\<close> the links of the dialog are bound with no
  options of their own, whatever the configuration gave for the selector \<open>a\<close>.
\<close>

theorem form_actions_link_options:
  "js_true loadLinks \<Longrightarrow> map_of (form_actions addButtons buttons loadLinks acts) ''a'' = Some no_action_opts"
  by (simp add: form_actions_def Let_def map_of_obj_set_same)

theorem form_actions_link_options_witness:
  "map_of (form_actions (Val True) ''.formControls'' (Val True)
             [(''a'', no_action_opts\<lparr>a_displayInModal := Val False\<rparr>)]) ''a'' = Some no_action_opts"
  using form_actions_link_options [of "Val True" "Val True" "''.formControls''"] by simp

text \<open>
  Claim C31: the options an action's redraw renders with take every key the instance
  has from the instance: once the instance gives all renderer keys, as its defaults do,
  the action's own renderer options have no effect.
\<close>

theorem pattern_options_instance_wins:
  assumes "p_title inst \<noteq> Undef" and "p_titleSelector inst \<noteq> Undef"
    and "p_prependContent inst \<noteq> Undef" and "p_content inst \<noteq> Undef" and "p_buttons inst \<noteq> Undef"
  shows "pattern_options a inst = inst"
  using assms by (simp add: pattern_options_def js_extend_given)

theorem pattern_options_instance_wins_witness:
  "pattern_options (default_render_opts\<lparr>p_content := Val ''#form''\<rparr>) default_render_opts
     = default_render_opts"
  using pattern_options_instance_wins [of default_render_opts] by (simp add: default_render_opts_def)

text \<open>
  Assigning a key of the action object (\<open>actions[k] = {}\<close>) is the
  library's association-list update: on an object, whose keys are distinct, \<open>obj_set\<close>
  replaces the value in place or appends the key, exactly as \<open>AList.update\<close> does,
  and keeps the keys distinct.
\<close>

theorem obj_set_is_update:
  assumes "distinct (map fst xs)"
  shows "obj_set k v xs = AList.update k v xs \<and> distinct (map fst (obj_set k v xs))"
proof -
  have "obj_set k v xs = AList.update k v xs"
    using assms by (simp add: obj_set_def update_absent update_present)
  with assms show ?thesis by (simp add: distinct_update)
qed

theorem obj_set_is_update_witness:
  "obj_set ''a'' (1::nat) [(''a'', 0), (''b'', 2)] = [(''a'', 1), (''b'', 2)]"
  using obj_set_is_update [of "[(''a'', 0::nat), (''b'', 2)]" "''a''" 1] by simp

end
