(* ===== verification/System.thy ===== *)
theory System
  imports Lifecycle Actions
begin

text \<open>
  The modal pattern with its actions: the lifecycle's scope (theory \<open>Lifecycle\<close>)
  together with the action requests in flight and the effects the dialog has on the page
  outside its scope (callbacks, events, navigation, reload). An action is bound to the
  instance's current node by \<open>render\<close> (\<open>options.form\<close>); firing it runs
  \<open>showLoading(false)\<close> and the dispatch of theory \<open>Actions\<close>; its completion
  applies the effect list of the handler's callback to the scope: a redraw is
  \<open>Lifecycle.redraw\<close>, the \<open>destroy\<close> event reaches the hide handler of the node the
  action was bound to if that node is still in the wrapper, \<open>$loading.hide()\<close> hides
  the indicator. Action requests are not tracked by \<open>ajaxXHR\<close>, so \<open>hide\<close> does
  not abort them.
\<close>

subsection \<open>State and steps\<close>

text \<open>An action request in flight: the instance, the node its action was bound to, the
  merged action options and whether it is a form submission.\<close>

record act_req =
  req_inst :: iid
  req_node :: nid
  req_opts :: action_opts
  req_form :: bool

record system =
  sc :: scope
  inflight :: "(rid \<times> act_req) list"
  outside :: "effect list"

definition empty_system :: system where
  "empty_system = \<lparr>sc = empty_scope, inflight = [], outside = []\<rparr>"

definition tell :: "effect \<Rightarrow> system \<Rightarrow> system" where
  "tell e s = s\<lparr>outside := outside s @ [e]\<rparr>"

definition on_scope :: "(scope \<Rightarrow> scope result) \<Rightarrow> system \<Rightarrow> system result" where
  "on_scope f s = rbind (f (sc s)) (\<lambda>t. Inr (s\<lparr>sc := t\<rparr>))"

text \<open>
  The methods of a modal instance: those \<open>Modal\<close> defines (lines 40-770, with
  \<open>createModal\<close> set by \<open>initModal\<close>) and \<open>trigger\<close> of the base pattern.
\<close>

definition modal_methods :: "string list" where
  "modal_methods =
     [''createModal'', ''reloadWindow'', ''init'', ''showLoading'', ''createAjaxModal'',
      ''createTargetModal'', ''createBasicModal'', ''createHtmlModal'', ''initModal'',
      ''positionLoading'', ''findPosition'', ''positionModal'', ''render'', ''show'', ''_show'',
      ''hide'', ''redraw'', ''trigger'']"

text \<open>
  \<open>self[modalFunction]()\<close>: \<open>show\<close> and \<open>hide\<close> act on the scope, any other method
  is recorded as called, and a name that is no method (\<open>'undefined'\<close> included) raises.
\<close>

definition run_method :: "iid \<Rightarrow> string \<Rightarrow> system \<Rightarrow> system result" where
  "run_method i f s =
     (if f = ''hide'' then Inr (s\<lparr>sc := hide i (sc s)\<rparr>)
      else if f = ''show'' then on_scope (show_modal i) s
      else if f \<in> set modal_methods then Inr (tell (Call_method f) s)
      else Inl (Type_error ''self[modalFunction] is not a function''))"

text \<open>One effect of a completed action request of instance \<open>i\<close> bound to node \<open>n\<close>.\<close>

fun apply_effect :: "iid \<Rightarrow> nid \<Rightarrow> effect \<Rightarrow> system \<Rightarrow> system result" where
  "apply_effect i n (Redraw b) s = on_scope (redraw i b) s"
| "apply_effect i n Destroy s =
     Inr (if n \<in> set (map fst (mounted (sc s))) then s\<lparr>sc := hide i (sc s)\<rparr> else s)"
| "apply_effect i n Hide_loading s = Inr (s\<lparr>sc := loading_off i (sc s)\<rparr>)"
| "apply_effect i n e s = Inr (tell e s)"

fun apply_effects :: "iid \<Rightarrow> nid \<Rightarrow> effect list \<Rightarrow> system \<Rightarrow> system result" where
  "apply_effects i n [] s = Inr s"
| "apply_effects i n (e # es) s = rbind (apply_effect i n e s) (apply_effects i n es)"

text \<open>
  Firing an action of instance \<open>i\<close> with the instance's \<open>actionOptions\<close> \<open>d\<close>, the
  action's own options \<open>a\<close> and the element \<open>el\<close>: only possible while the instance's
  node is in the wrapper.
\<close>

definition fire :: "iid \<Rightarrow> action_opts \<Rightarrow> action_opts \<Rightarrow> action_el \<Rightarrow> system \<Rightarrow> system result" where
  "fire i d a el s =
     (if length (insts (sc s)) \<le> i then Inl No_instance
      else case modal (inst_of (sc s) i) of
        None \<Rightarrow> Inl No_instance
      | Some n \<Rightarrow>
          if n \<notin> set (map fst (mounted (sc s))) then Inl No_instance
          else
            (let s1 = s\<lparr>sc := showLoading i False (sc s)\<rparr>
             in case dispatch_action d a el of
                  Run_method f \<Rightarrow> run_method i f s1
                | Send req \<Rightarrow>
                    (let r = fresh (sc s1);
                         q = \<lparr>req_inst = i, req_node = n, req_opts = merge_action d a,
                              req_form = (case req of Form_submit _ _ _ \<Rightarrow> True | Link_get _ \<Rightarrow> False)\<rparr>
                     in Inr (s1\<lparr>sc := (sc s1)\<lparr>fresh := Suc r\<rparr>, inflight := inflight s1 @ [(r, q)]\<rparr>))
                | Go u \<Rightarrow> Inr (tell (Navigate u) s1)
                | Nothing \<Rightarrow> Inr s1))"

definition drop_req :: "rid \<Rightarrow> system \<Rightarrow> system" where
  "drop_req r s = s\<lparr>inflight := filter (\<lambda>p. fst p \<noteq> r) (inflight s)\<rparr>"

definition act_done :: "rid \<Rightarrow> response \<Rightarrow> system \<Rightarrow> system result" where
  "act_done r resp s =
     (case map_of (inflight s) r of
        None \<Rightarrow> Inr s
      | Some q \<Rightarrow>
          rbind (if req_form q then form_success (req_opts q) resp
                 else Inr (link_success (req_opts q) resp))
            (\<lambda>effs. apply_effects (req_inst q) (req_node q) effs (drop_req r s)))"

definition act_fail :: "rid \<Rightarrow> string \<Rightarrow> system \<Rightarrow> system result" where
  "act_fail r status s =
     (case map_of (inflight s) r of
        None \<Rightarrow> Inr s
      | Some q \<Rightarrow>
          apply_effects (req_inst q) (req_node q)
            (if req_form q then form_error (req_opts q) status else link_error (req_opts q) status)
            (drop_req r s))"

datatype sys_event =
    Lc event | Fire iid action_opts action_opts action_el | Act_done rid response
  | Act_fail rid string

fun sys_step :: "system \<Rightarrow> sys_event \<Rightarrow> system result" where
  "sys_step s (Lc e) = on_scope (\<lambda>t. step t e) s"
| "sys_step s (Fire i d a el) = fire i d a el s"
| "sys_step s (Act_done r resp) = act_done r resp s"
| "sys_step s (Act_fail r st) = act_fail r st s"

fun sys_run :: "system \<Rightarrow> sys_event list \<Rightarrow> system result" where
  "sys_run s [] = Inr s"
| "sys_run s (e # es) = rbind (sys_step s e) (\<lambda>s'. sys_run s' es)"

inductive sys_reachable :: "system \<Rightarrow> bool" where
  start: "sys_reachable empty_system"
| step: "sys_reachable s \<Longrightarrow> sys_step s e = Inr s' \<Longrightarrow> sys_reachable s'"

subsection \<open>Invariant\<close>

text \<open>
  A request in flight is healthy when its instance exists and has a \<open>$modal\<close>: its
  completion can redraw. The system invariant adds the lifecycle's \<open>scope_inv\<close>.
  \<open>scope_kept t t'\<close> says that going from \<open>t\<close> to \<open>t'\<close> keeps \<open>scope_inv\<close> and
  every instance's defined node.
\<close>

definition req_ok :: "scope \<Rightarrow> act_req \<Rightarrow> bool" where
  "req_ok t q \<longleftrightarrow> req_inst q < length (insts t) \<and> modal (inst_of t (req_inst q)) \<noteq> None"

definition sys_inv :: "system \<Rightarrow> bool" where
  "sys_inv s \<longleftrightarrow> scope_inv (sc s) \<and> (\<forall>p\<in>set (inflight s). req_ok (sc s) (snd p))"

definition scope_kept :: "scope \<Rightarrow> scope \<Rightarrow> bool" where
  "scope_kept t t' \<longleftrightarrow> (scope_inv t \<longrightarrow> scope_inv t') \<and> (\<forall>i o0. keeps_node i o0 t \<longrightarrow> keeps_node i o0 t')"

text \<open>Action elements used by the concrete runs: a link, a submit button in a form and one
  outside any form.\<close>

abbreviation link_el :: action_el where
  "link_el \<equiv> \<lparr>tag = ''a'', attr_name = Undef, attr_value = Undef, attr_href = Val ''/next'',
              form_action = Undef, in_form = False\<rparr>"

abbreviation button_el :: action_el where
  "button_el \<equiv> \<lparr>tag = ''button'', attr_name = Val ''form.submit'', attr_value = Val ''Save'',
                attr_href = Undef, form_action = Val ''/save'', in_form = True\<rparr>"

abbreviation loose_button_el :: action_el where
  "loose_button_el \<equiv> \<lparr>tag = ''button'', attr_name = Val ''form.submit'', attr_value = Val ''Save'',
                     attr_href = Undef, form_action = Undef, in_form = False\<rparr>"

subsection \<open>Lemmas\<close>

text \<open>Every lifecycle operation keeps the node of every instance defined, and keeps its
  options (one lemma per operation, then the step).\<close>

lemma keeps_node_showLoading [simp]: "keeps_node i o0 (showLoading j c t) = keeps_node i o0 t"
  and keeps_node_set_fresh [simp]: "keeps_node i o0 (t\<lparr>fresh := k, mounted := ms\<rparr>) = keeps_node i o0 t"
  and keeps_node_set_pending [simp]: "keeps_node i o0 (t\<lparr>fresh := k, pending := ps\<rparr>) = keeps_node i o0 t"
  and keeps_node_abort [simp]: "keeps_node i o0 (abort r t) = keeps_node i o0 t"
  by (simp_all add: keeps_node_def showLoading_def inst_of_def abort_def)

lemma keeps_node_set_raw: "keeps_node i o0 t \<Longrightarrow> keeps_node i o0 (set_raw j f t)"
  unfolding set_raw_def by (rule keeps_node_upd_inst) simp_all

lemma keeps_node_render: "keeps_node i o0 t \<Longrightarrow> keeps_node i o0 (render j t)"
  unfolding render_def Let_def
  by (auto intro!: keeps_node_upd_inst)

lemma keeps_node_same_insts: "keeps_node i o0 t \<Longrightarrow> insts u = insts t \<Longrightarrow> keeps_node i o0 u"
  by (simp add: keeps_node_def inst_of_def)

lemma keeps_node_show_rendered:
  assumes k: "keeps_node i o0 t" and r: "show_rendered j t = Inr t'"
  shows "keeps_node i o0 t'"
proof -
  let ?u = "loading_off j ((emit j Ev_show (render j t))\<lparr>backdrop_shown := True,
              wrapper_shown := True, overflow_hidden := True\<rparr>)"
  have "keeps_node i o0 ?u"
    using keeps_node_render [OF k] by (rule keeps_node_same_insts) (simp add: emit_def)
  then have "keeps_node i o0 (upd_inst j (\<lambda>x. x\<lparr>el_active := True, modal_active := True\<rparr>) ?u)"
    by (rule keeps_node_upd_inst) simp_all
  with r show ?thesis
    by (auto simp: show_rendered_def Let_def split: option.splits)
qed

lemma keeps_node_createAjaxModal: "keeps_node i o0 t \<Longrightarrow> keeps_node i o0 (createAjaxModal j t)"
  unfolding createAjaxModal_def Let_def
  by (auto intro!: keeps_node_upd_inst)

lemma keeps_node_show_modal:
  "keeps_node i o0 t \<Longrightarrow> show_modal j t = Inr t' \<Longrightarrow> keeps_node i o0 t'"
  by (auto simp: show_modal_def keeps_node_createAjaxModal elim!: create.elims
      intro: keeps_node_show_rendered keeps_node_set_raw split: option.splits if_splits)

lemma keeps_node_ajax_done:
  "keeps_node i o0 t \<Longrightarrow> ajax_done r b t = Inr t' \<Longrightarrow> keeps_node i o0 t'"
proof -
  assume k: "keeps_node i o0 t" and d: "ajax_done r b t = Inr t'"
  show ?thesis
  proof (cases "map_of (pending t) r")
    case None
    with k d show ?thesis by (simp add: ajax_done_def)
  next
    case (Some j)
    let ?u = "emit j Ev_after_ajax (set_raw j (Raw_response b)
                (loading_off j (upd_inst j (\<lambda>x. x\<lparr>ajaxXHR := None\<rparr>) (abort r t))))"
    have "keeps_node i o0 (upd_inst j (\<lambda>x. x\<lparr>ajaxXHR := None\<rparr>) (abort r t))"
      using k by (intro keeps_node_upd_inst) simp_all
    then have "keeps_node i o0 ?u" by (simp add: keeps_node_set_raw)
    moreover have "show_rendered j ?u = Inr t'" using d Some by (simp add: ajax_done_def Let_def)
    ultimately show ?thesis by (rule keeps_node_show_rendered)
  qed
qed

lemma keeps_node_hide: "keeps_node i o0 t \<Longrightarrow> keeps_node i o0 (hide j t)"
  unfolding hide_def by (intro keeps_node_hide_with keeps_node_backdrop_hide)

lemma keeps_node_escape_key: "keeps_node i o0 t \<Longrightarrow> keeps_node i o0 (escape_key t)"
  unfolding escape_key_def by (rule fold_invariant) (auto intro: keeps_node_hide)

lemma keeps_node_init: "keeps_node i o0 t \<Longrightarrow> keeps_node i o0 (init_inst o1 el t)"
  by (auto simp: keeps_node_def init_inst_def Let_def inst_of_def nth_append)

lemma keeps_node_step: "keeps_node i o0 t \<Longrightarrow> step t e = Inr t' \<Longrightarrow> keeps_node i o0 t'"
  by (cases e) (auto simp del: backdrop_hide.simps simp: keeps_node_init ajax_fail_def
      keeps_node_escape_key wrapper_click_def keeps_node_backdrop_hide keeps_node_hide split: if_splits
      intro: keeps_node_show_modal keeps_node_ajax_done)

lemma keeps_node_redraw:
  "keeps_node i o0 t \<Longrightarrow> redraw j b t = Inr t' \<Longrightarrow> keeps_node i o0 t'"
  unfolding redraw_def Let_def
  by (auto split: option.splits intro!: keeps_node_render keeps_node_set_raw)


lemma req_ok_keeps: "req_ok t q = keeps_node (req_inst q) (opts (inst_of t (req_inst q))) t"
  by (simp add: req_ok_def keeps_node_def)

lemma req_ok_kept: "scope_kept t t' \<Longrightarrow> req_ok t q \<Longrightarrow> req_ok t' q"
  unfolding scope_kept_def req_ok_keeps by (metis keeps_node_def)

lemma sys_inv_kept:
  "sys_inv s \<Longrightarrow> scope_kept (sc s) t \<Longrightarrow> sys_inv (s\<lparr>sc := t\<rparr>)"
  by (auto simp: sys_inv_def scope_kept_def intro: req_ok_kept [unfolded scope_kept_def])

lemma scope_inv_redraw: "scope_inv t \<Longrightarrow> redraw j b t = Inr t' \<Longrightarrow> scope_inv t'"
  unfolding redraw_def Let_def by (auto split: option.splits intro!: scope_inv_render scope_inv_set_raw)

lemma scope_kept_step: "step t e = Inr t' \<Longrightarrow> scope_kept t t'"
  by (simp add: scope_kept_def scope_inv_step keeps_node_step)

lemma scope_kept_redraw: "redraw j b t = Inr t' \<Longrightarrow> scope_kept t t'"
  by (simp add: scope_kept_def scope_inv_redraw keeps_node_redraw)

lemma scope_kept_hide: "scope_kept t (hide j t)"
  by (simp add: scope_kept_def scope_inv_hide keeps_node_hide)

lemma scope_kept_show: "show_modal j t = Inr t' \<Longrightarrow> scope_kept t t'"
  by (simp add: scope_kept_def scope_inv_show_modal keeps_node_show_modal)

lemma scope_kept_frame:
  "scope_kept t (showLoading j c t)" "scope_kept t (loading_off j t)"
  "scope_kept t (t\<lparr>fresh := k\<rparr>)"
  by (simp_all add: scope_kept_def scope_inv_def keeps_node_def inst_of_def showLoading_def loading_off_def)

lemma scope_kept_trans: "scope_kept t u \<Longrightarrow> scope_kept u v \<Longrightarrow> scope_kept t v"
  by (simp add: scope_kept_def)

lemma sys_inv_tell [simp]: "sys_inv (tell e s) = sys_inv s"
  by (simp add: sys_inv_def tell_def)

lemma sys_inv_drop_req: "sys_inv s \<Longrightarrow> sys_inv (drop_req r s)"
  by (simp add: sys_inv_def drop_req_def)

lemma sys_inv_on_scope:
  "sys_inv s \<Longrightarrow> on_scope f s = Inr s' \<Longrightarrow> (\<And>t'. f (sc s) = Inr t' \<Longrightarrow> scope_kept (sc s) t') \<Longrightarrow> sys_inv s'"
  by (auto simp: on_scope_def rbind_eq_Inr_iff intro: sys_inv_kept)

lemma sys_inv_apply_effect:
  "sys_inv s \<Longrightarrow> apply_effect i n e s = Inr s' \<Longrightarrow> sys_inv s'"
proof (cases e)
  case (Redraw b)
  assume "sys_inv s" and "apply_effect i n e s = Inr s'"
  with Redraw show ?thesis by (auto elim: sys_inv_on_scope intro: scope_kept_redraw)
next
  case Destroy
  assume "sys_inv s" and "apply_effect i n e s = Inr s'"
  with Destroy show ?thesis by (auto intro: sys_inv_kept scope_kept_hide split: if_splits)
next
  case Hide_loading
  assume "sys_inv s" and "apply_effect i n e s = Inr s'"
  with Hide_loading show ?thesis by (auto intro: sys_inv_kept scope_kept_frame)
qed (auto)

lemma sys_inv_apply_effects:
  "sys_inv s \<Longrightarrow> apply_effects i n es s = Inr s' \<Longrightarrow> sys_inv s'"
  by (induction es arbitrary: s) (auto simp: rbind_eq_Inr_iff dest: sys_inv_apply_effect)

lemma sys_inv_run_method:
  assumes "sys_inv s" and "run_method i f s = Inr s'"
  shows "sys_inv s'"
proof -
  consider "f = ''hide''" | "f \<noteq> ''hide''" "f = ''show''" | "f \<noteq> ''hide''" "f \<noteq> ''show''" by blast
  then show ?thesis
  proof cases
    case 1
    with assms show ?thesis by (auto simp: run_method_def intro: sys_inv_kept scope_kept_hide)
  next
    case 2
    with assms have "on_scope (show_modal i) s = Inr s'" by (simp add: run_method_def)
    with assms(1) show ?thesis by (rule sys_inv_on_scope) (rule scope_kept_show)
  next
    case 3
    with assms(2) have "s' = tell (Call_method f) s" by (simp add: run_method_def split: if_splits)
    with assms(1) show ?thesis by simp
  qed
qed

lemma sys_inv_fire:
  assumes inv: "sys_inv s" and f: "fire i d a el s = Inr s'"
  shows "sys_inv s'"
proof -
  let ?s1 = "s\<lparr>sc := showLoading i False (sc s)\<rparr>"
  have inv1: "sys_inv ?s1" using inv by (rule sys_inv_kept) (rule scope_kept_frame)
  from f obtain n where i: "i < length (insts (sc s))" and n: "modal (inst_of (sc s) i) = Some n"
    and m: "n \<in> set (map fst (mounted (sc s)))"
    by (auto simp: fire_def split: option.splits if_splits)
  show ?thesis
  proof (cases "dispatch_action d a el")
    case (Run_method g)
    with f i n m have "run_method i g ?s1 = Inr s'" by (simp add: fire_def)
    with inv1 show ?thesis by (rule sys_inv_run_method)
  next
    case (Send req)
    define q where "q = \<lparr>req_inst = i, req_node = n, req_opts = merge_action d a,
      req_form = (case req of Form_submit _ _ _ \<Rightarrow> True | Link_get _ \<Rightarrow> False)\<rparr>"
    let ?s2 = "?s1\<lparr>sc := (sc ?s1)\<lparr>fresh := Suc (fresh (sc s))\<rparr>\<rparr>"
    have inv2: "sys_inv ?s2" using inv1 by (rule sys_inv_kept) (rule scope_kept_frame)
    have ok: "req_ok (sc ?s2) q" using i n by (simp add: req_ok_def q_def inst_of_def showLoading_def)
    have "s' = ?s2\<lparr>inflight := inflight ?s2 @ [(fresh (sc s), q)]\<rparr>"
      using f Send i n m by (simp add: fire_def Let_def showLoading_def q_def)
    with inv2 ok show ?thesis by (simp add: sys_inv_def)
    qed (use f i n m inv1 in \<open>auto simp: fire_def split: if_splits\<close>)
qed

lemma sys_inv_act_done: "sys_inv s \<Longrightarrow> act_done r resp s = Inr s' \<Longrightarrow> sys_inv s'"
  by (auto simp: act_done_def rbind_eq_Inr_iff split: option.splits
      intro: sys_inv_apply_effects sys_inv_drop_req)

lemma sys_inv_act_fail: "sys_inv s \<Longrightarrow> act_fail r st s = Inr s' \<Longrightarrow> sys_inv s'"
  by (auto simp: act_fail_def split: option.splits intro: sys_inv_apply_effects sys_inv_drop_req)

lemma sys_inv_step: "sys_inv s \<Longrightarrow> sys_step s e = Inr s' \<Longrightarrow> sys_inv s'"
  by (cases e) (auto intro: sys_inv_fire sys_inv_act_done sys_inv_act_fail
      elim: sys_inv_on_scope intro: scope_kept_step)

lemma sys_reachable_inv: "sys_reachable s \<Longrightarrow> sys_inv s"
proof (induction rule: sys_reachable.induct)
  case start
  then show ?case by (simp add: sys_inv_def empty_system_def scope_inv_def empty_scope_def)
next
  case (step s e s')
  then show ?case by (blast intro: sys_inv_step)
qed

lemma redraw_ok:
  "i < length (insts t) \<Longrightarrow> modal (inst_of t i) \<noteq> None \<Longrightarrow> \<exists>t'. redraw i b t = Inr t'"
  by (auto simp: redraw_def Let_def emit_def inst_of_def)

lemma apply_effect_total:
  assumes k: "keeps_node i o0 (sc s)"
  shows "\<exists>s'. apply_effect i n e s = Inr s' \<and> keeps_node i o0 (sc s')"
proof (cases e)
  case (Redraw b)
  from k have "i < length (insts (sc s))" and "modal (inst_of (sc s) i) \<noteq> None"
    by (simp_all add: keeps_node_def)
  then obtain t' where r: "redraw i b (sc s) = Inr t'" using redraw_ok by blast
  with k have "keeps_node i o0 t'" by (rule keeps_node_redraw)
  with r Redraw show ?thesis by (simp add: on_scope_def)
next
  case Destroy
  with k show ?thesis by (simp add: keeps_node_hide)
next
  case Hide_loading
  with k show ?thesis by simp
qed (use k in \<open>simp_all add: tell_def\<close>)

lemma apply_effects_total:
  "keeps_node i o0 (sc s) \<Longrightarrow> \<exists>s'. apply_effects i n es s = Inr s'"
proof (induction es arbitrary: s)
  case Nil
  then show ?case by simp
next
  case (Cons e es)
  from apply_effect_total [OF Cons.prems] obtain s1 where
    "apply_effect i n e s = Inr s1" and "keeps_node i o0 (sc s1)" by blast
  with Cons.IH show ?case by simp
qed

lemma redirect_url_Inr_iff:
  "(\<exists>u. redirect_url v r = Inr u) \<longleftrightarrow> \<not> (v = Val Redirect_base_href \<and> base_href r = None)"
  by (cases "(v, r)" rule: redirect_url.cases) (auto split: option.splits)

lemma form_success_Inr_iff:
  "(\<exists>effs. form_success m r = Inr effs) \<longleftrightarrow>
     \<not> (\<not> has_error_marker m r \<and> a_redirectOnResponse m = Val True
        \<and> a_redirectToUrl m = Val Redirect_base_href \<and> base_href r = None)"
  using redirect_url_Inr_iff [of "a_redirectToUrl m" r]
  by (auto simp: form_success_def form_redirect_def rbind_eq_Inr_iff)

lemma req_ok_keeps_drop:
  "req_ok (sc s) q \<Longrightarrow> keeps_node (req_inst q) (opts (inst_of (sc s) (req_inst q))) (sc (drop_req r s))"
  by (simp add: req_ok_keeps drop_req_def)

lemmas sys_defs [modal_defs] = empty_system_def tell_def on_scope_def run_method_def fire_def
  drop_req_def act_done_def act_fail_def

lemma sys_run_reachable: "sys_reachable s \<Longrightarrow> sys_run s es = Inr s' \<Longrightarrow> sys_reachable s'"
  by (induction es arbitrary: s) (auto simp: rbind_eq_Inr_iff intro: sys_reachable.step)

lemma redraw_fields:
  assumes "i < length (insts t)" and "modal (inst_of t i) = Some k" and "redraw i b t = Inr t'"
  shows "raw (inst_of t' i) = Some (Raw_response b) \<and> modal (inst_of t' i) = Some (fresh t)
    \<and> mounted t' = filter (\<lambda>p. fst p \<noteq> k) (mounted t) @ [(fresh t, i)]"
  using assms by (auto simp: redraw_def render_def Let_def emit_def inst_of_def upd_inst_def
      set_raw_def remove_node_def)

subsection \<open>Properties of the composed system\<close>

text \<open>
  Claim C5: in every reachable state of the dialog with its actions, each action request
  in flight belongs to an existing instance that has a strategy installed and whose
  \<open>$modal\<close> is defined, so the completion's redraw has a node to replace.
\<close>

theorem inflight_requests_healthy:
  assumes "sys_reachable s" and "(r, q) \<in> set (inflight s)"
  shows "req_inst q < length (insts (sc s)) \<and> modal (inst_of (sc s) (req_inst q)) \<noteq> None
    \<and> createModal (inst_of (sc s) (req_inst q)) \<noteq> None"
proof -
  from assms(1) have inv: "sys_inv s" by (rule sys_reachable_inv)
  with assms(2) have "req_ok (sc s) q" unfolding sys_inv_def by (metis snd_conv)
  moreover from inv have "scope_inv (sc s)" by (simp add: sys_inv_def)
  ultimately show ?thesis by (auto simp: req_ok_def scope_inv_def inst_of_def)
qed

theorem inflight_requests_healthy_witness:
  "\<exists>s q. sys_reachable s \<and> (1, q) \<in> set (inflight s) \<and> req_inst q = 0
     \<and> modal (inst_of (sc s) 0) \<noteq> None"
proof -
  obtain s q where run: "sys_run empty_system
      [Lc (Init html_opts plain_el), Lc (Show 0), Fire 0 default_action_opts no_action_opts link_el] = Inr s"
    and q: "(1, q) \<in> set (inflight s)" and qi: "req_inst q = 0"
    by (simp add: modal_defs)
  have "sys_reachable s" using sys_reachable.start run by (rule sys_run_reachable)
  with q qi show ?thesis using inflight_requests_healthy [of s 1 q] by auto
qed

text \<open>
  Claim C4: in every reachable state, the failure of an action request never raises, and
  its completion raises exactly when it is a form submission whose marker-free response
  is redirected with the default \<open>redirectToUrl\<close> and has no \<open>base\<close> tag.
\<close>

theorem action_completion_total:
  assumes "sys_reachable s" and "map_of (inflight s) r = Some q"
  shows "(\<exists>s'. act_fail r st s = Inr s')
    \<and> ((\<exists>s'. act_done r resp s = Inr s') \<longleftrightarrow>
         \<not> (req_form q \<and> \<not> has_error_marker (req_opts q) resp
            \<and> a_redirectOnResponse (req_opts q) = Val True
            \<and> a_redirectToUrl (req_opts q) = Val Redirect_base_href \<and> base_href resp = None))"
proof -
  from assms(1) have "sys_inv s" by (rule sys_reachable_inv)
  moreover from assms(2) have "(r, q) \<in> set (inflight s)" by (rule map_of_SomeD)
  ultimately have "req_ok (sc s) q" unfolding sys_inv_def by (metis snd_conv)
  then have "keeps_node (req_inst q) (opts (inst_of (sc s) (req_inst q))) (sc (drop_req r s))"
    by (rule req_ok_keeps_drop)
  then have k: "\<And>es. \<exists>s'. apply_effects (req_inst q) (req_node q) es (drop_req r s) = Inr s'"
    by (rule apply_effects_total)
  have fail: "\<exists>s'. act_fail r st s = Inr s'" using assms(2) k by (simp add: act_fail_def)
  have "(\<exists>s'. act_done r resp s = Inr s') \<longleftrightarrow>
          (req_form q \<longrightarrow> (\<exists>effs. form_success (req_opts q) resp = Inr effs))"
    using assms(2) k by (auto simp: act_done_def rbind_eq_Inr_iff)
  with fail show ?thesis by (simp add: form_success_Inr_iff) blast
qed

theorem action_completion_total_witness:
  "\<exists>s q. sys_reachable s \<and> map_of (inflight s) 1 = Some q
     \<and> (\<exists>s'. act_fail 1 ''timeout'' s = Inr s') \<and> (\<exists>s'. act_done 1 ok_resp s = Inr s')"
proof -
  obtain s where run: "sys_run empty_system
      [Lc (Init html_opts plain_el), Lc (Show 0), Fire 0 default_action_opts no_action_opts link_el] = Inr s"
    and q: "map_of (inflight s) 1 = Some \<lparr>req_inst = 0, req_node = 0,
              req_opts = merge_action default_action_opts no_action_opts, req_form = False\<rparr>"
    by (simp add: modal_defs)
  have "sys_reachable s" using sys_reachable.start run by (rule sys_run_reachable)
  with q show ?thesis
    using action_completion_total [of s 1] by auto
qed

text \<open>
  Claim C9: the specification's scenario: a form submission whose response carries a
  field-error marker, with no \<open>onFormError\<close>, replaces the dialog's node by one
  rendered from the response and has no effect outside the dialog (no redirect, even
  when \<open>redirectOnResponse\<close> is set, no success callback or event).
\<close>

theorem form_marker_redraws:
  assumes "map_of (inflight s) r = Some q" and "req_form q"
    and "has_error_marker (req_opts q) resp" and "\<not> has_cb (a_onFormError (req_opts q))"
    and "req_inst q < length (insts (sc s))" and "modal (inst_of (sc s) (req_inst q)) = Some k"
  shows "\<exists>s'. act_done r resp s = Inr s' \<and> outside s' = outside s
    \<and> raw (inst_of (sc s') (req_inst q)) = Some (Raw_response (body resp))
    \<and> modal (inst_of (sc s') (req_inst q)) = Some (fresh (sc s))
    \<and> mounted (sc s') = filter (\<lambda>p. fst p \<noteq> k) (mounted (sc s)) @ [(fresh (sc s), req_inst q)]"
proof -
  let ?i = "req_inst q"
  obtain t' where r: "redraw ?i (body resp) (sc s) = Inr t'"
    using redraw_ok assms(5,6) by blast
  have "act_done r resp s = Inr ((drop_req r s)\<lparr>sc := t'\<rparr>)"
    using assms(1-4) r by (simp add: act_done_def form_success_def drop_req_def on_scope_def)
  moreover have "outside ((drop_req r s)\<lparr>sc := t'\<rparr>) = outside s" by (simp add: drop_req_def)
  ultimately show ?thesis using redraw_fields [OF assms(5,6) r] by simp
qed

theorem form_marker_redraws_witness:
  "\<exists>s s'. act_done 1 field_error_resp s = Inr s' \<and> outside s' = outside s
     \<and> raw (inst_of (sc s') 0) = Some (Raw_response ''<div class=field error>'')
     \<and> mounted (sc s') = [(2, 0)]"
proof -
  obtain s q where run: "sys_run empty_system
      [Lc (Init html_opts plain_el), Lc (Show 0),
       Fire 0 (default_action_opts\<lparr>a_redirectOnResponse := Val True\<rparr>) no_action_opts button_el] = Inr s"
    and q: "map_of (inflight s) 1 = Some q" and qf: "req_form q" and qi: "req_inst q = 0"
    and qm: "has_error_marker (req_opts q) field_error_resp"
    and qc: "\<not> has_cb (a_onFormError (req_opts q))"
    and i: "req_inst q < length (insts (sc s))" and k: "modal (inst_of (sc s) (req_inst q)) = Some 0"
    and m: "mounted (sc s) = [(0, 0)]" and f: "fresh (sc s) = 2"
    by (simp add: modal_defs)
  from form_marker_redraws [OF q qf qm qc i k] m f qi show ?thesis by auto
qed

lemma loading_render [simp]: "loading_shown (render i t) = loading_shown t"
  by (simp add: render_def Let_def emit_def upd_inst_def)

lemma loading_redraw: "redraw i b t = Inr t' \<Longrightarrow> loading_shown t' = loading_shown t"
  by (auto simp: redraw_def Let_def emit_def set_raw_def upd_inst_def remove_node_def
           split: option.splits)

lemma apply_effect_keeps_loading:
  "apply_effect i n e s = Inr s' \<Longrightarrow> e \<noteq> Hide_loading \<Longrightarrow> e \<noteq> Destroy
     \<Longrightarrow> loading_shown (sc s') = loading_shown (sc s)"
  by (cases "(i, n, e, s)" rule: apply_effect.cases)
     (auto simp: on_scope_def rbind_eq_Inr_iff tell_def dest: loading_redraw)

lemma apply_effects_keeps_loading:
  "apply_effects i n es s = Inr s' \<Longrightarrow> Hide_loading \<notin> set es \<Longrightarrow> Destroy \<notin> set es
     \<Longrightarrow> loading_shown (sc s') = loading_shown (sc s)"
proof (induction es arbitrary: s)
  case (Cons e es)
  then obtain t where "apply_effect i n e s = Inr t" "apply_effects i n es t = Inr s'"
    by (auto simp: rbind_eq_Inr_iff)
  with Cons show ?case using apply_effect_keeps_loading by fastforce
qed simp

lemma apply_effects_append:
  "apply_effects i n (xs @ ys) s = rbind (apply_effects i n xs s) (apply_effects i n ys)"
  by (induction xs arbitrary: s) (auto simp: rbind_def split: sum.split)

lemma form_success_no_hide_loading:
  "form_success m r = Inr effs \<Longrightarrow> Hide_loading \<notin> set effs"
  by (auto simp: form_success_def form_redirect_def form_settle_def rbind_eq_Inr_iff
           split: if_splits)

text \<open>
  Claim C25: the loading indicator that firing an action shows for its instance is never
  hidden by a form submission's completion unless it destroys the dialog: the redraw keeps
  it on screen over the new content. A link fetch's completion always hides it.
\<close>

theorem form_completion_keeps_loading:
  assumes q: "map_of (inflight s) r = Some q" and on: "req_inst q \<in> loading_shown (sc s)"
      and d: "act_done r resp s = Inr s'"
      and effs: "(if req_form q then form_success (req_opts q) resp
                  else Inr (link_success (req_opts q) resp)) = Inr effs"
  shows "if req_form q then (Destroy \<notin> set effs \<longrightarrow> req_inst q \<in> loading_shown (sc s'))
         else req_inst q \<notin> loading_shown (sc s')"
proof -
  have run: "apply_effects (req_inst q) (req_node q) effs (drop_req r s) = Inr s'"
    using d q effs by (simp add: act_done_def)
  show ?thesis
  proof (cases "req_form q")
    case True
    then have "Hide_loading \<notin> set effs" using effs by (simp add: form_success_no_hide_loading)
    with True run on show ?thesis by (auto simp: drop_req_def dest: apply_effects_keeps_loading)
  next
    case False
    let ?pre = "[Redraw (body resp)] @ (if has_cb (a_onSuccess (req_opts q)) then [Call_onSuccess] else [])"
    from False effs have e: "effs = ?pre @ Hide_loading # [Trigger ''linkActionSuccess'']"
      by (simp add: link_success_def)
    from run obtain t u where "apply_effects (req_inst q) (req_node q) ?pre (drop_req r s) = Inr t"
        and "apply_effect (req_inst q) (req_node q) Hide_loading t = Inr u"
        and "apply_effects (req_inst q) (req_node q) [Trigger ''linkActionSuccess''] u = Inr s'"
      unfolding e apply_effects_append by (auto simp: rbind_eq_Inr_iff)
    then have "req_inst q \<notin> loading_shown (sc u)" and "loading_shown (sc s') = loading_shown (sc u)"
      by (auto simp: tell_def rbind_eq_Inr_iff)
    with False show ?thesis by simp
  qed
qed

theorem form_completion_keeps_loading_witness:
  "\<exists>s s'. sys_run empty_system
        [Lc (Init html_opts plain_el), Lc (Show 0), Fire 0 default_action_opts no_action_opts button_el] = Inr s
     \<and> map_of (inflight s) 1 = Some \<lparr>req_inst = 0, req_node = 0, req_opts = default_action_opts, req_form = True\<rparr>
     \<and> 0 \<in> loading_shown (sc s) \<and> act_done 1 ok_resp s = Inr s'
     \<and> form_success default_action_opts ok_resp = Inr [Redraw (body ok_resp), Trigger ''formActionSuccess'']
     \<and> 0 \<in> loading_shown (sc s')"
proof -
  obtain s s' where "sys_run empty_system
        [Lc (Init html_opts plain_el), Lc (Show 0), Fire 0 default_action_opts no_action_opts button_el] = Inr s"
      and q: "map_of (inflight s) 1 = Some \<lparr>req_inst = 0, req_node = 0, req_opts = default_action_opts, req_form = True\<rparr>"
      and on: "0 \<in> loading_shown (sc s)" and d: "act_done 1 ok_resp s = Inr s'"
      and f: "form_success default_action_opts ok_resp = Inr [Redraw (body ok_resp), Trigger ''formActionSuccess'']"
    by (simp add: modal_defs)
  have "0 \<in> loading_shown (sc s')"
    using form_completion_keeps_loading [OF q _ d, of "[Redraw (body ok_resp), Trigger ''formActionSuccess'']"] on f
    by simp
  with q on d f \<open>sys_run _ _ = Inr s\<close> show ?thesis by blast
qed


text \<open>
  Claim C26: a form action on an element with no submittable form (no enclosing
  \<open>form\<close>, or only \<open>form.disableAutoSubmit\<close> ones) sends nothing: \<open>$form\<close> is
  empty, so \<open>ajaxSubmit\<close> does nothing after \<open>showLoading(false)\<close>. The dialog is left
  with its loading indicator shown, the backdrop not closable, and no request in flight
  whose completion could clear either.
\<close>

theorem form_action_without_form_hangs:
  assumes f: "fire i d a el s = Inr s'"
      and k: "classify a (merge_action d a) el = Act_form" and nf: "\<not> in_form el"
  shows "i \<in> loading_shown (sc s') \<and> \<not> backdrop_closable (sc s')
         \<and> inflight s' = inflight s \<and> outside s' = outside s"
proof -
  have "dispatch_action d a el = Nothing" using k nf by (simp add: dispatch_action_def)
  with f show ?thesis by (auto simp: fire_def showLoading_def split: option.splits if_splits)
qed

theorem form_action_without_form_hangs_witness:
  "\<exists>s s'. sys_run empty_system [Lc (Init html_opts plain_el), Lc (Show 0)] = Inr s
     \<and> fire 0 default_action_opts no_action_opts loose_button_el s = Inr s'
     \<and> classify no_action_opts (merge_action default_action_opts no_action_opts) loose_button_el = Act_form
     \<and> \<not> in_form loose_button_el
     \<and> 0 \<in> loading_shown (sc s') \<and> \<not> backdrop_closable (sc s') \<and> inflight s' = inflight s"
proof -
  obtain s s' where r: "sys_run empty_system [Lc (Init html_opts plain_el), Lc (Show 0)] = Inr s"
      and f: "fire 0 default_action_opts no_action_opts loose_button_el s = Inr s'"
      and c: "classify no_action_opts (merge_action default_action_opts no_action_opts) loose_button_el = Act_form"
    by (simp add: modal_defs)
  with form_action_without_form_hangs [OF f c] show ?thesis by auto
qed

end
