(* ===== verification/Init_Options.thy ===== *)
theory Init_Options
  imports Prelude
begin

text \<open>
  What \<open>init\<close> of \<open>src/js/patterns/modal.js\<close> derives from two options before any
  dialog exists: the bindings of the \<open>triggers\<close> list (\<open>"<event> <selector>"\<close>
  strings, cut with \<open>indexOf\<close> and \<open>substring\<close>), and the z-index of a newly
  created wrapper (\<open>parseInt(backdropOptions.zIndex, 10) + 1\<close>). The JavaScript string
  primitives are modelled with their clamping and \<open>NaN\<close> behaviour.
\<close>

subsection \<open>String primitives\<close>

text \<open>\<open>s.indexOf(c)\<close>: the first position of \<open>c\<close>, \<open>-1\<close> when there is none.\<close>

fun js_indexOf :: "char \<Rightarrow> string \<Rightarrow> int" where
  "js_indexOf c [] = -1"
| "js_indexOf c (x # xs) =
     (if x = c then 0 else (let k = js_indexOf c xs in if k < 0 then -1 else k + 1))"

text \<open>\<open>s.substring(a, b)\<close>: both ends clamped to \<open>[0, length]\<close> and swapped when
  \<open>a > b\<close>.\<close>

definition js_substring :: "string \<Rightarrow> int \<Rightarrow> int \<Rightarrow> string" where
  "js_substring s a b =
     (let n = int (length s); a' = max 0 (min a n); b' = max 0 (min b n)
      in take (nat (max a' b') - nat (min a' b')) (drop (nat (min a' b')) s))"

text \<open>The whitespace \<open>parseInt\<close> skips (the ASCII part of \<open>StrWhiteSpaceChar\<close>).\<close>

definition js_space :: "char \<Rightarrow> bool" where
  "js_space c = (c \<in> set [CHR '' '', CHR 0x09, CHR 0x0A, CHR 0x0B, CHR 0x0C, CHR 0x0D])"

definition is_digit :: "char \<Rightarrow> bool" where
  "is_digit c = ((48::nat) \<le> of_char c \<and> of_char c \<le> (57::nat))"

definition digit_val :: "char \<Rightarrow> int" where
  "digit_val c = int (of_char c) - 48"

definition dec_val :: "string \<Rightarrow> int" where
  "dec_val ds = foldl (\<lambda>n d. 10 * n + digit_val d) 0 ds"

text \<open>
  \<open>parseInt(s, 10)\<close>: leading whitespace, an optional sign, then the longest run of
  decimal digits; \<open>NaN\<close> (here \<open>None\<close>) when there is no digit.
\<close>

definition js_parseInt10 :: "string \<Rightarrow> int option" where
  "js_parseInt10 s =
     (let t = dropWhile js_space s;
          (sg, r) = (case t of c # r \<Rightarrow> if c = CHR ''-'' then (-1, r)
                                        else if c = CHR ''+'' then (1, r) else (1, t)
                    | [] \<Rightarrow> (1, t));
          ds = takeWhile is_digit r
      in if ds = [] then None else Some (sg * dec_val ds))"

text \<open>\<open>String(n)\<close> of an integer: its decimal digits, with a minus sign when negative.\<close>

definition digit_char :: "nat \<Rightarrow> char" where
  "digit_char d = ''0123456789'' ! d"

fun nat_digits :: "nat \<Rightarrow> string" where
  "nat_digits n =
     (if n < 10 then [digit_char n] else nat_digits (n div 10) @ [digit_char (n mod 10)])"

definition int_string :: "int \<Rightarrow> string" where
  "int_string z = (if z < 0 then CHR ''-'' # nat_digits (nat (- z)) else nat_digits (nat z))"

subsection \<open>Triggers\<close>

text \<open>Where a trigger binding is attached: the selector, or the pattern's own element
  when the selector is empty (\<open>selector || self.$el\<close>).\<close>

datatype trigger_target = On_selector string | On_element

text \<open>One item of \<open>triggers\<close>: the event is the text before the first space, the
  selector the rest from that space on.\<close>

definition trigger_binding :: "string \<Rightarrow> string \<times> trigger_target" where
  "trigger_binding item =
     (let k = js_indexOf CHR '' '' item;
          e = js_substring item 0 k;
          sel = js_substring item k (int (length item))
      in (e, if sel \<noteq> [] then On_selector sel else On_element))"

text \<open>All bindings of the option (\<open>if (self.options.triggers)\<close>, then \<open>$.each\<close>).\<close>

definition trigger_bindings :: "string list js_val \<Rightarrow> (string \<times> trigger_target) list" where
  "trigger_bindings ts = (case ts of Val items \<Rightarrow> map trigger_binding items | _ \<Rightarrow> [])"

subsection \<open>The wrapper's z-index\<close>

text \<open>The z-index a newly created wrapper gets: one above the configured backdrop
  z-index, 1041 when that is \<open>null\<close>; \<open>None\<close> stands for \<open>NaN\<close>.\<close>

definition wrapper_zIndex :: "string js_val \<Rightarrow> int option" where
  "wrapper_zIndex z =
     (case z of
        Null \<Rightarrow> Some 1041
      | Undef \<Rightarrow> None
      | Val s \<Rightarrow> map_option (\<lambda>k. k + 1) (js_parseInt10 s))"

subsection \<open>Lemmas\<close>

declare nat_digits.simps [simp del]

lemma nat_digits_less: "n < 10 \<Longrightarrow> nat_digits n = [digit_char n]"
  by (simp add: nat_digits.simps)

lemma nat_digits_ge: "\<not> n < 10 \<Longrightarrow> nat_digits n = nat_digits (n div 10) @ [digit_char (n mod 10)]"
  by (subst nat_digits.simps) simp

lemma digit_char_props:
  assumes "d < 10"
  shows "is_digit (digit_char d) \<and> digit_val (digit_char d) = int d
    \<and> \<not> js_space (digit_char d) \<and> digit_char d \<noteq> CHR ''-'' \<and> digit_char d \<noteq> CHR ''+''"
proof -
  from assms have "d \<in> {0, 1, 2, 3, 4, 5, 6, 7, 8, 9}" by auto
  then show ?thesis
    by (auto simp: digit_char_def is_digit_def digit_val_def js_space_def)
qed

lemma nat_digits_nonempty: "nat_digits n \<noteq> []"
  by (cases "n < 10") (simp_all add: nat_digits_less nat_digits_ge)

lemma nat_digits_all_digits: "\<forall>c\<in>set (nat_digits n). is_digit c"
  by (induction n rule: nat_digits.induct)
     (case_tac "n < 10"; simp add: nat_digits_less nat_digits_ge digit_char_props)

lemma dec_val_snoc: "dec_val (xs @ [d]) = 10 * dec_val xs + digit_val d"
  by (simp add: dec_val_def)

lemma dec_val_nat_digits: "dec_val (nat_digits n) = int n"
proof (induction n rule: nat_digits.induct)
  case (1 n)
  show ?case
  proof (cases "n < 10")
    case True
    then show ?thesis by (simp add: nat_digits_less dec_val_def digit_char_props)
  next
    case False
    then have "dec_val (nat_digits n) = 10 * int (n div 10) + int (n mod 10)"
      using 1 by (simp add: nat_digits_ge dec_val_snoc digit_char_props)
    also have "\<dots> = int n" by presburger
    finally show ?thesis .
  qed
qed

lemma hd_nat_digits: "\<exists>d r. nat_digits n = digit_char d # r \<and> d < 10"
proof (induction n rule: nat_digits.induct)
  case (1 n)
  then show ?case
    by (cases "n < 10") (auto simp: nat_digits_less nat_digits_ge)
qed

lemma js_parseInt10_nat_digits: "js_parseInt10 (nat_digits n) = Some (int n)"
proof -
  obtain d r where h: "nat_digits n = digit_char d # r" and "d < 10" using hd_nat_digits by blast
  then have "\<not> js_space (digit_char d)" "digit_char d \<noteq> CHR ''-''" "digit_char d \<noteq> CHR ''+''"
    by (simp_all add: digit_char_props)
  moreover have "takeWhile is_digit (digit_char d # r) = digit_char d # r"
    using nat_digits_all_digits [of n] h by simp
  moreover have "dec_val (digit_char d # r) = int n" using dec_val_nat_digits [of n] h by simp
  ultimately show ?thesis by (simp add: js_parseInt10_def h)
qed

lemma js_parseInt10_int_string: "js_parseInt10 (int_string z) = Some z"
proof (cases "z < 0")
  case True
  obtain d r where h: "nat_digits (nat (- z)) = digit_char d # r" and "d < 10"
    using hd_nat_digits by blast
  then have dg: "is_digit (digit_char d)" by (simp add: digit_char_props)
  have tw: "takeWhile is_digit r = r"
    using nat_digits_all_digits [of "nat (- z)"] h by (simp add: takeWhile_eq_all_conv)
  have dz: "dec_val (digit_char d # r) = - z"
    using dec_val_nat_digits [of "nat (- z)"] h True by simp
  have "js_parseInt10 (int_string z) = Some (- dec_val (digit_char d # takeWhile is_digit r))"
    using True dg by (simp add: int_string_def js_parseInt10_def js_space_def h)
  also have "\<dots> = Some z" by (subst tw) (simp add: dz)
  finally show ?thesis .
next
  case False
  then show ?thesis by (simp add: int_string_def js_parseInt10_nat_digits)
qed

lemma js_indexOf_absent: "c \<notin> set s \<Longrightarrow> js_indexOf c s = -1"
  by (induction s) auto

lemma js_indexOf_first: "c \<notin> set u \<Longrightarrow> js_indexOf c (u @ c # v) = int (length u)"
  by (induction u) (auto simp: Let_def)

lemma js_substring_prefix: "k \<le> length s \<Longrightarrow> js_substring s 0 (int k) = take k s"
  by (simp add: js_substring_def)

lemma js_substring_suffix: "k \<le> length s \<Longrightarrow> js_substring s (int k) (int (length s)) = drop k s"
  by (simp add: js_substring_def)

lemma js_substring_minus_one:
  "js_substring s 0 (-1) = []" "js_substring s (-1) (int (length s)) = s"
  by (simp_all add: js_substring_def)

lemma cut_at_first_space:
  assumes "CHR '' '' \<notin> set e"
  shows "js_indexOf CHR '' '' (e @ CHR '' '' # sel) = int (length e)
    \<and> js_substring (e @ CHR '' '' # sel) 0 (int (length e)) = e
    \<and> js_substring (e @ CHR '' '' # sel) (int (length e)) (int (length (e @ CHR '' '' # sel)))
        = CHR '' '' # sel"
proof -
  let ?item = "e @ CHR '' '' # sel"
  have "js_substring ?item (int (length e)) (int (length ?item)) = drop (length e) ?item"
    by (rule js_substring_suffix) simp
  with assms show ?thesis by (simp add: js_indexOf_first js_substring_prefix)
qed

lemma trigger_binding_no_space:
  "CHR '' '' \<notin> set item \<Longrightarrow> trigger_binding item = ([], if item \<noteq> [] then On_selector item else On_element)"
  by (simp add: trigger_binding_def js_indexOf_absent js_substring_minus_one)

subsection \<open>Properties of the options init reads\<close>

text \<open>
  An item \<open>"<event> <selector>"\<close> whose event has no space is cut into that
  event and the rest from the space on, bound as a selector.
\<close>

theorem trigger_binding_event_selector:
  assumes "CHR '' '' \<notin> set e"
  shows "trigger_binding (e @ CHR '' '' # sel) = (e, On_selector (CHR '' '' # sel))"
  using cut_at_first_space [OF assms] by (simp add: trigger_binding_def)

theorem trigger_binding_event_selector_witness:
  "trigger_binding ''click .open-modal'' = (''click'', On_selector '' .open-modal'')"
  using trigger_binding_event_selector [of "''click''" "''.open-modal''"] by simp

text \<open>
  Claim C32: the fallback to the pattern's own element (\<open>selector || self.$el\<close>) is
  never taken for a non-empty item, and an item without a space (an event name alone)
  is bound to the empty event, so it never shows the dialog.
\<close>

theorem trigger_fallback_unreachable:
  assumes "item \<noteq> []"
  shows "snd (trigger_binding item) \<noteq> On_element
    \<and> (CHR '' '' \<notin> set item \<longrightarrow> trigger_binding item = ([], On_selector item))"
proof (cases "CHR '' '' \<in> set item")
  case True
  then obtain e sel where "item = e @ CHR '' '' # sel" and "CHR '' '' \<notin> set e"
    by (blast dest: split_list_first)
  with True show ?thesis using cut_at_first_space [of e sel] by (simp add: trigger_binding_def)
next
  case False
  with assms show ?thesis by (simp add: trigger_binding_no_space)
qed

theorem trigger_fallback_unreachable_witness:
  "trigger_binding ''click'' = ([], On_selector ''click'')
   \<and> snd (trigger_binding ''click'') \<noteq> On_element"
  using trigger_fallback_unreachable [of "''click''"] by simp

text \<open>
  A backdrop z-index written as the decimal string of an integer \<open>z\<close> (as
  \<open>String(z)\<close> prints it) gives a new wrapper the z-index \<open>z + 1\<close>: \<open>parseInt\<close>
  reads back exactly the printed integer.
\<close>

theorem wrapper_zIndex_string: "wrapper_zIndex (Val (int_string z)) = Some (z + 1)"
  by (simp add: wrapper_zIndex_def js_parseInt10_int_string)

end
