(* ===== verification/Nodes.thy ===== *)
theory Nodes
  imports System
begin

text \<open>
  The identities of the rendered \<open>.modal\<close> nodes. \<open>nodes_wf\<close> is the
  well-formedness of a scope: the nodes in the wrapper are distinct, each was issued by
  the counter and belongs to an existing instance, and every instance's \<open>$modal\<close> was
  issued by the counter. A node is stale when it is in the wrapper but no instance's
  \<open>$modal\<close> refers to it: no \<open>remove\<close> of the code can reach it any more.
\<close>

definition nodes_wf :: "scope \<Rightarrow> bool" where
  "nodes_wf t \<longleftrightarrow> distinct (map fst (mounted t))
     \<and> (\<forall>p\<in>set (mounted t). fst p < fresh t \<and> snd p < length (insts t))
     \<and> (\<forall>m\<in>set (map modal (insts t)). pred_option (\<lambda>n. n < fresh t) m)"

definition stale :: "scope \<Rightarrow> nid \<Rightarrow> bool" where
  "stale t k \<longleftrightarrow> k \<in> set (map fst (mounted t)) \<and> k < fresh t \<and> Some k \<notin> set (map modal (insts t))"

text \<open>The invariant the operations keep for a list \<open>K\<close> of stale nodes: with two or more
  of them the wrapper exists and is shown.\<close>

definition node_inv :: "nid list \<Rightarrow> scope \<Rightarrow> bool" where
  "node_inv K t \<longleftrightarrow> nodes_wf t \<and> distinct K \<and> (\<forall>k\<in>set K. stale t k)
     \<and> (2 \<le> length K \<longrightarrow> wrapper_exists t \<and> wrapper_shown t)"

text \<open>Two dialogs each fetch a link, are hidden before the response arrives, and are
  shown and closed again: the sequence that leaves two stale nodes in the wrapper.\<close>

abbreviation stranding_events :: "sys_event list" where
  "stranding_events \<equiv>
     [Lc (Init html_opts plain_el), Lc (Init html_opts plain_el),
      Lc (Show 0), Fire 0 default_action_opts no_action_opts link_el, Lc (Hide 0),
      Act_done 1 ok_resp, Lc (Show 0), Lc (Hide 0),
      Lc (Show 1), Fire 1 default_action_opts no_action_opts link_el, Lc (Hide 1),
      Act_done 5 ok_resp, Lc (Show 1), Lc (Hide 1)]"

subsection \<open>Lemmas\<close>

lemma node_inv_cong:
  assumes "mounted t' = mounted t" "fresh t' = fresh t" "map modal (insts t') = map modal (insts t)"
    "wrapper_exists t' = wrapper_exists t" "wrapper_shown t' = wrapper_shown t"
  shows "node_inv K t' = node_inv K t"
proof -
  have "length (insts t') = length (insts t)" using assms(3) by (metis length_map)
  with assms show ?thesis by (simp add: node_inv_def nodes_wf_def stale_def)
qed

lemma map_modal_upd_inst:
  assumes "\<And>x. modal (f x) = modal x"
  shows "map modal (insts (upd_inst i f t)) = map modal (insts t)"
proof (cases "i < length (insts t)")
  case True
  then have "(map modal (insts t))[i := modal (insts t ! i)] = map modal (insts t)"
    by (metis list_update_id nth_map)
  with assms show ?thesis by (simp add: upd_inst_def map_update)
next
  case False
  then show ?thesis by (simp add: upd_inst_def list_update_beyond)
qed

lemma node_inv_upd_inst:
  "(\<And>x. modal (f x) = modal x) \<Longrightarrow> node_inv K (upd_inst i f t) = node_inv K t"
  by (rule node_inv_cong) (simp_all add: map_modal_upd_inst, simp_all add: upd_inst_def)

lemma node_inv_frame [simp]:
  "node_inv K (emit i e t) = node_inv K t"
  "node_inv K (abort r t) = node_inv K t"
  "node_inv K (abort_xhr i t) = node_inv K t"
  "node_inv K (loading_off j t) = node_inv K t"
  "node_inv K (t\<lparr>resize_hooks := h\<rparr>) = node_inv K t"
  "node_inv K (t\<lparr>backdrop_shown := b\<rparr>) = node_inv K t"
  "node_inv K (t\<lparr>backdrop_closable := b\<rparr>) = node_inv K t"
  by (rule node_inv_cong; simp add: emit_def abort_def abort_xhr_def loading_off_def split: option.split)+

lemma length_K_le: "node_inv K t \<Longrightarrow> length K \<le> length (mounted t)"
proof -
  assume i: "node_inv K t"
  then have "set K \<subseteq> set (map fst (mounted t))" and d: "distinct K"
    by (auto simp: node_inv_def stale_def)
  then have "length K \<le> card (set (map fst (mounted t)))"
    by (metis card_mono distinct_card finite_set)
  also have "\<dots> \<le> length (mounted t)" by (metis card_length length_map)
  finally show ?thesis .
qed

lemma node_inv_wrapper_off:
  "length K < 2 \<Longrightarrow> node_inv K t \<Longrightarrow> node_inv K (t\<lparr>wrapper_shown := b, overflow_hidden := c\<rparr>)"
  by (simp add: node_inv_def nodes_wf_def stale_def)

lemma node_inv_showLoading: "node_inv K t \<Longrightarrow> node_inv K (showLoading j c t)"
  by (simp add: node_inv_def nodes_wf_def stale_def showLoading_def)

lemma node_inv_remove_node:
  assumes "node_inv K t" and "Some n \<in> set (map modal (insts t))"
  shows "node_inv K (remove_node n t)"
proof -
  have "\<forall>k\<in>set K. k \<noteq> n" using assms by (auto simp: node_inv_def stale_def)
  with assms(1) show ?thesis
    by (auto simp: node_inv_def nodes_wf_def stale_def remove_node_def distinct_map_filter image_iff)
      (metis prod.collapse)+
qed

lemma upd_inst_fields [simp]:
  "mounted (upd_inst j f t) = mounted t" "fresh (upd_inst j f t) = fresh t"
  "wrapper_exists (upd_inst j f t) = wrapper_exists t" "wrapper_shown (upd_inst j f t) = wrapper_shown t"
  by (simp_all add: upd_inst_def)

lemma node_inv_fresh_up:
  "node_inv K t \<Longrightarrow> fresh t \<le> f \<Longrightarrow> node_inv K (t\<lparr>fresh := f, pending := ps\<rparr>)"
  "node_inv K t \<Longrightarrow> fresh t \<le> f \<Longrightarrow> node_inv K (t\<lparr>fresh := f\<rparr>)"
  by (fastforce simp: node_inv_def nodes_wf_def stale_def pred_option_def)+

lemma emit_fields [simp]:
  "mounted (emit i e t) = mounted t" "fresh (emit i e t) = fresh t" "insts (emit i e t) = insts t"
  "wrapper_exists (emit i e t) = wrapper_exists t" "wrapper_shown (emit i e t) = wrapper_shown t"
  by (simp_all add: emit_def)

lemma node_inv_new_node:
  assumes inv: "node_inv K t" and j: "j < length (insts t)"
    and m: "mounted t' = mounted t @ [(fresh t, j)]" and f: "fresh t' = Suc (fresh t)"
    and ms: "map modal (insts t') = (map modal (insts t))[j := Some (fresh t)]"
    and w: "wrapper_exists t' = wrapper_exists t" "wrapper_shown t' = wrapper_shown t"
  shows "node_inv K t'"
proof -
  have len: "length (insts t') = length (insts t)" using ms by (metis length_list_update length_map)
  have sub: "set ((map modal (insts t))[j := Some (fresh t)]) \<subseteq> insert (Some (fresh t)) (set (map modal (insts t)))"
    by (rule set_update_subset_insert)
  from inv have old: "\<forall>p\<in>set (mounted t). fst p < fresh t" by (simp add: node_inv_def nodes_wf_def)
  then have "fresh t \<notin> set (map fst (mounted t))" by auto
  with inv j sub old show ?thesis unfolding node_inv_def nodes_wf_def stale_def m f ms w len
    by (auto simp: pred_option_def less_Suc_eq)
qed

lemma node_inv_render:
  assumes inv: "node_inv K t" and j: "j < length (insts t)"
  shows "node_inv K (render j t)"
proof -
  define t0 where "t0 = emit j Ev_before_events_setup (emit j Ev_before_render (emit j Ev_render t))"
  define t3 where "t3 = (upd_inst j (\<lambda>x. x\<lparr>modal := Some (fresh t0), modal_active := False\<rparr>) t0)
                          \<lparr>fresh := Suc (fresh t0), mounted := mounted t0 @ [(fresh t0, j)]\<rparr>"
  have "node_inv K t0" "j < length (insts t0)" using inv j by (simp_all add: t0_def)
  then have "node_inv K t3" unfolding t3_def
    by (rule node_inv_new_node) (simp_all add: upd_inst_def map_update)
  then show ?thesis using inv by (simp add: render_def Let_def t0_def t3_def)
qed

lemma node_inv_shown:
  "node_inv K t \<Longrightarrow> node_inv K (loading_off j (t\<lparr>backdrop_shown := True, wrapper_shown := True,
     overflow_hidden := True\<rparr>))"
  by (simp add: node_inv_def nodes_wf_def stale_def loading_off_def)

lemma node_inv_show_rendered:
  assumes inv: "node_inv K t" and j: "j < length (insts t)" and r: "show_rendered j t = Inr t'"
  shows "node_inv K t'"
proof -
  let ?u = "loading_off j ((emit j Ev_show (render j t))\<lparr>backdrop_shown := True,
              wrapper_shown := True, overflow_hidden := True\<rparr>)"
  have "node_inv K ?u" using node_inv_render [OF inv j] by (intro node_inv_shown) simp
  then have "node_inv K (upd_inst j (\<lambda>x. x\<lparr>el_active := True, modal_active := True\<rparr>) ?u)"
    by (simp add: node_inv_upd_inst)
  with r show ?thesis by (auto simp: show_rendered_def Let_def split: option.splits)
qed

lemma node_inv_set_raw [simp]: "node_inv K (set_raw j f t) = node_inv K t"
  by (simp add: set_raw_def node_inv_upd_inst)

lemma node_inv_show_set_raw:
  "node_inv K t \<Longrightarrow> j < length (insts t) \<Longrightarrow> show_rendered j (set_raw j f t) = Inr t' \<Longrightarrow> node_inv K t'"
  by (rule node_inv_show_rendered) (simp_all add: set_raw_def node_inv_upd_inst)

lemma node_inv_createAjaxModal: "node_inv K t \<Longrightarrow> node_inv K (createAjaxModal j t)"
  by (simp add: createAjaxModal_def Let_def node_inv_upd_inst node_inv_fresh_up node_inv_showLoading)

lemma node_inv_show_modal:
  assumes inv: "node_inv K t" and r: "show_modal j t = Inr t'"
  shows "node_inv K t'"
proof -
  from r obtain st where j: "j < length (insts t)" and c: "create st j t = Inr t'"
    by (auto simp: show_modal_def split: if_splits option.splits)
  from c show ?thesis
    by (cases st) (auto intro: node_inv_show_set_raw [OF inv j] simp: node_inv_createAjaxModal [OF inv])
qed

lemma node_inv_hide_remove:
  assumes inv: "node_inv K t" and j: "j < length (insts t)"
  shows "node_inv K (hide_remove j t)"
proof (cases "modal (inst_of t j)")
  case None
  with inv show ?thesis by (simp add: hide_remove_def)
next
  case (Some n)
  have "modal (insts t ! j) \<in> set (map modal (insts t))" using j by simp
  with Some have "Some n \<in> set (map modal (insts t))" by (simp add: inst_of_def)
  with inv have "node_inv K (remove_node n t)" by (rule node_inv_remove_node)
  with Some show ?thesis by (simp add: hide_remove_def node_inv_upd_inst)
qed

lemma node_inv_ajax_done:
  assumes inv: "node_inv K t" and si: "scope_inv t" and d: "ajax_done r b t = Inr t'"
  shows "node_inv K t'"
proof (cases "map_of (pending t) r")
  case None
  with inv d show ?thesis by (simp add: ajax_done_def)
next
  case (Some i)
  then have "(r, i) \<in> set (pending t)" by (rule map_of_SomeD)
  with si have "snd (r, i) < length (insts t)" unfolding scope_inv_def by blast
  then have j: "i < length (insts t)" by simp
  let ?u = "emit i Ev_after_ajax (set_raw i (Raw_response b)
      (loading_off i (upd_inst i (\<lambda>x. x\<lparr>ajaxXHR := None\<rparr>) (abort r t))))"
  have u: "node_inv K ?u" using inv by (simp add: node_inv_upd_inst)
  have uj: "i < length (insts ?u)" using j by (simp add: set_raw_def abort_def)
  have "show_rendered i ?u = Inr t'" using d Some by (simp add: ajax_done_def Let_def)
  with u uj show ?thesis by (rule node_inv_show_rendered)
qed

text \<open>Hiding keeps the invariant when the backdrop call does.\<close>

lemma node_inv_hide_shared:
  assumes bd: "\<And>u. node_inv K u \<Longrightarrow> node_inv K (bd u)" and inv: "node_inv K u"
  shows "node_inv K (hide_shared bd u)"
proof (cases "length (mounted u) < 2")
  case True
  with length_K_le [OF inv] have "length K < 2" by simp
  with bd [OF inv] show ?thesis using True by (simp add: hide_shared_def node_inv_wrapper_off)
next
  case False
  with inv show ?thesis by (simp add: hide_shared_def)
qed

lemma node_inv_hide_with:
  assumes bd: "\<And>u. node_inv K u \<Longrightarrow> node_inv K (bd u)"
    and bl: "\<And>u. length (insts (bd u)) = length (insts u)"
    and inv: "node_inv K t" and j: "j < length (insts t)"
  shows "node_inv K (hide_with bd j t)"
proof -
  let ?u = "loading_off j (hide_shared bd (emit j Ev_hide (abort_xhr j t)))"
  have "node_inv K ?u" using inv by (simp add: node_inv_hide_shared bd)
  moreover have "j < length (insts ?u)" using j bl by (simp add: hide_shared_def)
  ultimately have "node_inv K (hide_remove j (upd_inst j (\<lambda>x. x\<lparr>el_active := False\<rparr>) ?u))"
    by (intro node_inv_hide_remove) (simp_all add: node_inv_upd_inst)
  then show ?thesis by (simp add: hide_with_def)
qed

lemma node_inv_backdrop_hide: "node_inv K s \<Longrightarrow> node_inv K (backdrop_hide n s)"
  by (rule backdrop_hide_preserves_bounded) (auto intro: node_inv_hide_with)

lemma node_inv_hide: "node_inv K t \<Longrightarrow> j < length (insts t) \<Longrightarrow> node_inv K (hide j t)"
  unfolding hide_def
  by (rule node_inv_hide_with)
     (simp_all add: node_inv_backdrop_hide length_backdrop_hide del: backdrop_hide.simps)

lemma node_inv_escape_key: "node_inv K t \<Longrightarrow> node_inv K (escape_key t)"
  unfolding escape_key_def
  by (rule fold_invariant_mem [where P = "\<lambda>u. node_inv K u \<and> length (insts u) = length (insts t)",
        THEN conjunct1]) (auto intro: node_inv_hide)

lemma node_inv_wrapper_click: "node_inv K t \<Longrightarrow> node_inv K (wrapper_click t)"
  by (simp add: wrapper_click_def node_inv_backdrop_hide del: backdrop_hide.simps)

lemma node_inv_init: "node_inv K t \<Longrightarrow> node_inv K (init_inst o0 el t)"
  by (auto simp: node_inv_def nodes_wf_def stale_def init_inst_def Let_def)

lemma node_inv_redraw:
  assumes inv: "node_inv K t" and j: "j < length (insts t)" and r: "redraw j b t = Inr t'"
  shows "node_inv K t'"
proof -
  from r obtain n where n: "modal (inst_of t j) = Some n"
    and t': "t' = emit j Ev_after_draw (render j (set_raw j (Raw_response b) (remove_node n (emit j Ev_before_draw t))))"
    by (auto simp: redraw_def Let_def inst_of_def emit_def split: option.splits)
  have "modal (insts t ! j) \<in> set (map modal (insts t))" using j by simp
  with n have "Some n \<in> set (map modal (insts (emit j Ev_before_draw t)))" by (simp add: inst_of_def)
  with inv have "node_inv K (remove_node n (emit j Ev_before_draw t))"
    by (intro node_inv_remove_node) simp_all
  moreover have "j < length (insts (set_raw j (Raw_response b) (remove_node n (emit j Ev_before_draw t))))"
    using j by (simp add: set_raw_def)
  ultimately show ?thesis unfolding t' by (simp add: node_inv_render)
qed

lemma node_inv_step:
  "node_inv K t \<Longrightarrow> scope_inv t \<Longrightarrow> step t e = Inr t' \<Longrightarrow> node_inv K t'"
  by (cases e) (auto simp del: backdrop_hide.simps simp: node_inv_init ajax_fail_def node_inv_escape_key
      node_inv_wrapper_click node_inv_backdrop_hide node_inv_hide split: if_splits
      intro: node_inv_show_modal node_inv_ajax_done)

lemma length_redraw: "redraw j b t = Inr t' \<Longrightarrow> length (insts t') = length (insts t)"
  by (auto simp: redraw_def Let_def render_def set_raw_def split: option.splits)

lemma apply_effect_node_inv:
  assumes inv: "node_inv K (sc s)" and i: "i < length (insts (sc s))"
    and a: "apply_effect i n e s = Inr s'"
  shows "node_inv K (sc s') \<and> length (insts (sc s')) = length (insts (sc s))"
proof (cases e)
  case (Redraw b)
  with a obtain t' where r: "redraw i b (sc s) = Inr t'" and s': "s' = s\<lparr>sc := t'\<rparr>"
    by (auto simp: on_scope_def rbind_eq_Inr_iff)
  from node_inv_redraw [OF inv i r] length_redraw [OF r] show ?thesis by (simp add: s')
next
  case Destroy
  with a inv i show ?thesis by (auto simp: node_inv_hide split: if_splits)
next
  case Hide_loading
  with a inv show ?thesis by auto
qed (use a inv in \<open>auto simp: tell_def\<close>)

lemma apply_effects_node_inv:
  "node_inv K (sc s) \<Longrightarrow> i < length (insts (sc s)) \<Longrightarrow> apply_effects i n es s = Inr s' \<Longrightarrow>
     node_inv K (sc s')"
proof (induction es arbitrary: s)
  case Nil
  then show ?case by simp
next
  case (Cons e es)
  then obtain s1 where a: "apply_effect i n e s = Inr s1" and r: "apply_effects i n es s1 = Inr s'"
    by (auto simp: rbind_eq_Inr_iff)
  from apply_effect_node_inv [OF Cons.prems(1,2) a] have "node_inv K (sc s1)" "i < length (insts (sc s1))"
    using Cons.prems(2) by simp_all
  from Cons.IH [OF this r] show ?case .
qed

lemma node_inv_fire:
  assumes inv: "node_inv K (sc s)" and f: "fire i d a el s = Inr s'"
  shows "node_inv K (sc s')"
proof -
  from f have i: "i < length (insts (sc s))" by (auto simp: fire_def split: if_splits)
  have l: "node_inv K (showLoading i False (sc s))" using inv by (rule node_inv_showLoading)
  show ?thesis
  proof (cases "dispatch_action d a el")
    case (Run_method g)
    with f i have "run_method i g (s\<lparr>sc := showLoading i False (sc s)\<rparr>) = Inr s'"
      by (auto simp: fire_def split: option.splits if_splits)
    moreover have "i < length (insts (showLoading i False (sc s)))" using i by (simp add: showLoading_def)
    ultimately show ?thesis using l
      by (auto simp: run_method_def on_scope_def rbind_eq_Inr_iff tell_def
          intro: node_inv_hide node_inv_show_modal split: if_splits)
  next
    case (Send req)
    have "node_inv K ((showLoading i False (sc s))\<lparr>fresh := Suc (fresh (sc s))\<rparr>)"
      using l by (rule node_inv_fresh_up(2)) (simp add: showLoading_def)
    moreover have "sc s' = (showLoading i False (sc s))\<lparr>fresh := Suc (fresh (sc s))\<rparr>"
      using f Send by (auto simp: fire_def Let_def showLoading_def split: option.splits if_splits)
    ultimately show ?thesis by simp
  qed (use f l in \<open>auto simp: fire_def tell_def split: option.splits if_splits\<close>)
qed

lemma node_inv_sys_step:
  assumes inv: "node_inv K (sc s)" and si: "sys_inv s" and st: "sys_step s e = Inr s'"
  shows "node_inv K (sc s')"
proof (cases e)
  case (Lc ev)
  from si have "scope_inv (sc s)" by (simp add: sys_inv_def)
  with inv st Lc show ?thesis
    by (auto simp: on_scope_def rbind_eq_Inr_iff intro: node_inv_step)
next
  case (Fire i d a el)
  with inv st show ?thesis by (auto intro: node_inv_fire)
next
  case (Act_done r resp)
  show ?thesis
  proof (cases "map_of (inflight s) r")
    case None
    with st Act_done inv show ?thesis by (simp add: act_done_def)
  next
    case (Some q)
    then have "(r, q) \<in> set (inflight s)" by (rule map_of_SomeD)
    with si have "req_ok (sc s) q" unfolding sys_inv_def by (metis snd_conv)
    then have "req_inst q < length (insts (sc (drop_req r s)))" by (simp add: req_ok_def drop_req_def)
    moreover have "node_inv K (sc (drop_req r s))" using inv by (simp add: drop_req_def)
    ultimately show ?thesis using st Act_done Some
      by (auto simp: act_done_def rbind_eq_Inr_iff intro: apply_effects_node_inv)
  qed
next
  case (Act_fail r st')
  show ?thesis
  proof (cases "map_of (inflight s) r")
    case None
    with st Act_fail inv show ?thesis by (simp add: act_fail_def)
  next
    case (Some q)
    then have "(r, q) \<in> set (inflight s)" by (rule map_of_SomeD)
    with si have "req_ok (sc s) q" unfolding sys_inv_def by (metis snd_conv)
    then have "req_inst q < length (insts (sc (drop_req r s)))" by (simp add: req_ok_def drop_req_def)
    moreover have "node_inv K (sc (drop_req r s))" using inv by (simp add: drop_req_def)
    ultimately show ?thesis using st Act_fail Some
      by (auto simp: act_fail_def intro: apply_effects_node_inv)
  qed
qed

lemma sys_run_node_inv:
  "sys_inv s \<Longrightarrow> node_inv K (sc s) \<Longrightarrow> sys_run s es = Inr s' \<Longrightarrow> node_inv K (sc s')"
proof (induction es arbitrary: s)
  case Nil
  then show ?case by simp
next
  case (Cons e es)
  then obtain s1 where st: "sys_step s e = Inr s1" and r: "sys_run s1 es = Inr s'"
    by (auto simp: rbind_eq_Inr_iff)
  have "sys_inv s1" using Cons.prems(1) st by (rule sys_inv_step)
  moreover have "node_inv K (sc s1)" using Cons.prems(2,1) st by (rule node_inv_sys_step)
  ultimately show ?case using r by (rule Cons.IH)
qed

lemma sys_reachable_node_inv: "sys_reachable s \<Longrightarrow> node_inv [] (sc s)"
proof (induction rule: sys_reachable.induct)
  case start
  then show ?case by (simp add: node_inv_def nodes_wf_def empty_system_def empty_scope_def)
next
  case (step s e s')
  then show ?case by (blast intro: node_inv_sys_step sys_reachable_inv)
qed

lemma stranded_state:
  "\<exists>s. sys_run empty_system stranding_events = Inr s \<and> node_inv [2, 6] (sc s) \<and> length (insts (sc s)) = 2
     \<and> \<not> el_active (inst_of (sc s) 0) \<and> \<not> el_active (inst_of (sc s) 1)"
  by (simp add: modal_defs node_inv_def nodes_wf_def stale_def)

subsection \<open>Properties of the node identities\<close>

text \<open>
  In every reachable state the nodes in the wrapper have distinct identities
  issued by the counter and belong to existing instances, and every instance's
  \<open>$modal\<close> was issued by the counter.
\<close>

theorem nodes_wf_reachable: "sys_reachable s \<Longrightarrow> nodes_wf (sc s)"
  using sys_reachable_node_inv [of s] by (simp add: node_inv_def)

theorem nodes_wf_reachable_witness:
  "\<exists>s. sys_reachable s \<and> nodes_wf (sc s) \<and> mounted (sc s) = [(2, 0), (6, 1)]"
proof -
  obtain s where run: "sys_run empty_system stranding_events = Inr s" and m: "mounted (sc s) = [(2, 0), (6, 1)]"
    by (simp add: modal_defs)
  have "sys_reachable s" using sys_reachable.start run by (rule sys_run_reachable)
  with m show ?thesis using nodes_wf_reachable [of s] by blast
qed

text \<open>
  Claim C11: closing the dialogs does not always lead back to a closed page: there is a
  reachable state where no dialog is active and from which no sequence of events ever
  hides the wrapper again. Two stale nodes (from link responses that arrived after
  \<open>hide\<close>) stay in the wrapper for ever, so every \<open>hide\<close> counts at least two
  \<open>.modal\<close> nodes.
\<close>

theorem wrapper_stranded:
  "\<exists>s. sys_reachable s \<and> (\<forall>i<length (insts (sc s)). \<not> el_active (inst_of (sc s) i))
     \<and> (\<forall>es s'. sys_run s es = Inr s' \<longrightarrow> wrapper_shown (sc s'))"
proof -
  obtain s where run: "sys_run empty_system stranding_events = Inr s" and inv: "node_inv [2, 6] (sc s)"
    and len: "length (insts (sc s)) = 2"
    and a: "\<not> el_active (inst_of (sc s) 0)" "\<not> el_active (inst_of (sc s) 1)"
    using stranded_state by blast
  have reach: "sys_reachable s" using sys_reachable.start run by (rule sys_run_reachable)
  then have si: "sys_inv s" by (rule sys_reachable_inv)
  have "\<forall>es s'. sys_run s es = Inr s' \<longrightarrow> wrapper_shown (sc s')"
    using sys_run_node_inv [OF si inv] by (auto simp: node_inv_def)
  moreover have "\<forall>i<length (insts (sc s)). \<not> el_active (inst_of (sc s) i)"
    using len a by (auto simp: less_Suc_eq numeral_2_eq_2)
  ultimately show ?thesis using reach by blast
qed

theorem wrapper_stranded_witness:
  "\<exists>s s'. sys_reachable s \<and> sys_run s [Lc Backdrop_dismiss, Lc Escape, Lc Wrapper_click] = Inr s'
     \<and> wrapper_shown (sc s')"
proof -
  obtain s where "sys_reachable s" and all: "\<forall>es s'. sys_run s es = Inr s' \<longrightarrow> wrapper_shown (sc s')"
    using wrapper_stranded by blast
  moreover obtain s' where "sys_run s [Lc Backdrop_dismiss, Lc Escape, Lc Wrapper_click] = Inr s'"
    by (simp add: on_scope_def del: backdrop_hide.simps)
  ultimately show ?thesis by blast
qed

end
