(* ===== verification/Renderer.thy ===== *)
theory Renderer
  imports Actions
begin

text \<open>
  The markup level of the renderer of \<open>src/js/patterns/modal.js\<close>: the default
  \<open>templateOptions\<close> and their template, and \<open>render\<close>'s extraction of title,
  prepend region and content from \<open>$raw\<close>, the stamping of the template and the
  relocation of the buttons into the footer. A document is a forest of elements and text
  nodes. An element carries its atoms, the simple selectors it satisfies: its tag name,
  \<open>.class\<close>, \<open>#id\<close>, \<open>[attr="value"]\<close>, and \<open>:hidden\<close> once jQuery's
  \<open>hide()\<close> has run on it. Selectors are compound selectors joined by the child
  (\<open>>\<close>) and descendant (space) combinators, optionally ending in \<open>:first\<close>.
\<close>

subsection \<open>Documents and selectors\<close>

datatype dom = Text string | Elem "string list" "dom list"

datatype comb = Child | Descendant

text \<open>
  \<open>Selector pre c first\<close>: the compounds before the last one, each with the combinator
  that follows it (left to right), the last compound \<open>c\<close>, and whether the selector
  ends in \<open>:first\<close>.
\<close>

datatype selector = Selector "(string list \<times> comb) list" "string list" bool

definition cmatch :: "string list \<Rightarrow> string list \<Rightarrow> bool" where
  "cmatch c a \<longleftrightarrow> set c \<subseteq> set a"

text \<open>
  Matching the compounds before the last one against the ancestors (nearest first),
  the compounds taken right to left. A child combinator needs the parent, a descendant
  combinator some ancestor.
\<close>

fun chain_match :: "(string list \<times> comb) list \<Rightarrow> string list list \<Rightarrow> bool" where
  "chain_match [] anc = True"
| "chain_match ((c, k) # r) [] = False"
| "chain_match ((c, Child) # r) (a # anc) = (cmatch c a \<and> chain_match r anc)"
| "chain_match ((c, Descendant) # r) (a # anc) =
     ((cmatch c a \<and> chain_match r anc) \<or> chain_match ((c, Descendant) # r) anc)"

fun smatch :: "selector \<Rightarrow> string list \<Rightarrow> string list list \<Rightarrow> bool" where
  "smatch (Selector pre c f) a anc = (cmatch c a \<and> chain_match (rev pre) anc)"

fun sfirst :: "selector \<Rightarrow> bool" where
  "sfirst (Selector pre c f) = f"

subsection \<open>Parsing a selector string\<close>

text \<open>A compound is cut before each \<open>.\<close>, \<open>#\<close>, \<open>[\<close> and \<open>:\<close>.\<close>

fun split_atoms :: "string \<Rightarrow> string list" where
  "split_atoms [] = []"
| "split_atoms (x # xs) =
     (case split_atoms xs of
        [] \<Rightarrow> [[x]]
      | a # r \<Rightarrow> if hd a \<in> set ''.#[:'' then [x] # a # r else (x # a) # r)"

text \<open>
  The words of the selector (split at spaces, empty words dropped) read left to right:
  \<open>>\<close> makes the combinator before the next compound a child combinator.
\<close>

fun parse_words :: "string list \<Rightarrow> comb \<Rightarrow> (string list \<times> comb) list \<Rightarrow> string list
                     \<Rightarrow> (string list \<times> comb) list \<times> string list" where
  "parse_words [] k pre c = (pre, c)"
| "parse_words (w # ws) k pre c =
     (if w = ''>'' then parse_words ws Child pre c
      else parse_words ws Descendant (pre @ [(c, k)]) (split_atoms w))"

definition parse_sel :: "string \<Rightarrow> selector" where
  "parse_sel s =
     (case filter (\<lambda>w. w \<noteq> []) (js_split CHR '' '' s) of
        [] \<Rightarrow> Selector [] [] False
      | w # ws \<Rightarrow>
          (let (pre, c) = parse_words ws Descendant [] (split_atoms w)
           in if c \<noteq> [] \<and> last c = '':first'' then Selector pre (butlast c) True
              else Selector pre c False))"

text \<open>
  A selector option of the configuration: \<open>$(x, ctx)\<close> with \<open>x\<close> absent, \<open>null\<close>
  or empty selects nothing.
\<close>

definition sel_of :: "js_string \<Rightarrow> selector option" where
  "sel_of v = (case v of Val s \<Rightarrow> if s = [] then None else Some (parse_sel s) | _ \<Rightarrow> None)"

subsection \<open>Selection\<close>

text \<open>
  The elements of a forest that match a selector, in document order (pre-order),
  the ancestors of the forest given nearest first. A match is listed with its subtree
  and the search continues inside it.
\<close>

fun sel_all :: "selector \<Rightarrow> string list list \<Rightarrow> dom list \<Rightarrow> dom list" where
  "sel_all s anc [] = []"
| "sel_all s anc (Text t # ns) = sel_all s anc ns"
| "sel_all s anc (Elem a ch # ns) =
     (if smatch s a anc then [Elem a ch] else []) @ sel_all s (a # anc) ch @ sel_all s anc ns"

text \<open>
  \<open>$(sel, $set)\<close>, i.e. \<open>$set.find(sel)\<close>: the descendants of the elements of a
  jQuery set (never the elements themselves) that match, \<open>:first\<close> keeping the first.
\<close>

definition in_roots :: "(string list list \<Rightarrow> dom list \<Rightarrow> dom list) \<Rightarrow> dom list \<Rightarrow> dom list" where
  "in_roots g rs = concat (map (\<lambda>r. case r of Elem a ch \<Rightarrow> g [a] ch | Text t \<Rightarrow> []) rs)"

definition query :: "selector option \<Rightarrow> dom list \<Rightarrow> dom list" where
  "query so rs =
     (case so of
        None \<Rightarrow> []
      | Some s \<Rightarrow> (let r = in_roots (sel_all s) rs in if sfirst s then take 1 r else r))"

text \<open>\<open>.html()\<close>: the children of the first node of the set when it is an element,
  \<open>undefined\<close> (\<open>None\<close>) for an empty set or a text node.\<close>

fun html_first :: "dom list \<Rightarrow> dom list option" where
  "html_first (Elem a ch # ns) = Some ch"
| "html_first _ = None"

subsection \<open>Removal, hiding and insertion\<close>

text \<open>\<open>.remove()\<close> on every match: a removed element takes its subtree with it.\<close>

fun remove_all :: "selector \<Rightarrow> string list list \<Rightarrow> dom list \<Rightarrow> dom list" where
  "remove_all s anc [] = []"
| "remove_all s anc (Text t # ns) = Text t # remove_all s anc ns"
| "remove_all s anc (Elem a ch # ns) =
     (if smatch s a anc then remove_all s anc ns
      else Elem a (remove_all s (a # anc) ch) # remove_all s anc ns)"

text \<open>Replacing the first match in document order (\<open>None\<close>: there is none).\<close>

fun edit_first :: "selector \<Rightarrow> (string list \<Rightarrow> dom list \<Rightarrow> dom list) \<Rightarrow> string list list
                    \<Rightarrow> dom list \<Rightarrow> dom list option" where
  "edit_first s g anc [] = None"
| "edit_first s g anc (Text t # ns) = map_option (Cons (Text t)) (edit_first s g anc ns)"
| "edit_first s g anc (Elem a ch # ns) =
     (if smatch s a anc then Some (g a ch @ ns)
      else case edit_first s g (a # anc) ch of
             Some ch' \<Rightarrow> Some (Elem a ch' # ns)
           | None \<Rightarrow> map_option (Cons (Elem a ch)) (edit_first s g anc ns))"

fun roots_first :: "selector \<Rightarrow> (string list \<Rightarrow> dom list \<Rightarrow> dom list) \<Rightarrow> dom list
                     \<Rightarrow> dom list option" where
  "roots_first s g [] = None"
| "roots_first s g (Text t # rs) = map_option (Cons (Text t)) (roots_first s g rs)"
| "roots_first s g (Elem a ch # rs) =
     (case edit_first s g [a] ch of
        Some ch' \<Rightarrow> Some (Elem a ch' # rs)
      | None \<Rightarrow> map_option (Cons (Elem a ch)) (roots_first s g rs))"

definition on_roots :: "(string list list \<Rightarrow> dom list \<Rightarrow> dom list) \<Rightarrow> dom list \<Rightarrow> dom list" where
  "on_roots g rs = map (\<lambda>r. case r of Elem a ch \<Rightarrow> Elem a (g [a] ch) | Text t \<Rightarrow> Text t) rs"

text \<open>\<open>$(sel, $set).remove()\<close>.\<close>

definition remove_sel :: "selector option \<Rightarrow> dom list \<Rightarrow> dom list" where
  "remove_sel so rs =
     (case so of
        None \<Rightarrow> rs
      | Some s \<Rightarrow>
          if sfirst s then (case roots_first s (\<lambda>a ch. []) rs of None \<Rightarrow> rs | Some rs' \<Rightarrow> rs')
          else on_roots (remove_all s) rs)"

definition add_atom :: "string \<Rightarrow> string list \<Rightarrow> string list" where
  "add_atom x a = (if x \<in> set a then a else a @ [x])"

text \<open>\<open>.hide()\<close> on every match (nested matches included).\<close>

fun hide_all :: "selector \<Rightarrow> string list list \<Rightarrow> dom list \<Rightarrow> dom list" where
  "hide_all s anc [] = []"
| "hide_all s anc (Text t # ns) = Text t # hide_all s anc ns"
| "hide_all s anc (Elem a ch # ns) =
     Elem (if smatch s a anc then add_atom '':hidden'' a else a) (hide_all s (a # anc) ch)
       # hide_all s anc ns"

definition hide_sel :: "selector option \<Rightarrow> dom list \<Rightarrow> dom list" where
  "hide_sel so rs =
     (case so of
        None \<Rightarrow> rs
      | Some s \<Rightarrow>
          if sfirst s
          then (case roots_first s (\<lambda>a ch. [Elem (add_atom '':hidden'' a) ch]) rs of
                  None \<Rightarrow> rs | Some rs' \<Rightarrow> rs')
          else on_roots (hide_all s) rs)"

text \<open>\<open>.appendTo($('.pat-modal-buttons', ...))\<close>: the nodes appended to the children of
  every element with the class \<open>pat-modal-buttons\<close>.\<close>

fun append_into :: "dom list \<Rightarrow> dom list \<Rightarrow> dom list" where
  "append_into bs [] = []"
| "append_into bs (Text t # ns) = Text t # append_into bs ns"
| "append_into bs (Elem a ch # ns) =
     Elem a (append_into bs ch @ (if ''.pat-modal-buttons'' \<in> set a then bs else []))
       # append_into bs ns"

text \<open>\<open>$('.row', $modal).removeClass('row')\<close>.\<close>

fun unrow :: "dom list \<Rightarrow> dom list" where
  "unrow [] = []"
| "unrow (Text t # ns) = Text t # unrow ns"
| "unrow (Elem a ch # ns) = Elem (removeAll ''.row'' a) (unrow ch) # unrow ns"


subsection \<open>Template\<close>

text \<open>The class names of \<open>templateOptions\<close> and their defaults.\<close>

record tpl_opts =
  tp_className :: string
  tp_classHeaderName :: string
  tp_classBodyName :: string
  tp_classFooterName :: string
  tp_classWrapperName :: string
  tp_classWrapperInnerName :: string
  tp_classLoadingName :: string
  tp_classActiveName :: string
  tp_classPrependName :: string
  tp_classContentName :: string

definition default_tpl_opts :: tpl_opts where
  "default_tpl_opts =
     \<lparr>tp_className = ''modal'', tp_classHeaderName = ''modal-header'',
      tp_classBodyName = ''modal-body'', tp_classFooterName = ''modal-footer'',
      tp_classWrapperName = ''modal-wrapper'', tp_classWrapperInnerName = ''modal-wrapper-inner'',
      tp_classLoadingName = ''modal-loading'', tp_classActiveName = ''active'',
      tp_classPrependName = [], tp_classContentName = []\<rparr>"

text \<open>The object \<open>render\<close> passes to the template (\<open>None\<close>: \<open>undefined\<close>).\<close>

record tpl_object =
  t_title :: "dom list option"
  t_prepend :: "dom list"
  t_content :: "dom list option"
  t_buttons :: "dom list"

text \<open>\<open>class="..."\<close>: the words of the attribute as class atoms.\<close>

definition cls :: "string \<Rightarrow> string list" where
  "cls c = map (\<lambda>w. CHR ''.'' # w) (filter (\<lambda>w. w \<noteq> []) (js_split CHR '' '' c))"

text \<open>\<open><% if (title) %>\<close>: \<open>undefined\<close> and the empty string are falsy.\<close>

fun title_truthy :: "dom list option \<Rightarrow> bool" where
  "title_truthy (Some f) = (f \<noteq> [])"
| "title_truthy None = False"

text \<open>
  The default template, stamped: \<open><%= x %>\<close> prints \<open>undefined\<close> as the empty
  string. Whitespace-only text nodes between the tags are left out.
\<close>

definition modal_template :: "tpl_opts \<Rightarrow> tpl_object \<Rightarrow> dom" where
  "modal_template to t =
     Elem (''div'' # cls (tp_className to))
       [Elem (''div'' # cls (tp_classHeaderName to))
          (Elem [''a'', ''.close''] [Text ''&times;'']
            # (if title_truthy (t_title t) then [Elem [''h3''] (case_option [] id (t_title t))] else [])),
        Elem (''div'' # cls (tp_classBodyName to))
          [Elem (''div'' # cls (tp_classPrependName to)) (t_prepend t),
           Elem (''div'' # cls (tp_classContentName to)) (case_option [] id (t_content t))],
        Elem (''div'' # cls (tp_classFooterName to)) (t_buttons t)]"

subsection \<open>\<open>render\<close>\<close>

text \<open>
  The title: with \<open>title: null\<close> the inner markup of the first match of
  \<open>titleSelector\<close>, whose matches are then removed; otherwise the literal (a string
  as text, \<open>undefined\<close> as it is, and nothing removed).
\<close>

definition take_title :: "render_opts \<Rightarrow> dom list \<Rightarrow> dom list option \<times> dom list" where
  "take_title p r =
     (case p_title p of
        Null \<Rightarrow> (html_first (query (sel_of (p_titleSelector p)) r), remove_sel (sel_of (p_titleSelector p)) r)
      | Val t \<Rightarrow> (Some (if t = [] then [] else [Text t]), r)
      | Undef \<Rightarrow> (None, r))"

text \<open>
  The prepend region: when \<open>prependContent\<close> is truthy, clones of all its matches
  (outer markup, in order), which are then removed; otherwise \<open><div />\<close>.
\<close>

definition take_prepend :: "render_opts \<Rightarrow> dom list \<Rightarrow> dom list \<times> dom list" where
  "take_prepend p r =
     (if js_truthy (p_prependContent p)
      then (query (sel_of (p_prependContent p)) r, remove_sel (sel_of (p_prependContent p)) r)
      else ([Elem [''div''] []], r))"

text \<open>The content: the inner markup of the first match of \<open>content\<close> when it is
  truthy, else that of \<open>$raw\<close>.\<close>

definition take_content :: "render_opts \<Rightarrow> dom list \<Rightarrow> dom list option" where
  "take_content p r =
     (if js_truthy (p_content p) then html_first (query (sel_of (p_content p)) r) else html_first r)"

text \<open>
  The buttons: every match of \<open>buttons\<close> inside \<open>$modal\<close> is hidden and a clone, taken
  before it is hidden, is appended to \<open>.pat-modal-buttons\<close>. A clone never contains
  an earlier match (those precede it in document order), so the clones are the matches
  as selected.
\<close>

definition setup_buttons :: "selector option \<Rightarrow> dom \<Rightarrow> dom" where
  "setup_buttons so m =
     (case hide_sel so [m] of
        [Elem a ch] \<Rightarrow> Elem a (append_into (query so [m]) ch)
      | _ \<Rightarrow> m)"

text \<open>
  The template object \<open>render\<close> builds from a clone of \<open>$raw\<close>: title, then prepend
  region, then content, each step reading what the previous ones left.
\<close>

definition extract_tpl :: "render_opts \<Rightarrow> dom list \<Rightarrow> tpl_object" where
  "extract_tpl p raw =
     (let (title, r1) = take_title p raw;
          (prepend, r2) = take_prepend p r1
      in \<lparr>t_title = title, t_prepend = prepend, t_content = take_content p r2,
          t_buttons = [Elem [''div'', ''.pat-modal-buttons''] []]\<rparr>)"

text \<open>
  \<open>render(options)\<close> after its guard on \<open>$raw\<close>: the template stamped with the
  extracted object, the buttons set up, the class \<open>row\<close> removed inside the node and
  \<open>className\<close> added to it. The listeners it binds (close link, \<open>destroy\<close>,
  \<open>resize\<close>), the actions bound by \<open>form\<close> and the mounting in the wrapper are
  modelled in \<open>Lifecycle\<close>, \<open>Actions\<close> and \<open>System\<close>.
\<close>

definition render_markup :: "render_opts \<Rightarrow> tpl_opts \<Rightarrow> dom list \<Rightarrow> dom" where
  "render_markup p to raw =
     (case setup_buttons (sel_of (p_buttons p)) (modal_template to (extract_tpl p raw)) of
        Elem a ch \<Rightarrow> Elem (fold add_atom (cls (tp_className to)) a) (unrow ch)
      | Text t \<Rightarrow> Text t)"

subsection \<open>Selection lemmas\<close>

lemma smatch_cf [simp]: "smatch (Selector [] c b) a anc = cmatch c a"
  by simp

lemma sel_all_cf_anc: "sel_all (Selector [] c b) anc f = sel_all (Selector [] c b) anc' f"
  by (induction "Selector [] c b" anc f arbitrary: anc' rule: sel_all.induct) (simp_all, metis)

lemma sel_all_cf_nil_iff:
  "sel_all (Selector [] c b) anc f = [] \<longleftrightarrow>
     (\<forall>n\<in>set f. case n of Elem a ch \<Rightarrow> \<not> cmatch c a \<and> sel_all (Selector [] c b) anc ch = [] | Text t \<Rightarrow> True)"
  by (induction f) (auto split: dom.split intro: sel_all_cf_anc[THEN trans])

lemma remove_all_cf_none: "sel_all (Selector [] c b) anc' (remove_all (Selector [] c b') anc f) = []"
  by (induction "Selector [] c b'" anc f arbitrary: anc' rule: remove_all.induct)
     (auto intro: sel_all_cf_anc[THEN trans])

lemma remove_all_keeps_none:
  "sel_all (Selector [] c b) anc f = [] \<Longrightarrow> sel_all (Selector [] c b) anc' (remove_all s anc'' f) = []"
  by (induction s anc'' f arbitrary: anc anc' rule: remove_all.induct)
     (auto intro: sel_all_cf_anc[THEN trans])

lemma edit_first_remove_keeps_none:
  "edit_first s (\<lambda>a ch. []) anc'' f = Some f' \<Longrightarrow> sel_all (Selector [] c b) anc f = []
     \<Longrightarrow> sel_all (Selector [] c b) anc' f' = []"
  by (induction s "\<lambda>(a::string list) (ch::dom list). ([]::dom list)" anc'' f arbitrary: anc anc' f'
        rule: edit_first.induct)
     (auto split: if_splits option.splits intro: sel_all_cf_anc[THEN trans])


lemma sel_all_member_sub:
  "Elem a ch \<in> set (sel_all s anc f) \<Longrightarrow> sel_all (Selector [] c b) anc' f = []
     \<Longrightarrow> sel_all (Selector [] c b) anc'' ch = []"
  by (induction s anc f arbitrary: anc' rule: sel_all.induct)
     (auto split: if_splits intro: sel_all_cf_anc[THEN trans])

lemma in_roots_nil_iff:
  "in_roots g rs = [] \<longleftrightarrow> (\<forall>a ch. Elem a ch \<in> set rs \<longrightarrow> g [a] ch = [])"
  by (induction rs) (auto simp: in_roots_def split: dom.splits)

lemma roots_first_remove_keeps_none:
  "roots_first s (\<lambda>a ch. []) rs = Some rs' \<Longrightarrow> in_roots (sel_all (Selector [] c b)) rs = []
     \<Longrightarrow> in_roots (sel_all (Selector [] c b)) rs' = []"
  by (induction s "\<lambda>(a::string list) (ch::dom list). ([]::dom list)" rs arbitrary: rs'
        rule: roots_first.induct)
     (auto simp: in_roots_def split: option.splits, metis edit_first_remove_keeps_none)

lemma on_roots_remove_all_none:
  "in_roots (sel_all (Selector [] c b)) (on_roots (remove_all (Selector [] c b')) rs) = []"
  by (induction rs) (auto simp: in_roots_def on_roots_def remove_all_cf_none split: dom.splits)

lemma on_roots_remove_keeps_none:
  "in_roots (sel_all (Selector [] c b)) rs = []
     \<Longrightarrow> in_roots (sel_all (Selector [] c b)) (on_roots (remove_all s) rs) = []"
  by (induction rs) (auto simp: in_roots_def on_roots_def split: dom.splits intro: remove_all_keeps_none)

lemma remove_sel_keeps_none:
  "in_roots (sel_all (Selector [] c b)) rs = []
     \<Longrightarrow> in_roots (sel_all (Selector [] c b)) (remove_sel so rs) = []"
  by (auto simp: remove_sel_def on_roots_remove_keeps_none split: option.splits
           dest: roots_first_remove_keeps_none)

lemma html_first_member: "html_first xs = Some f \<Longrightarrow> \<exists>a. Elem a f \<in> set xs"
  by (cases xs rule: html_first.cases) auto

lemma html_first_roots_none:
  "html_first rs = Some f \<Longrightarrow> in_roots (sel_all (Selector [] c b)) rs = []
     \<Longrightarrow> sel_all (Selector [] c b) anc f = []"
  by (auto simp: in_roots_nil_iff dest!: html_first_member intro: sel_all_cf_anc[THEN trans])

lemma query_member:
  assumes "x \<in> set (query so rs)"
  obtains s a ch where "Elem a ch \<in> set rs" "x \<in> set (sel_all s [a] ch)"
  using assms by (auto simp: query_def in_roots_def Let_def split: option.splits if_splits dom.splits
                       dest!: in_set_takeD)

lemma html_first_query_none:
  assumes "html_first (query so rs) = Some f" and "in_roots (sel_all (Selector [] c b)) rs = []"
  shows "sel_all (Selector [] c b) anc f = []"
proof -
  obtain a where "Elem a f \<in> set (query so rs)"
    using html_first_member [OF assms(1)] by blast
  then obtain s a' ch where "Elem a' ch \<in> set rs" "Elem a f \<in> set (sel_all s [a'] ch)"
    by (rule query_member)
  with assms(2) show ?thesis
    by (auto simp: in_roots_nil_iff intro: sel_all_member_sub)
qed


lemma sel_of_Some_truthy: "sel_of v = Some s \<Longrightarrow> js_truthy v"
  by (cases v) (auto simp: sel_of_def split: if_splits)

lemma remove_sel_cf_none:
  "in_roots (sel_all (Selector [] c b)) (remove_sel (Some (Selector [] c False)) rs) = []"
  by (simp add: remove_sel_def on_roots_remove_all_none)

lemma take_prepend_keeps_none:
  "take_prepend p r = (x, r') \<Longrightarrow> in_roots (sel_all (Selector [] c b)) r = []
     \<Longrightarrow> in_roots (sel_all (Selector [] c b)) r' = []"
  by (auto simp: take_prepend_def split: if_splits intro: remove_sel_keeps_none)

lemma take_content_none:
  "take_content p r = Some f \<Longrightarrow> in_roots (sel_all (Selector [] c b)) r = []
     \<Longrightarrow> sel_all (Selector [] c b) anc f = []"
  by (auto simp: take_content_def split: if_splits intro: html_first_query_none html_first_roots_none)

text \<open>
  Claim C16: what \<open>render\<close> extracts does not reappear in the dialog body. When the
  prepend selector, or with \<open>title: null\<close> the title selector, is a single compound
  without \<open>:first\<close>, the content slot holds no element matching it, at any depth:
  every match was moved to the prepend region or removed as the title before the content
  was read. For a title selector without \<open>:first\<close> this removes every match, not only
  the first one that became the title.
\<close>

theorem content_excludes_extracted:
  assumes sel: "sel_of (p_prependContent p) = Some (Selector [] c False)
                \<or> (p_title p = Null \<and> sel_of (p_titleSelector p) = Some (Selector [] c False))"
      and content: "t_content (extract_tpl p raw) = Some f"
  shows "sel_all (Selector [] c b) anc f = []"
proof -
  obtain title r1 where t: "take_title p raw = (title, r1)" by fastforce
  obtain pre r2 where pr: "take_prepend p r1 = (pre, r2)" by fastforce
  have "in_roots (sel_all (Selector [] c b)) r2 = []"
    using sel
  proof
    assume ps: "sel_of (p_prependContent p) = Some (Selector [] c False)"
    then have "js_truthy (p_prependContent p)" by (rule sel_of_Some_truthy)
    with pr ps show ?thesis by (auto simp add: take_prepend_def remove_sel_cf_none)
  next
    assume "p_title p = Null \<and> sel_of (p_titleSelector p) = Some (Selector [] c False)"
    with t have "in_roots (sel_all (Selector [] c b)) r1 = []"
      by (auto simp: take_title_def remove_sel_cf_none)
    with pr show ?thesis by (rule take_prepend_keeps_none)
  qed
  moreover have "take_content p r2 = Some f"
    using content t pr by (simp add: extract_tpl_def)
  ultimately show ?thesis by (blast intro: take_content_none)
qed

theorem content_excludes_extracted_witness:
  "sel_of (p_prependContent default_render_opts) = Some (Selector [] [''.portalMessage''] False)
   \<and> t_content (extract_tpl default_render_opts
        [Elem [''div''] [Elem [''div'', ''.portalMessage''] [Text ''Saved''],
          Elem [''div'', ''#content''] [Elem [''div'', ''.portalMessage''] [Text ''Info''], Elem [''p''] [Text ''x'']]]]) = Some [Elem [''p''] [Text ''x'']]
   \<and> sel_all (Selector [] [''.portalMessage''] False) [] [Elem [''p''] [Text ''x'']] = []"
  using content_excludes_extracted [of default_render_opts "[''.portalMessage'']"
      "[Elem [''div''] [Elem [''div'', ''.portalMessage''] [Text ''Saved''],
          Elem [''div'', ''#content''] [Elem [''div'', ''.portalMessage''] [Text ''Info''], Elem [''p''] [Text ''x'']]]]"]
  by (simp add: default_render_opts_def sel_of_def parse_sel_def extract_tpl_def take_title_def
      take_prepend_def take_content_def query_def in_roots_def remove_sel_def on_roots_def cmatch_def)


lemma query_none: "in_roots (sel_all s) r = [] \<Longrightarrow> query (Some s) r = []"
  by (simp add: query_def)

lemma take_title_keeps_none:
  "take_title p r = (x, r') \<Longrightarrow> in_roots (sel_all (Selector [] c b)) r = []
     \<Longrightarrow> in_roots (sel_all (Selector [] c b)) r' = []"
  by (auto simp: take_title_def split: js_val.splits intro: remove_sel_keeps_none)

text \<open>
  Claim C18: when the \<open>content\<close> selector matches no descendant of \<open>$raw\<close>, the
  content slot is \<open>undefined\<close> and the template prints an empty body, whatever
  \<open>$raw\<close> holds. The elements of the \<open>$raw\<close> set are never matched themselves, so an
  \<open>html\<close> option or \<open>target\<close> whose top-level element is \<open>#content\<close> renders empty.
\<close>

theorem missing_content_renders_empty:
  assumes "sel_of (p_content p) = Some (Selector [] c b)"
      and "in_roots (sel_all (Selector [] c b)) raw = []"
  shows "t_content (extract_tpl p raw) = None"
proof -
  obtain title r1 where t: "take_title p raw = (title, r1)" by fastforce
  obtain pre r2 where pr: "take_prepend p r1 = (pre, r2)" by fastforce
  have "in_roots (sel_all (Selector [] c b)) r2 = []"
    using take_prepend_keeps_none [OF pr take_title_keeps_none [OF t assms(2)]] .
  moreover have "js_truthy (p_content p)" using assms(1) by (rule sel_of_Some_truthy)
  ultimately show ?thesis
    using t pr assms(1) by (simp add: extract_tpl_def take_content_def query_none)
qed

theorem missing_content_renders_empty_witness:
  "sel_of (p_content default_render_opts) = Some (Selector [] [''#content''] False)
   \<and> t_content (extract_tpl default_render_opts [Elem [''div'', ''#content''] [Text ''Body'']]) = None"
  using missing_content_renders_empty [of default_render_opts "[''#content'']" False
          "[Elem [''div'', ''#content''] [Text ''Body'']]"]
  by (simp add: default_render_opts_def sel_of_def parse_sel_def in_roots_def)


lemma sel_all_member_none:
  "x \<in> set (sel_all s anc f) \<Longrightarrow> sel_all (Selector [] c b) anc' f = []
     \<Longrightarrow> sel_all (Selector [] c b) anc'' [x] = []"
  by (induction s anc f arbitrary: anc' rule: sel_all.induct)
     (auto split: if_splits intro: sel_all_cf_anc[THEN trans])

lemma sel_all_append [simp]: "sel_all s anc (xs @ ys) = sel_all s anc xs @ sel_all s anc ys"
  by (induction xs arbitrary: ys rule: sel_all.induct) auto

lemma sel_all_none_each:
  "(\<And>x. x \<in> set xs \<Longrightarrow> sel_all s anc [x] = []) \<Longrightarrow> sel_all s anc xs = []"
proof (induction xs)
  case (Cons x xs)
  have "sel_all s anc (x # xs) = sel_all s anc [x] @ sel_all s anc xs"
    using sel_all_append [of s anc "[x]" xs] by simp
  with Cons show ?case by simp
qed simp

lemma query_none_members:
  assumes "in_roots (sel_all (Selector [] c b)) rs = []"
  shows "sel_all (Selector [] c b) anc (query so rs) = []"
proof (rule sel_all_none_each)
  fix x assume "x \<in> set (query so rs)"
  then obtain s a ch where "Elem a ch \<in> set rs" "x \<in> set (sel_all s [a] ch)"
    by (rule query_member)
  with assms show "sel_all (Selector [] c b) anc [x] = []"
    by (auto simp: in_roots_nil_iff intro: sel_all_member_none)
qed

lemma append_into_id:
  "sel_all (Selector [] [''.pat-modal-buttons''] b) anc f = [] \<Longrightarrow> append_into bs f = f"
  by (induction bs f arbitrary: anc rule: append_into.induct)
     (auto simp: cmatch_def intro: sel_all_cf_anc[THEN trans])

lemma cmatch_add_hidden [simp]: "'':hidden'' \<notin> set c \<Longrightarrow> cmatch c (add_atom '':hidden'' a) = cmatch c a"
  by (auto simp: cmatch_def add_atom_def)

lemma hide_all_keeps_none:
  "sel_all (Selector [] c b) anc f = [] \<Longrightarrow> '':hidden'' \<notin> set c
     \<Longrightarrow> sel_all (Selector [] c b) anc' (hide_all s anc'' f) = []"
  by (induction s anc'' f arbitrary: anc anc' rule: hide_all.induct)
     (auto intro: sel_all_cf_anc[THEN trans])


lemma extract_slots_none:
  assumes "in_roots (sel_all (Selector [] c b)) raw = []" and "\<not> cmatch c [''div'']"
  shows "case_option [] id (t_title (extract_tpl p raw)) = f \<Longrightarrow> sel_all (Selector [] c b) anc f = []"
    and "sel_all (Selector [] c b) anc (t_prepend (extract_tpl p raw)) = []"
    and "case_option [] id (t_content (extract_tpl p raw)) = f \<Longrightarrow> sel_all (Selector [] c b) anc f = []"
proof -
  obtain title r1 where t: "take_title p raw = (title, r1)" by fastforce
  obtain pre r2 where pr: "take_prepend p r1 = (pre, r2)" by fastforce
  have r1: "in_roots (sel_all (Selector [] c b)) r1 = []"
    by (rule take_title_keeps_none [OF t assms(1)])
  have r2: "in_roots (sel_all (Selector [] c b)) r2 = []"
    by (rule take_prepend_keeps_none [OF pr r1])
  show "case_option [] id (t_title (extract_tpl p raw)) = f \<Longrightarrow> sel_all (Selector [] c b) anc f = []"
    using t assms(1)
    by (auto simp: extract_tpl_def pr take_title_def split: js_val.splits option.splits
             intro: html_first_query_none)
  show "sel_all (Selector [] c b) anc (t_prepend (extract_tpl p raw)) = []"
    using pr r1 assms(2) by (auto simp: extract_tpl_def t take_prepend_def split: if_splits intro: query_none_members)
  show "case_option [] id (t_content (extract_tpl p raw)) = f \<Longrightarrow> sel_all (Selector [] c b) anc f = []"
    using r2 by (auto simp: extract_tpl_def t pr split: option.splits intro: take_content_none)
qed

lemma append_into_hide_id:
  "sel_all (Selector [] [''.pat-modal-buttons''] b) anc f = []
     \<Longrightarrow> append_into bs (hide_all s anc' f) = hide_all s anc' f"
  by (rule append_into_id [of b anc]) (rule hide_all_keeps_none [of _ _ anc], simp_all)

lemma cls_defaults [simp]:
  "cls ''modal'' = [''.modal'']" "cls ''modal-header'' = [''.modal-header'']"
  "cls ''modal-body'' = [''.modal-body'']" "cls ''modal-footer'' = [''.modal-footer'']" "cls [] = []"
  by (simp_all add: cls_def)

lemma t_buttons_extract [simp]: "t_buttons (extract_tpl p raw) = [Elem [''div'', ''.pat-modal-buttons''] []]"
  by (simp add: extract_tpl_def split: prod.split)

text \<open>
  Claim C17: with the default \<open>buttons\<close> selector and template, the footer of the
  rendered dialog holds exactly one \<open>.pat-modal-buttons\<close> container whose children
  are the proxies of the matched buttons, in document order, when the response has no
  \<open>.pat-modal-buttons\<close> element of its own.
\<close>

theorem buttons_relocated:
  assumes btn: "p_buttons p = p_buttons default_render_opts"
      and raw: "in_roots (sel_all (Selector [] [''.pat-modal-buttons''] False)) raw = []"
  shows "\<exists>h bd. render_markup p default_tpl_opts raw =
           Elem [''div'', ''.modal'']
             [h, bd, Elem [''div'', ''.modal-footer'']
                       [Elem [''div'', ''.pat-modal-buttons'']
                          (unrow (query (sel_of (p_buttons p))
                                   [modal_template default_tpl_opts (extract_tpl p raw)]))]]"
proof -
  let ?T = "extract_tpl p raw"
  have nd: "\<not> cmatch [''.pat-modal-buttons''] [''div'']" by (simp add: cmatch_def)
  note slots = extract_slots_none [OF raw nd, where p = p]
  have ti: "sel_all (Selector [] [''.pat-modal-buttons''] False) anc (case_option [] id (t_title ?T)) = []"
    for anc by (rule slots(1)) simp
  have pp: "sel_all (Selector [] [''.pat-modal-buttons''] False) anc (t_prepend ?T) = []"
    for anc by (rule slots(2))
  have co: "sel_all (Selector [] [''.pat-modal-buttons''] False) anc (case_option [] id (t_content ?T)) = []"
    for anc by (rule slots(3)) simp
  show ?thesis
    using btn ti pp co
    by (simp add: render_markup_def setup_buttons_def hide_sel_def on_roots_def modal_template_def
        default_tpl_opts_def default_render_opts_def sel_of_def parse_sel_def cmatch_def add_atom_def
        append_into_hide_id)
qed


theorem buttons_relocated_witness:
  "p_buttons default_render_opts = p_buttons default_render_opts
   \<and> in_roots (sel_all (Selector [] [''.pat-modal-buttons''] False))
       [Elem [''div''] [Elem [''h1''] [Text ''Edit''],
         Elem [''div'', ''#content''] [Elem [''div'', ''.formControls'', ''.row''] [Elem [''input'', (''[type='' @ [CHR 0x22] @ ''submit'' @ [CHR 0x22] @ '']'')] []]]]] = []
   \<and> (\<exists>h bd. render_markup default_render_opts default_tpl_opts
       [Elem [''div''] [Elem [''h1''] [Text ''Edit''],
         Elem [''div'', ''#content''] [Elem [''div'', ''.formControls'', ''.row''] [Elem [''input'', (''[type='' @ [CHR 0x22] @ ''submit'' @ [CHR 0x22] @ '']'')] []]]]]
       = Elem [''div'', ''.modal'']
           [h, bd, Elem [''div'', ''.modal-footer'']
                     [Elem [''div'', ''.pat-modal-buttons''] [Elem [''input'', (''[type='' @ [CHR 0x22] @ ''submit'' @ [CHR 0x22] @ '']'')] []]]])"
  using buttons_relocated [of default_render_opts
      "[Elem [''div''] [Elem [''h1''] [Text ''Edit''],
         Elem [''div'', ''#content''] [Elem [''div'', ''.formControls'', ''.row''] [Elem [''input'', (''[type='' @ [CHR 0x22] @ ''submit'' @ [CHR 0x22] @ '']'')] []]]]]"]
  by (simp add: in_roots_def cmatch_def query_def modal_template_def default_tpl_opts_def
      default_render_opts_def sel_of_def parse_sel_def extract_tpl_def take_title_def take_prepend_def
      take_content_def remove_sel_def on_roots_def)

end
