(* ===== verification/Spec2Isabelle.thy ===== *)
theory Spec2Isabelle
  imports Position Config Lifecycle Actions System Init_Options Nodes Renderer
begin

text \<open>
  \<^bold>\<open>Verification development of the modal pattern\<close> (\<open>src/js/patterns/modal.js\<close>, the
  only source file of the repository).

  \<^bold>\<open>The program.\<close> \<open>Modal\<close> is a jQuery pattern: \<open>init\<close> builds (or reuses) a
  backdrop and a wrapper shared by every instance under the same ancestor (the loading
  indicator is looked up in the instance's own inner wrapper, line 467, so each instance
  has its own), registers trigger, Escape, wrapper-click and backdrop-\<open>hidden\<close> listeners
  and picks a content strategy (\<open>initModal\<close>); \<open>show\<close> runs that strategy, which
  ends in \<open>_show\<close> (\<open>render\<close>, backdrop and wrapper shown, node marked active,
  \<open>positionModal\<close>); \<open>render\<close> stamps the template and, through the \<open>form\<close>
  option, binds the configured actions; an action submits a form or fetches a link in the
  background and \<open>redraw\<close>s the dialog or destroys it; \<open>hide\<close> tears the node down and
  hides the shared parts when no sibling dialog remains.

  \<^bold>\<open>Theories and what they model.\<close>
  \<^item> \<open>Prelude\<close>: JavaScript values read from options (\<open>js_val\<close>: absent, \<open>null\<close>, a
    value), truthiness, \<open>$.extend\<close> on one key (\<open>js_extend\<close>), \<open>split\<close>/\<open>join\<close>,
    CSS values, the \<open>TypeError\<close> result type and shared list lemmas.
  \<^item> \<open>Position\<close> (PositionEngine): \<open>findPosition\<close> as \<open>hor_position\<close> and
    \<open>vert_position\<close> (the object it returns, in insertion order), \<open>positionModal\<close>
    (margin option, \<open>position\<close> split at spaces, CSS written in order) and
    \<open>positionLoading\<close>. The DOM measurements are the fields of a \<open>layout\<close> record.
  \<^item> \<open>Config\<close> (ContentAcquirer, choice): the options that select the content,
    \<open>init\<close>'s rewriting of them for a link trigger (\<open>init_from_link\<close>) and
    \<open>initModal\<close>, refined against an abstract priority list.
  \<^item> \<open>Lifecycle\<close> (ModalLifecycle, ContentAcquirer, Renderer's effect): the shared
    \<open>scope\<close> (instances in init order, backdrop/wrapper flags, the instances whose loading
    indicator is shown, mounted
    \<open>.modal\<close> nodes, creation requests in flight, window resize listeners, event log);
    \<open>init_inst\<close>, \<open>render\<close>, \<open>show_rendered\<close> (\<open>_show\<close>), \<open>showLoading\<close>,
    \<open>createAjaxModal\<close> and the other strategies (\<open>create\<close>), \<open>show_modal\<close>,
    request completion and failure (\<open>ajax_done\<close>, \<open>ajax_fail\<close>), \<open>hide\<close> (split into
    \<open>abort_xhr\<close>, \<open>hide_shared\<close>, \<open>hide_remove\<close>; \<open>loading_off\<close> is an
    instance's \<open>$loading.hide()\<close>), the listeners \<open>escape_key\<close>,
    \<open>wrapper_click\<close> and \<open>hidden_listeners\<close>, \<open>redraw\<close>; \<open>step\<close> on an
    \<open>event\<close> datatype, \<open>run\<close> and the \<open>reachable\<close> relation.
  \<^item> \<open>Actions\<close> (ActionDispatcher): \<open>actionOptions\<close> and their merge
    (\<open>merge_action\<close>), the action list \<open>form\<close> builds (\<open>form_actions\<close>,
    \<open>obj_set\<close>), the classification of a bound event (\<open>classify\<close>,
    \<open>dispatch_action\<close>; a form action on an element outside any form submits an empty
    \<open>$form\<close>, which sends nothing), the URLs and requests of \<open>handleFormAction\<close> and
    \<open>handleLinkAction\<close>, and each of their callbacks as the list of effects it
    produces in order (\<open>form_error\<close>, \<open>form_success\<close> with \<open>form_redirect\<close> and
    \<open>form_settle\<close>, \<open>link_error\<close>, \<open>link_success\<close>); \<open>patternOptions\<close>
    (\<open>pattern_options\<close>).
  \<^item> \<open>System\<close>: the composition. A \<open>system\<close> is a lifecycle scope with the action
    requests in flight and the effects on the page outside the dialog. \<open>fire\<close> is the
    bound handler (\<open>showLoading(false)\<close>, then the dispatch), \<open>act_done\<close> and
    \<open>act_fail\<close> apply a callback's effects to the scope through \<open>apply_effect\<close>
    (a redraw is \<open>Lifecycle.redraw\<close>, the \<open>destroy\<close> event reaches \<open>hide\<close> while
    the action's node is mounted, \<open>$loading.hide()\<close> clears the instance's indicator); \<open>run_method\<close> is the
    string-method call of the jQuery plugin wrapper, which raises a \<open>TypeError\<close> for a
    name that is not a method of \<open>Modal\<close> (\<open>modal_methods\<close>).
    \<open>sys_step\<close> and \<open>sys_reachable\<close> close the system under lifecycle and action
    events.
  \<^item> \<open>Init_Options\<close>: the \<open>triggers\<close> option cut into bindings with JavaScript
    \<open>indexOf\<close>/\<open>substring\<close> semantics, and the z-index of a created wrapper with
    \<open>parseInt\<close>.
  \<^item> \<open>Renderer\<close> (Renderer): the markup \<open>render\<close> builds. A document is a forest of
    elements (their atoms: tag, classes, id, attributes, \<open>:hidden\<close>) and text nodes;
    jQuery's \<open>$(sel, $set)\<close>, \<open>.html()\<close>, \<open>.remove()\<close> and \<open>.hide()\<close> are
    modelled for compound selectors joined by child and descendant combinators, with
    \<open>:first\<close> (\<open>parse_sel\<close>, \<open>sel_all\<close>, \<open>query\<close>, \<open>remove_sel\<close>,
    \<open>hide_sel\<close>). The default \<open>templateOptions\<close> and template (\<open>tpl_opts\<close>,
    \<open>modal_template\<close>), the title, prepend and content extraction in the code's order
    (\<open>take_title\<close>, \<open>take_prepend\<close>, \<open>take_content\<close>, \<open>extract_tpl\<close>), the
    button proxies (\<open>setup_buttons\<close>), the \<open>.row\<close> clean-up and \<open>className\<close>
    (\<open>render_markup\<close>). \<open>Lifecycle.render\<close> is the same operation seen from the
    scope: which node is mounted, not what it contains.
  \<^item> \<open>Nodes\<close>: the identities of the rendered nodes. \<open>nodes_wf\<close> (distinct, issued
    by the counter, owned by an existing instance) and stale nodes (in the wrapper but
    no instance's \<open>$modal\<close>), with one preservation lemma of \<open>node_inv\<close> per
    operation of Lifecycle and System.

  \<^bold>\<open>What the lemmas show.\<close> Lifecycle: the shared backdrop and wrapper are hidden exactly
  when the last dialog is hidden, together with that instance's loading indicator; no event
  of a reachable scope raises (invariant \<open>scope_inv\<close> by rule induction); hide
  re-installs the strategy; Escape on a single instance. As findings: a second
  \<open>show\<close> of a remote dialog leaves two requests in flight, and for every scope in which a
  creation request is superseded (\<open>superseded\<close>), \<open>hide\<close> does not cancel it and its
  completion shows the dialog again; after a redraw a closing wrapper click hides only the
  backdrop when no other dialog is active; hiding the only active dialog triggers
  \<open>hide\<close> and \<open>hidden\<close> twice. Actions: the marker check, exactly one settling effect per
  marker-free response, transport errors never change the dialog, the layered resolution of
  action options (a refinement); findings on the default \<open>redirectToUrl\<close>, the link
  path's missing marker check, the timeout arguments, the classification of elements
  without \<open>ajaxUrl\<close>, the options of \<open>a\<close>, and the precedence of
  \<open>patternOptions\<close>. System: every action request in flight belongs to an instance with
  a node (invariant \<open>sys_inv\<close>, one preservation lemma per operation), so completions
  never raise except through the default redirect; the specification's field-error scenario;
  for every form completion that does not destroy the dialog the instance's loading
  indicator stays shown (a link completion hides it); a form action outside any form leaves
  the indicator shown and the backdrop unclosable with nothing sent. Position: the anchored
  and centred offsets, the defaults, and that a centred dialog's border box sits one margin
  left of and above the container's centre, because \<open>outerWidth(true)\<close> already holds
  the margins. Init_Options: trigger parsing and its dead fallback, the
  \<open>parseInt\<close>/\<open>String\<close> round trip of the z-index. Nodes: the well-formedness of
  node identities in every reachable state, and the failure of a liveness property: a
  reachable state with no active dialog from which no run of events hides the wrapper again,
  because two stale nodes are never removed. Renderer: no element matching the prepend
  selector (or a title selector without \<open>:first\<close>) remains in the body, since every
  match is moved or removed first; the default buttons end up as proxies in the footer, in
  order; and, as findings, a content selector that matches no descendant of \<open>$raw\<close>
  (a top-level \<open>#content\<close> included) renders an empty body, a title selector without
  \<open>:first\<close> removes every heading.

  \<^bold>\<open>Bounds and fuel.\<close> The backdrop's \<open>hidden\<close> broadcast calls \<open>hide\<close>, which calls
  \<open>backdrop.hide()\<close> again; \<open>backdrop_hide\<close> takes the nesting depth as fuel and
  \<open>hide\<close> uses depth 1. \<open>Lifecycle.backdrop_hide_enough\<close> proves that every depth
  \<open>n \<ge> 1\<close> gives the same result, because the nested call finds the backdrop already
  hidden. No other loop of the model needs fuel: the listeners are folds over the
  instance list, \<open>nat_digits\<close> recurses on \<open>n div 10\<close> and the DOM traversals of
  \<open>Renderer\<close> recurse on the size of the forest. JavaScript numbers are
  exact rationals (pixel arithmetic only adds, subtracts and halves) and integers
  (\<open>parseInt\<close>); double rounding is not modelled.

  \<^bold>\<open>Modelling choices.\<close> In the lifecycle, content is kept as its provenance
  (\<open>raw_frag\<close>); its markup is the subject of \<open>Renderer\<close>. A response is its body, the selectors that match in it and its first
  \<open>base\<close> tag. Callbacks of the configuration are present or absent: what user code
  does inside them is outside the model (an effect recorded in \<open>outside\<close>).
  Node and request identities come from one counter (\<open>fresh\<close>).

  \<^bold>\<open>Not modelled.\<close> The Backdrop pattern is not in the repository. Its \<open>show\<close>,
  \<open>hide\<close> and \<open>hidden\<close> contract is modelled from the specification
  (\<open>backdrop_hide\<close>). The templating engine is modelled only through the default
  template, stamped as a DOM tree (whitespace-only text nodes left out, a literal title
  as a text node); user templates are not. The HTTP transport (\<open>$.ajax\<close>,
  \<open>jquery.form\<close> serialisation), the registry scan and the router are libraries the
  pattern only calls: the router's match is the lifecycle's \<open>Show\<close> event and the
  registration in \<open>init\<close> (\<open>routerOptions\<close>) changes no state of the pattern, a scan
  has no effect on the modelled state. jQuery selectors beyond compounds, child and
  descendant combinators and \<open>:first\<close> (other pseudo-classes, attribute values with
  spaces or dots, selector lists) are not parsed; a button selector that matches the
  footer container itself is outside \<open>setup_buttons\<close>. Window resize and image load call
  \<open>positionModal\<close>, whose result is \<open>Position.positionModal\<close> for the current
  layout; the listeners are tracked (\<open>resize_hooks\<close>) but the layout is not part of
  the scope.
\<close>

end
